theory Spec2Isabelle
  imports Complex_Main
begin

section \<open>Tensors and Python values\<close>

text \<open>
  The program is \<^verbatim>\<open>convex_adversarial/dual.py\<close>: dual bound propagation through a
  feed-forward network.  Its data are torch tensors.  The embedding keeps the batch
  dimension and the certificate dimension as list structure and stores the feature
  dimensions of one example flattened in row-major order, as torch stores a contiguous
  tensor:

  \<^item> a tensor of shape \<^verbatim>\<open>(batch, *features)\<close> is a \<open>mat\<close>, one \<open>vec\<close> per example;
  \<^item> a tensor of shape \<^verbatim>\<open>(batch, k, *features)\<close> is a list of \<open>mat\<close>s;
  \<^item> \<^verbatim>\<open>view\<close> between feature shapes is the identity on the flattened data.

  Floating-point numbers are modelled by the reals (the constant \<^verbatim>\<open>1e-5\<close> by
  \<open>1 / 100000\<close>).  A torch primitive that is given operands of incompatible shapes
  raises in the source; the list functions below are total and compute on the common
  prefix instead, so the statements of this theory are about well-shaped operands.
  What is modelled as an error value is every \<^verbatim>\<open>raise\<close> of the source, the failures of
  Python itself (a missing attribute, an index out of range) and \<^verbatim>\<open>torch.cat\<close> of an
  empty list.
\<close>

type_synonym vec = "real list"
type_synonym mat = "real list list"

datatype error =
    ValueError string
  | RuntimeError string
  | AttributeError string
  | IndexError string
  | TypeError string
  | AssertionError

text \<open>
  A tensor value: a Python number (the \<^verbatim>\<open>0\<close> that \<^verbatim>\<open>sum\<close> starts from and that several
  \<^verbatim>\<open>fval\<close> methods return), a tensor \<^verbatim>\<open>(*features)\<close> without a batch dimension, a tensor
  \<^verbatim>\<open>(batch, *features)\<close>, or a tensor \<^verbatim>\<open>(batch, k, *features)\<close>.
\<close>

datatype tensor = Num real | T1 vec | T2 mat | T3 "mat list"

definition ebind :: "error + 'a \<Rightarrow> ('a \<Rightarrow> error + 'b) \<Rightarrow> error + 'b" where
  "ebind m f = (case m of Inl e \<Rightarrow> Inl e | Inr v \<Rightarrow> f v)"

fun emap :: "('a \<Rightarrow> error + 'b) \<Rightarrow> 'a list \<Rightarrow> error + 'b list" where
  "emap f [] = Inr []"
| "emap f (x # xs) =
     (case f x of
        Inl e \<Rightarrow> Inl e
      | Inr y \<Rightarrow> (case emap f xs of Inl e \<Rightarrow> Inl e | Inr ys \<Rightarrow> Inr (y # ys)))"

text \<open>\<^verbatim>\<open>xs[-1]\<close> of a Python list.\<close>

definition py_last :: "'a list \<Rightarrow> error + 'a" where
  "py_last xs = (case xs of [] \<Rightarrow> Inl (IndexError ''list index out of range'') | _ \<Rightarrow> Inr (last xs))"

subsection \<open>Element-wise operations with broadcasting\<close>

text \<open>
  Torch broadcasts a dimension of size one against any size.  This happens on the batch
  and certificate dimensions (the identity certificate has batch size one); the flattened
  features of two operands always have the same length.
\<close>

definition bcast2 :: "('a \<Rightarrow> 'b \<Rightarrow> 'c) \<Rightarrow> 'a list \<Rightarrow> 'b list \<Rightarrow> 'c list" where
  "bcast2 f xs ys =
     (case xs of
        [x] \<Rightarrow> map (f x) ys
      | _ \<Rightarrow> (case ys of [y] \<Rightarrow> map (\<lambda>x. f x y) xs | _ \<Rightarrow> map2 f xs ys))"

fun tbin :: "(real \<Rightarrow> real \<Rightarrow> real) \<Rightarrow> tensor \<Rightarrow> tensor \<Rightarrow> tensor" where
  "tbin f (Num a) (Num b) = Num (f a b)"
| "tbin f (Num a) (T1 y) = T1 (map (f a) y)"
| "tbin f (Num a) (T2 y) = T2 (map (map (f a)) y)"
| "tbin f (Num a) (T3 y) = T3 (map (map (map (f a))) y)"
| "tbin f (T1 x) (Num b) = T1 (map (\<lambda>v. f v b) x)"
| "tbin f (T1 x) (T1 y) = T1 (map2 f x y)"
| "tbin f (T1 x) (T2 y) = T2 (map (map2 f x) y)"
| "tbin f (T1 x) (T3 y) = T3 (map (map (map2 f x)) y)"
| "tbin f (T2 x) (Num b) = T2 (map (map (\<lambda>v. f v b)) x)"
| "tbin f (T2 x) (T1 y) = T2 (map (\<lambda>r. map2 f r y) x)"
| "tbin f (T2 x) (T2 y) = T2 (bcast2 (map2 f) x y)"
| "tbin f (T2 x) (T3 y) = T3 (bcast2 (bcast2 (map2 f)) [x] y)"
| "tbin f (T3 x) (Num b) = T3 (map (map (map (\<lambda>v. f v b))) x)"
| "tbin f (T3 x) (T1 y) = T3 (map (map (\<lambda>r. map2 f r y)) x)"
| "tbin f (T3 x) (T2 y) = T3 (bcast2 (bcast2 (map2 f)) x [y])"
| "tbin f (T3 x) (T3 y) = T3 (bcast2 (bcast2 (map2 f)) x y)"

definition tadd :: "tensor \<Rightarrow> tensor \<Rightarrow> tensor" where
  "tadd = tbin (+)"

definition tsub :: "tensor \<Rightarrow> tensor \<Rightarrow> tensor" where
  "tsub = tbin (-)"

definition tmul :: "tensor \<Rightarrow> tensor \<Rightarrow> tensor" where
  "tmul = tbin (*)"

definition tdiv :: "tensor \<Rightarrow> tensor \<Rightarrow> tensor" where
  "tdiv = tbin (/)"

fun tmap :: "(real \<Rightarrow> real) \<Rightarrow> tensor \<Rightarrow> tensor" where
  "tmap f (Num a) = Num (f a)"
| "tmap f (T1 x) = T1 (map f x)"
| "tmap f (T2 x) = T2 (map (map f) x)"
| "tmap f (T3 x) = T3 (map (map (map f)) x)"

text \<open>Python's \<^verbatim>\<open>sum\<close> of tensors starts from the number 0.\<close>

definition py_sum :: "tensor list \<Rightarrow> tensor" where
  "py_sum ts = foldl tadd (Num 0) ts"

definition dot :: "vec \<Rightarrow> vec \<Rightarrow> real" where
  "dot x y = sum_list (map2 (*) x y)"

text \<open>\<^verbatim>\<open>F.linear(x, W)\<close> without bias, on the last dimension: \<open>W\<close> has one row per output.
  It raises when \<open>x\<close> is a Python number and not a tensor (the class of the exception
  depends on the version of torch).\<close>

definition linear :: "mat \<Rightarrow> vec \<Rightarrow> vec" where
  "linear W x = map (\<lambda>row. dot row x) W"

fun F_linear :: "tensor \<Rightarrow> mat \<Rightarrow> error + tensor" where
  "F_linear (Num a) W = Inl (TypeError ''linear(): argument input must be Tensor'')"
| "F_linear (T1 x) W = Inr (T1 (linear W x))"
| "F_linear (T2 x) W = Inr (T2 (map (linear W) x))"
| "F_linear (T3 x) W = Inr (T3 (map (map (linear W)) x))"

text \<open>\<^verbatim>\<open>t.abs().sum(1)\<close> and \<^verbatim>\<open>torch.median(t.abs(), 1)[0]\<close> reduce the certificate dimension;
  \<^verbatim>\<open>torch.median\<close> returns the lower of the two middle values.\<close>

definition median :: "real list \<Rightarrow> real" where
  "median xs = sort xs ! ((length xs - 1) div 2)"

definition abs_sum1 :: "mat list \<Rightarrow> mat" where
  "abs_sum1 t = map (\<lambda>rows. map sum_list (transpose (map (map abs) rows))) t"

definition abs_median1 :: "mat list \<Rightarrow> mat" where
  "abs_median1 t = map (\<lambda>rows. map median (transpose (map (map abs) rows))) t"

definition tol :: real where
  "tol = 1 / 100000"

subsection \<open>Boolean masks: \<^verbatim>\<open>t[I]\<close>, \<^verbatim>\<open>I.sum()\<close> and assignment through a mask\<close>

definition mask_sum :: "bool list list \<Rightarrow> nat" where
  "mask_sum I = length (filter (\<lambda>b. b) (concat I))"

text \<open>\<^verbatim>\<open>t[I]\<close>: the selected entries in row-major order.\<close>

definition select :: "bool list \<Rightarrow> 'a list \<Rightarrow> 'a list" where
  "select bs xs = map snd (filter fst (zip bs xs))"

definition masked_select :: "bool list list \<Rightarrow> 'a list list \<Rightarrow> 'a list" where
  "masked_select I t = select (concat I) (concat t)"

text \<open>\<^verbatim>\<open>t[I] = vs\<close>: the selected positions take the values of \<open>vs\<close> in order.\<close>

fun masked_put :: "bool list \<Rightarrow> 'a list \<Rightarrow> 'a list \<Rightarrow> 'a list" where
  "masked_put (True # bs) (x # xs) (v # vs) = v # masked_put bs xs vs"
| "masked_put (False # bs) (x # xs) vs = x # masked_put bs xs vs"
| "masked_put bs xs vs = xs"

fun unconcat :: "'b list list \<Rightarrow> 'a list \<Rightarrow> 'a list list" where
  "unconcat [] ys = []"
| "unconcat (r # rs) ys = take (length r) ys # unconcat rs (drop (length r) ys)"

definition masked_assign :: "bool list list \<Rightarrow> 'a list list \<Rightarrow> 'a list \<Rightarrow> 'a list list" where
  "masked_assign I t vs = unconcat t (masked_put (concat I) (concat t) vs)"

section \<open>Classifying the activations of a ReLU layer\<close>

text \<open>
  From \<^verbatim>\<open>DualNetBounds.__init__\<close>, the branch for \<^verbatim>\<open>nn.ReLU\<close>:
  \<^verbatim>\<open>
  d = (zl >= -1e-5).detach().type_as(X)
  I = ((zu > 1e-5).detach() * (zl < -1e-5).detach())
  if I.data.sum() > 0:
      d[I] += zu[I]/(zu[I] - zl[I])
  \<close>
\<close>

definition active_mask :: "mat \<Rightarrow> mat" where
  "active_mask zl = map (map (\<lambda>l. if l \<ge> - tol then 1 else 0)) zl"

definition unstable_mask :: "mat \<Rightarrow> mat \<Rightarrow> bool list list" where
  "unstable_mask zl zu = map2 (map2 (\<lambda>u l. u > tol \<and> l < - tol)) zu zl"

definition relu_slope :: "mat \<Rightarrow> mat \<Rightarrow> mat \<times> bool list list" where
  "relu_slope zl zu =
     (let d = active_mask zl;
          I = unstable_mask zl zu
      in if mask_sum I > 0
         then (masked_assign I d
                 (map2 (+) (masked_select I d)
                    (map2 (/) (masked_select I zu)
                       (map2 (-) (masked_select I zu) (masked_select I zl)))), I)
         else (d, I))"

definition same_shape :: "'a list list \<Rightarrow> 'b list list \<Rightarrow> bool" where
  "same_shape xss yss = (map length xss = map length yss)"

text \<open>
  The slope as the specification words it, for one activation with bounds \<open>l\<close> and \<open>u\<close>:
  1 when provably active, \<open>u / (u - l)\<close> when unstable, 0 otherwise.
\<close>

definition slope_spec :: "real \<Rightarrow> real \<Rightarrow> real" where
  "slope_spec l u =
     (if l \<ge> - tol then 1 else if u > tol \<and> l < - tol then u / (u - l) else 0)"

section \<open>Convolution helpers that split the leading dimension\<close>

text \<open>
  \<^verbatim>\<open>
  def conv2d(x, *args, **kwargs):
      i = 0
      out = []
      batch_size = 10000
      while i < x.size(0):
          out.append(F.conv2d(x[i:min(i+batch_size, x.size(0))], *args, **kwargs))
          i += batch_size
      return torch.cat(out, 0)
  \<close>
  and the same loop around \<^verbatim>\<open>F.conv_transpose2d\<close>.  The torch primitive is not part of
  the repository.  It works on each element of the leading dimension on its own: with the
  weight, stride and padding fixed it is a function \<open>f\<close> on one element, which may raise,
  lifted to the leading dimension by \<open>F_batched\<close>.
\<close>

fun F_batched :: "('a \<Rightarrow> error + 'b) \<Rightarrow> 'a list \<Rightarrow> error + 'b list" where
  "F_batched f [] = Inr []"
| "F_batched f (x # xs) =
     (case f x of
        Inl e \<Rightarrow> Inl e
      | Inr y \<Rightarrow> (case F_batched f xs of Inl e \<Rightarrow> Inl e | Inr ys \<Rightarrow> Inr (y # ys)))"

definition batch_size :: nat where
  "batch_size = 10000"

text \<open>\<^verbatim>\<open>torch.cat(out, 0)\<close> raises on an empty list of tensors.\<close>

definition torch_cat :: "'a list list \<Rightarrow> error + 'a list" where
  "torch_cat out =
     (case out of
        [] \<Rightarrow> Inl (RuntimeError ''expected a non-empty list of Tensors'')
      | _ \<Rightarrow> Inr (concat out))"

text \<open>\<^verbatim>\<open>x[i:j]\<close> on the leading dimension.\<close>

definition slice :: "'a list \<Rightarrow> nat \<Rightarrow> nat \<Rightarrow> 'a list" where
  "slice x i j = take (j - i) (drop i x)"

function conv2d_loop ::
  "('a \<Rightarrow> error + 'b) \<Rightarrow> 'a list \<Rightarrow> nat \<Rightarrow> 'b list list \<Rightarrow> error + 'b list list" where
  "conv2d_loop f x i out =
     (if i < length x
      then (case F_batched f (slice x i (min (i + batch_size) (length x))) of
              Inl e \<Rightarrow> Inl e
            | Inr y \<Rightarrow> conv2d_loop f x (i + batch_size) (out @ [y]))
      else Inr out)"
  by pat_completeness auto
termination
  by (relation "measure (\<lambda>(f, x, i, out). length x - i)") (auto simp: batch_size_def)

declare conv2d_loop.simps [simp del]

definition conv2d :: "('a \<Rightarrow> error + 'b) \<Rightarrow> 'a list \<Rightarrow> error + 'b list" where
  "conv2d f x =
     (case conv2d_loop f x 0 [] of Inl e \<Rightarrow> Inl e | Inr out \<Rightarrow> torch_cat out)"

function conv_transpose2d_loop ::
  "('a \<Rightarrow> error + 'b) \<Rightarrow> 'a list \<Rightarrow> nat \<Rightarrow> 'b list list \<Rightarrow> error + 'b list list" where
  "conv_transpose2d_loop f x i out =
     (if i < length x
      then (case F_batched f (slice x i (min (i + batch_size) (length x))) of
              Inl e \<Rightarrow> Inl e
            | Inr y \<Rightarrow> conv_transpose2d_loop f x (i + batch_size) (out @ [y]))
      else Inr out)"
  by pat_completeness auto
termination
  by (relation "measure (\<lambda>(f, x, i, out). length x - i)") (auto simp: batch_size_def)

declare conv_transpose2d_loop.simps [simp del]

definition conv_transpose2d :: "('a \<Rightarrow> error + 'b) \<Rightarrow> 'a list \<Rightarrow> error + 'b list" where
  "conv_transpose2d f x =
     (case conv_transpose2d_loop f x 0 [] of Inl e \<Rightarrow> Inl e | Inr out \<Rightarrow> torch_cat out)"

section \<open>Layers of the network\<close>

text \<open>
  The network is a list of torch modules.  What the program reads of a module is its
  class (through \<^verbatim>\<open>isinstance\<close>, or the class name for \<^verbatim>\<open>Flatten\<close>) and its parameters.
  A convolution carries the two torch primitives with its weight, stride and padding
  fixed, as functions on one example: \<^verbatim>\<open>F.conv2d\<close> and \<^verbatim>\<open>F.conv_transpose2d\<close>.
  A \<^verbatim>\<open>Dense\<close> block holds a list \<^verbatim>\<open>Ws\<close> of modules or \<^verbatim>\<open>None\<close>.
\<close>

record linear_layer =
  lin_weight :: mat
  lin_bias :: "vec option"

record conv_layer =
  F_conv2d :: "vec \<Rightarrow> error + vec"
  F_conv_transpose2d :: "vec \<Rightarrow> error + vec"
  conv_bias :: "vec option"

record bn_layer =
  bn_weight :: vec
  bn_bias :: vec
  running_mean :: vec
  running_var :: vec
  bn_eps :: real
  bn_training :: bool

datatype wmodule =
    WLinear linear_layer
  | WConv2d conv_layer
  | WSequential nat
  | WNone
  | WOther string

datatype layer =
    Linear linear_layer
  | Conv2d conv_layer
  | ReLU
  | Dense "wmodule list"
  | BatchNorm2d bn_layer
  | Custom string

section \<open>The dual operators\<close>

datatype fval_result = Bounds tensor tensor | Val tensor

record InfBall_obj =
  ball_epsilon :: real
  ball_nu_x :: "tensor list"
  ball_nu_1 :: "tensor list"

record InfBallProj_obj =
  bproj_epsilon :: real
  bproj_nu_x :: "tensor list"
  bproj_nu :: "tensor list"

record DualLinear_obj =
  dl_layer :: linear_layer
  dl_bias :: "tensor list option"

record DualConv2d_obj =
  dc_layer :: conv_layer
  dc_bias :: "tensor list option"

text \<open>The feature shapes \<^verbatim>\<open>in_f[1:]\<close> and \<^verbatim>\<open>out_f[1:]\<close>, as numbers of features.\<close>

record DualReshape_obj =
  rs_in_f :: nat
  rs_out_f :: nat

text \<open>
  When \<open>I_empty\<close> is set the attributes \<^verbatim>\<open>I_ind\<close>, \<^verbatim>\<open>nus\<close> and \<^verbatim>\<open>I_collapse\<close> are never
  assigned (and never read: every method returns first); the record holds empty lists.
\<close>

record DualReLU_obj =
  relu_I_empty :: bool
  relu_I_ind :: "(nat \<times> nat) list"
  relu_nus :: "tensor list"
  relu_I_collapse :: mat
  relu_d :: mat
  relu_I :: "bool list list"
  relu_zl :: mat

record DualReLUProj_obj =
  proj_I_empty :: bool
  proj_nus :: "tensor list"
  proj_nu_ones :: "tensor list"
  proj_d :: mat
  proj_I :: "bool list list"
  proj_zl :: mat

record DualBatchNorm2d_obj =
  bn_D :: vec
  bn_ds :: "tensor list"

datatype sub_dual =
    SLinear DualLinear_obj
  | SConv2d DualConv2d_obj
  | SSequential

record DualDense_obj =
  dd_duals :: "sub_dual option list"
  dd_dual_ts :: "sub_dual option list"

datatype dual =
    DInfBall InfBall_obj
  | DInfBallProj InfBallProj_obj
  | DLinear DualLinear_obj
  | DConv2d DualConv2d_obj
  | DReshape DualReshape_obj
  | DReLU DualReLU_obj
  | DReLUProj DualReLUProj_obj
  | DDense DualDense_obj
  | DBatchNorm2d DualBatchNorm2d_obj
  | DSequential

subsection \<open>\<^verbatim>\<open>DualLinear\<close>\<close>

text \<open>
  Modelled from the spec: \<^verbatim>\<open>Aff.full_bias\<close> (module \<^verbatim>\<open>affine\<close>, not among the sources) expands
  the bias of a layer to the shape of one output with a leading dimension of size one:
  the bias itself for a linear layer, one value per channel repeated over the positions
  of the channel for a convolution with \<open>n\<close> output features.
\<close>

definition full_bias_linear :: "vec \<Rightarrow> tensor" where
  "full_bias_linear b = T2 [b]"

definition expand_channels :: "vec \<Rightarrow> nat \<Rightarrow> vec" where
  "expand_channels b n = concat (map (replicate (n div length b)) b)"

definition full_bias_conv :: "vec \<Rightarrow> nat \<Rightarrow> tensor" where
  "full_bias_conv b n = T2 [expand_channels b n]"

definition DualLinear_init :: "layer \<Rightarrow> nat \<Rightarrow> error + DualLinear_obj" where
  "DualLinear_init l out_features =
     (case l of
        Linear lin \<Rightarrow>
          Inr \<lparr>dl_layer = lin,
               dl_bias = (case lin_bias lin of
                            None \<Rightarrow> None
                          | Some b \<Rightarrow> Some [full_bias_linear b])\<rparr>
      | _ \<Rightarrow> Inl (ValueError ''Expected nn.Linear input.''))"

definition DualLinear_affine :: "DualLinear_obj \<Rightarrow> tensor list \<Rightarrow> error + tensor" where
  "DualLinear_affine self xs =
     ebind (py_last xs) (\<lambda>x. F_linear x (lin_weight (dl_layer self)))"

definition DualLinear_affine_transpose :: "DualLinear_obj \<Rightarrow> tensor list \<Rightarrow> error + tensor" where
  "DualLinear_affine_transpose self xs =
     ebind (py_last xs) (\<lambda>x. F_linear x (transpose (lin_weight (dl_layer self))))"

text \<open>
  \<^verbatim>\<open>nu = nu.view(nu.size(0), nu.size(1), -1)\<close> and \<^verbatim>\<open>-nu.matmul(bias[0].view(-1))\<close> for a
  direction \<^verbatim>\<open>nu\<close> of shape \<^verbatim>\<open>(batch, k, features)\<close>.  A tensor of rank two is viewed as
  \<^verbatim>\<open>(batch, k, 1)\<close>, which \<^verbatim>\<open>matmul\<close> accepts when the bias has one entry; a tensor of
  rank one and a number have no \<^verbatim>\<open>size(1)\<close>.
\<close>

fun flat :: "tensor \<Rightarrow> vec" where
  "flat (Num a) = [a]"
| "flat (T1 x) = x"
| "flat (T2 x) = concat x"
| "flat (T3 x) = concat (concat x)"

definition neg_matmul_vec :: "tensor \<Rightarrow> vec \<Rightarrow> error + tensor" where
  "neg_matmul_vec nu b =
     (case nu of
        T3 t \<Rightarrow> Inr (T2 (map (map (\<lambda>v. - dot v b)) t))
      | T2 t \<Rightarrow>
          (case b of
             [b0] \<Rightarrow> Inr (T2 (map (map (\<lambda>v. - (v * b0))) t))
           | _ \<Rightarrow> Inl (RuntimeError ''size mismatch''))
      | _ \<Rightarrow> Inl (RuntimeError ''direction is not of shape (batch, k, features)''))"

definition bias_fval :: "tensor list option \<Rightarrow> tensor option \<Rightarrow> error + fval_result" where
  "bias_fval bias nu =
     (case nu of
        None \<Rightarrow>
          (case bias of
             None \<Rightarrow> Inr (Bounds (Num 0) (Num 0))
           | Some bs \<Rightarrow> ebind (py_last bs) (\<lambda>b. Inr (Bounds b b)))
      | Some nu' \<Rightarrow>
          (case bias of
             None \<Rightarrow> Inr (Val (Num 0))
           | Some bs \<Rightarrow>
               (case bs of
                  [] \<Rightarrow> Inl (IndexError ''list index out of range'')
                | b0 # _ \<Rightarrow> ebind (neg_matmul_vec nu' (flat b0)) (\<lambda>r. Inr (Val r)))))"

definition DualLinear_fval ::
  "DualLinear_obj \<Rightarrow> tensor option \<Rightarrow> tensor option \<Rightarrow> error + fval_result" where
  "DualLinear_fval self nu nu_prev = bias_fval (dl_bias self) nu"

subsection \<open>\<^verbatim>\<open>DualConv2d\<close>\<close>

text \<open>\<^verbatim>\<open>unbatch\<close> merges the first two dimensions, \<^verbatim>\<open>batch(A, n)\<close> splits the first into
  \<open>n\<close> groups of equal size.\<close>

fun chunk :: "nat \<Rightarrow> nat \<Rightarrow> 'a list \<Rightarrow> 'a list list" where
  "chunk 0 k xs = []"
| "chunk (Suc n) k xs = take k xs # chunk n k (drop k xs)"

definition batch :: "'a list \<Rightarrow> nat \<Rightarrow> 'a list list" where
  "batch A n = chunk n (length A div n) A"

definition unbatch :: "'a list list \<Rightarrow> 'a list" where
  "unbatch A = concat A"

definition DualConv2d_init :: "layer \<Rightarrow> nat \<Rightarrow> error + DualConv2d_obj" where
  "DualConv2d_init l out_features =
     (case l of
        Conv2d cv \<Rightarrow>
          Inr \<lparr>dc_layer = cv,
               dc_bias = (case conv_bias cv of
                            None \<Rightarrow> None
                          | Some b \<Rightarrow> Some [full_bias_conv b out_features])\<rparr>
      | _ \<Rightarrow> Inl (ValueError ''Expected nn.Conv2d input.''))"

text \<open>
  The branch \<^verbatim>\<open>xs[-1].dim() == 5\<close> is the rank-3 case of the embedding.  The torch
  primitive wants a batch dimension and raises on a tensor without one.
\<close>

definition conv_affine ::
  "((vec \<Rightarrow> error + vec) \<Rightarrow> vec list \<Rightarrow> error + vec list) \<Rightarrow> (vec \<Rightarrow> error + vec)
     \<Rightarrow> tensor list \<Rightarrow> error + tensor" where
  "conv_affine helper f xs =
     ebind (py_last xs) (\<lambda>x.
       case x of
         T3 t \<Rightarrow> ebind (helper f (unbatch t)) (\<lambda>out. Inr (T3 (batch out (length t))))
       | T2 t \<Rightarrow> ebind (helper f t) (\<lambda>out. Inr (T2 out))
       | _ \<Rightarrow> Inl (RuntimeError ''Expected 4-dimensional input''))"

definition DualConv2d_affine :: "DualConv2d_obj \<Rightarrow> tensor list \<Rightarrow> error + tensor" where
  "DualConv2d_affine self xs = conv_affine conv2d (F_conv2d (dc_layer self)) xs"

definition DualConv2d_affine_transpose :: "DualConv2d_obj \<Rightarrow> tensor list \<Rightarrow> error + tensor" where
  "DualConv2d_affine_transpose self xs =
     conv_affine conv_transpose2d (F_conv_transpose2d (dc_layer self)) xs"

definition DualConv2d_fval ::
  "DualConv2d_obj \<Rightarrow> tensor option \<Rightarrow> tensor option \<Rightarrow> error + fval_result" where
  "DualConv2d_fval self nu nu_prev = bias_fval (dc_bias self) nu"

subsection \<open>\<^verbatim>\<open>DualReshape\<close> and \<^verbatim>\<open>DualSequential\<close>\<close>

definition DualReshape_init :: "nat \<Rightarrow> nat \<Rightarrow> DualReshape_obj" where
  "DualReshape_init fi fo = \<lparr>rs_in_f = fi, rs_out_f = fo\<rparr>"

text \<open>\<^verbatim>\<open>x.view(shape)\<close> keeps the data; on flattened features it is the identity.  A Python
  number has no \<^verbatim>\<open>size()\<close>.\<close>

definition view_features :: "tensor \<Rightarrow> error + tensor" where
  "view_features x = (case x of Num _ \<Rightarrow> Inl (AttributeError ''size'') | _ \<Rightarrow> Inr x)"

definition DualReshape_affine :: "DualReshape_obj \<Rightarrow> tensor list \<Rightarrow> error + tensor" where
  "DualReshape_affine self xs = ebind (py_last xs) view_features"

definition DualReshape_affine_transpose :: "DualReshape_obj \<Rightarrow> tensor list \<Rightarrow> error + tensor" where
  "DualReshape_affine_transpose self xs = ebind (py_last xs) view_features"

definition zero_fval :: "tensor option \<Rightarrow> fval_result" where
  "zero_fval nu = (case nu of None \<Rightarrow> Bounds (Num 0) (Num 0) | Some _ \<Rightarrow> Val (Num 0))"

definition DualReshape_fval ::
  "DualReshape_obj \<Rightarrow> tensor option \<Rightarrow> tensor option \<Rightarrow> error + fval_result" where
  "DualReshape_fval self nu nu_prev = Inr (zero_fval nu)"

definition DualSequential_affine :: "tensor list \<Rightarrow> error + tensor" where
  "DualSequential_affine xs = py_last xs"

definition DualSequential_affine_transpose :: "tensor list \<Rightarrow> error + tensor" where
  "DualSequential_affine_transpose xs = py_last xs"

definition DualSequential_fval :: "tensor option \<Rightarrow> tensor option \<Rightarrow> error + fval_result" where
  "DualSequential_fval nu nu_prev = Inr (zero_fval nu)"

subsection \<open>\<^verbatim>\<open>DualBatchNorm2d\<close>\<close>

text \<open>
  \<^verbatim>\<open>minibatch.transpose(0,1).contiguous().view(C, -1)\<close>: one row per channel, holding
  that channel of every example.  \<^verbatim>\<open>var\<close> is torch's unbiased variance; for fewer than two
  values torch returns \<^verbatim>\<open>nan\<close>, which the real numbers do not have (the quotient below is
  \<open>0\<close> there), so nothing is said about a channel with fewer than two values.
\<close>

definition channel_rows :: "mat \<Rightarrow> nat \<Rightarrow> mat" where
  "channel_rows minibatch C =
     map (\<lambda>c. concat (map (\<lambda>s. take (length s div C) (drop (c * (length s div C)) s)) minibatch))
       [0..<C]"

definition mean :: "vec \<Rightarrow> real" where
  "mean xs = sum_list xs / real (length xs)"

definition var :: "vec \<Rightarrow> real" where
  "var xs = sum_list (map (\<lambda>x. (x - mean xs)\<^sup>2) xs) / (real (length xs) - 1)"

definition DualBatchNorm2d_init :: "bn_layer \<Rightarrow> mat \<Rightarrow> nat \<Rightarrow> DualBatchNorm2d_obj" where
  "DualBatchNorm2d_init l minibatch out_features =
     (let rows = channel_rows minibatch (length (bn_weight l));
          mu = (if bn_training l then map mean rows else running_mean l);
          va = (if bn_training l then map var rows else running_var l);
          denom = map (\<lambda>v. sqrt (v + bn_eps l)) va
      in \<lparr>bn_D = map2 (/) (bn_weight l) denom,
          bn_ds = [T1 (expand_channels
                         (map2 (-) (bn_bias l) (map2 (*) (bn_weight l) (map2 (/) mu denom)))
                         out_features)]\<rparr>)"

text \<open>\<^verbatim>\<open>self.D*x\<close>: \<open>D\<close> has one value per channel and broadcasts over the positions of
  the channel.\<close>

definition scale_channels :: "vec \<Rightarrow> vec \<Rightarrow> vec" where
  "scale_channels D v = map2 (*) (expand_channels D (length v)) v"

fun tvmap :: "(vec \<Rightarrow> vec) \<Rightarrow> tensor \<Rightarrow> tensor" where
  "tvmap f (Num a) = T1 (f [a])"
| "tvmap f (T1 x) = T1 (f x)"
| "tvmap f (T2 x) = T2 (map f x)"
| "tvmap f (T3 x) = T3 (map (map f) x)"

definition DualBatchNorm2d_affine :: "DualBatchNorm2d_obj \<Rightarrow> tensor list \<Rightarrow> error + tensor" where
  "DualBatchNorm2d_affine self xs =
     ebind (py_last xs) (\<lambda>x. Inr (tvmap (scale_channels (bn_D self)) x))"

definition DualBatchNorm2d_affine_transpose ::
  "DualBatchNorm2d_obj \<Rightarrow> tensor list \<Rightarrow> error + tensor" where
  "DualBatchNorm2d_affine_transpose self xs = DualBatchNorm2d_affine self xs"

text \<open>\<^verbatim>\<open>fval\<close> reads \<^verbatim>\<open>ds\<close> exactly as \<^verbatim>\<open>DualLinear.fval\<close> reads a bias that is present.\<close>

definition DualBatchNorm2d_fval ::
  "DualBatchNorm2d_obj \<Rightarrow> tensor option \<Rightarrow> tensor option \<Rightarrow> error + fval_result" where
  "DualBatchNorm2d_fval self nu nu_prev = bias_fval (Some (bn_ds self)) nu"

subsection \<open>\<^verbatim>\<open>DualReLU.affine\<close>\<close>

definition unsqueeze1 :: "mat \<Rightarrow> mat list" where
  "unsqueeze1 t = map (\<lambda>r. [r]) t"

text \<open>\<^verbatim>\<open>d[I_ind[:,0]]\<close>: for every index pair, the row of its batch index.\<close>

definition gather_rows :: "'a list \<Rightarrow> (nat \<times> nat) list \<Rightarrow> error + 'a list" where
  "gather_rows t ind =
     emap (\<lambda>(b, j). if b < length t then Inr (t ! b)
                     else Inl (IndexError ''index out of range'')) ind"

definition DualReLU_affine ::
  "mat \<Rightarrow> tensor list \<Rightarrow> (nat \<times> nat) list option \<Rightarrow> error + tensor" where
  "DualReLU_affine self_d xs I_ind =
     ebind (py_last xs) (\<lambda>x.
       case I_ind of
         Some ind \<Rightarrow>
           (case x of
              T3 _ \<Rightarrow> ebind (gather_rows (unsqueeze1 self_d) ind) (\<lambda>g. Inr (tmul (T3 g) x))
            | _ \<Rightarrow> ebind (gather_rows self_d ind) (\<lambda>g. Inr (tmul (T2 g) x)))
       | None \<Rightarrow>
           (case x of
              T3 _ \<Rightarrow> Inr (tmul (T3 (unsqueeze1 self_d)) x)
            | _ \<Rightarrow> Inr (tmul (T2 self_d) x)))"

subsection \<open>\<^verbatim>\<open>DualDense.affine\<close> and the dispatch of \<^verbatim>\<open>affine\<close>\<close>

definition sub_affine :: "sub_dual \<Rightarrow> tensor list \<Rightarrow> error + tensor" where
  "sub_affine W xs =
     (case W of
        SLinear l \<Rightarrow> DualLinear_affine l xs
      | SConv2d c \<Rightarrow> DualConv2d_affine c xs
      | SSequential \<Rightarrow> DualSequential_affine xs)"

definition sub_affine_transpose :: "sub_dual \<Rightarrow> tensor list \<Rightarrow> error + tensor" where
  "sub_affine_transpose W xs =
     (case W of
        SLinear l \<Rightarrow> DualLinear_affine_transpose l xs
      | SConv2d c \<Rightarrow> DualConv2d_affine_transpose c xs
      | SSequential \<Rightarrow> DualSequential_affine_transpose xs)"

text \<open>
  \<^verbatim>\<open>
  duals = self.duals[-min(len(xs),len(self.duals)):]
  return sum(W.affine(*xs[:i+1])
      for i,W in zip(range(-len(duals) + len(xs), len(xs)), duals) if W is not None)
  \<close>
  \<^verbatim>\<open>ws[-m:]\<close> is the whole list when \<open>m = 0\<close>.  With no argument every index of the range is
  negative and the first operator that is not \<^verbatim>\<open>None\<close> is called with no argument, where
  \<^verbatim>\<open>xs[-1]\<close> raises.
\<close>

definition py_suffix :: "'a list \<Rightarrow> nat \<Rightarrow> 'a list" where
  "py_suffix ws m = (if m = 0 then ws else drop (length ws - m) ws)"

definition dense_sum ::
  "(sub_dual \<Rightarrow> tensor list \<Rightarrow> error + tensor) \<Rightarrow> sub_dual option list \<Rightarrow> tensor list
     \<Rightarrow> error + tensor" where
  "dense_sum meth ws xs =
     (if xs = [] \<and> list_ex (\<lambda>W. case W of None \<Rightarrow> False | Some _ \<Rightarrow> True) ws
      then Inl (IndexError ''tuple index out of range'')
      else
      let ds = py_suffix ws (min (length xs) (length ws));
          terms = filter (\<lambda>(i, W). case W of None \<Rightarrow> False | Some _ \<Rightarrow> True) (zip [length xs - length ds ..< length xs] ds)
      in ebind (emap (\<lambda>(i, W). case W of
                                   Some w \<Rightarrow> meth w (take (i + 1) xs)
                                 | None \<Rightarrow> Inl (TypeError ''NoneType'')) terms)
           (\<lambda>ts. Inr (py_sum ts)))"

definition DualDense_affine :: "DualDense_obj \<Rightarrow> tensor list \<Rightarrow> error + tensor" where
  "DualDense_affine self xs = dense_sum sub_affine (dd_duals self) xs"

definition DualDense_affine_transpose :: "DualDense_obj \<Rightarrow> tensor list \<Rightarrow> error + tensor" where
  "DualDense_affine_transpose self xs = dense_sum sub_affine_transpose (dd_dual_ts self) xs"

text \<open>The uncertainty-set representatives have no method \<^verbatim>\<open>affine\<close>.\<close>

definition affine :: "dual \<Rightarrow> tensor list \<Rightarrow> error + tensor" where
  "affine l xs =
     (case l of
        DLinear s \<Rightarrow> DualLinear_affine s xs
      | DConv2d s \<Rightarrow> DualConv2d_affine s xs
      | DReshape s \<Rightarrow> DualReshape_affine s xs
      | DReLU s \<Rightarrow> DualReLU_affine (relu_d s) xs None
      | DReLUProj s \<Rightarrow> DualReLU_affine (proj_d s) xs None
      | DDense s \<Rightarrow> DualDense_affine s xs
      | DBatchNorm2d s \<Rightarrow> DualBatchNorm2d_affine s xs
      | DSequential \<Rightarrow> DualSequential_affine xs
      | _ \<Rightarrow> Inl (AttributeError ''affine''))"

definition affine_transpose :: "dual \<Rightarrow> tensor list \<Rightarrow> error + tensor" where
  "affine_transpose l xs =
     (case l of
        DLinear s \<Rightarrow> DualLinear_affine_transpose s xs
      | DConv2d s \<Rightarrow> DualConv2d_affine_transpose s xs
      | DReshape s \<Rightarrow> DualReshape_affine_transpose s xs
      | DReLU s \<Rightarrow> DualReLU_affine (relu_d s) xs None
      | DReLUProj s \<Rightarrow> DualReLU_affine (proj_d s) xs None
      | DDense s \<Rightarrow> DualDense_affine_transpose s xs
      | DBatchNorm2d s \<Rightarrow> DualBatchNorm2d_affine_transpose s xs
      | DSequential \<Rightarrow> DualSequential_affine_transpose xs
      | _ \<Rightarrow> Inl (AttributeError ''affine_transpose''))"

subsection \<open>\<^verbatim>\<open>InfBall\<close> and \<^verbatim>\<open>InfBallProj\<close>\<close>

definition eye :: "nat \<Rightarrow> mat" where
  "eye n = map (\<lambda>i. map (\<lambda>j. if i = j then 1 else 0) [0..<n]) [0..<n]"

definition InfBall_init :: "mat \<Rightarrow> real \<Rightarrow> error + InfBall_obj" where
  "InfBall_init X eps =
     (case X of
        [] \<Rightarrow> Inl (IndexError ''index 0 is out of range'')
      | x0 # _ \<Rightarrow>
          Inr \<lparr>ball_epsilon = eps, ball_nu_x = [T2 X], ball_nu_1 = [T3 [eye (length x0)]]\<rparr>)"

definition InfBall_apply :: "InfBall_obj \<Rightarrow> dual \<Rightarrow> error + InfBall_obj" where
  "InfBall_apply self dual_layer =
     ebind (affine dual_layer (ball_nu_x self)) (\<lambda>a.
     ebind (affine dual_layer (ball_nu_1 self)) (\<lambda>b.
       Inr (self\<lparr>ball_nu_x := ball_nu_x self @ [a], ball_nu_1 := ball_nu_1 self @ [b]\<rparr>)))"

text \<open>The reductions over the certificate dimension want a certificate of rank 3.\<close>

definition abs_sum_dim1 :: "tensor \<Rightarrow> error + tensor" where
  "abs_sum_dim1 t =
     (case t of
        T3 x \<Rightarrow> Inr (T2 (abs_sum1 x))
      | _ \<Rightarrow> Inl (RuntimeError ''certificate is not of shape (batch, k, features)''))"

definition abs_median_dim1 :: "tensor \<Rightarrow> error + tensor" where
  "abs_median_dim1 t =
     (case t of
        T3 x \<Rightarrow> Inr (T2 (abs_median1 x))
      | _ \<Rightarrow> Inl (RuntimeError ''certificate is not of shape (batch, k, features)''))"

text \<open>
  The branch of \<^verbatim>\<open>InfBall.fval\<close> for a direction, which \<^verbatim>\<open>InfBallProj.fval\<close> calls too:
  \<^verbatim>\<open>
  nu = nu.view(nu.size(0), nu.size(1), -1)
  nu_x = nu.matmul(self.nu_x[0].view(self.nu_x[0].size(0),-1).unsqueeze(2)).squeeze(2)
  l1 = self.epsilon*nu.abs().sum(2)
  return -nu_x - l1
  \<close>
\<close>

definition ball_direction :: "real \<Rightarrow> tensor list \<Rightarrow> tensor \<Rightarrow> error + fval_result" where
  "ball_direction eps self_nu_x nu =
     (case nu of
        T3 t \<Rightarrow>
          (case self_nu_x of
             [] \<Rightarrow> Inl (IndexError ''list index out of range'')
           | x0 # _ \<Rightarrow>
               (case x0 of
                  T2 X \<Rightarrow>
                    (let nu_x = bcast2 (\<lambda>nub xb. map (\<lambda>v. dot v xb) nub) t X;
                         l1 = map (map (\<lambda>v. eps * sum_list (map abs v))) t
                     in Inr (Val (tsub (tmap uminus (T2 nu_x)) (T2 l1))))
                | _ \<Rightarrow> Inl (RuntimeError ''nominal input is not of shape (batch, features)'')))
      | _ \<Rightarrow> Inl (RuntimeError ''direction is not of shape (batch, k, features)''))"

definition InfBall_fval ::
  "InfBall_obj \<Rightarrow> tensor option \<Rightarrow> tensor option \<Rightarrow> error + fval_result" where
  "InfBall_fval self nu nu_prev =
     (case nu of
        None \<Rightarrow>
          ebind (py_last (ball_nu_1 self)) (\<lambda>c.
          ebind (abs_sum_dim1 c) (\<lambda>l1.
          ebind (py_last (ball_nu_x self)) (\<lambda>x.
            Inr (Bounds (tsub x (tmul (Num (ball_epsilon self)) l1))
                        (tadd x (tmul (Num (ball_epsilon self)) l1))))))
      | Some nu' \<Rightarrow> ball_direction (ball_epsilon self) (ball_nu_x self) nu')"

text \<open>The Cauchy sample of shape \<^verbatim>\<open>(1, k, *features)\<close> that \<^verbatim>\<open>cauchy_()\<close> draws is a
  parameter.\<close>

definition InfBallProj_init :: "mat \<Rightarrow> real \<Rightarrow> mat \<Rightarrow> error + InfBallProj_obj" where
  "InfBallProj_init X eps sample =
     (case X of
        [] \<Rightarrow> Inl (IndexError ''index 0 is out of range'')
      | x0 # _ \<Rightarrow>
          Inr \<lparr>bproj_epsilon = eps, bproj_nu_x = [T2 X], bproj_nu = [T3 [sample]]\<rparr>)"

definition InfBallProj_apply :: "InfBallProj_obj \<Rightarrow> dual \<Rightarrow> error + InfBallProj_obj" where
  "InfBallProj_apply self dual_layer =
     ebind (affine dual_layer (bproj_nu_x self)) (\<lambda>a.
     ebind (affine dual_layer (bproj_nu self)) (\<lambda>b.
       Inr (self\<lparr>bproj_nu_x := bproj_nu_x self @ [a], bproj_nu := bproj_nu self @ [b]\<rparr>)))"

definition InfBallProj_fval ::
  "InfBallProj_obj \<Rightarrow> tensor option \<Rightarrow> tensor option \<Rightarrow> error + fval_result" where
  "InfBallProj_fval self nu nu_prev =
     (case nu of
        None \<Rightarrow>
          ebind (py_last (bproj_nu self)) (\<lambda>c.
          ebind (abs_median_dim1 c) (\<lambda>l1.
          ebind (py_last (bproj_nu_x self)) (\<lambda>x.
            Inr (Bounds (tsub x (tmul (Num (bproj_epsilon self)) l1))
                        (tadd x (tmul (Num (bproj_epsilon self)) l1))))))
      | Some nu' \<Rightarrow> ball_direction (bproj_epsilon self) (bproj_nu_x self) nu')"

subsection \<open>\<^verbatim>\<open>apply\<close> of the affine operators\<close>

definition bias_apply :: "tensor list option \<Rightarrow> dual \<Rightarrow> error + tensor list option" where
  "bias_apply bias dual_layer =
     (case bias of
        None \<Rightarrow> Inr None
      | Some bs \<Rightarrow> ebind (affine dual_layer bs) (\<lambda>b. Inr (Some (bs @ [b]))))"

definition DualLinear_apply :: "DualLinear_obj \<Rightarrow> dual \<Rightarrow> error + DualLinear_obj" where
  "DualLinear_apply self dual_layer =
     ebind (bias_apply (dl_bias self) dual_layer) (\<lambda>b. Inr (self\<lparr>dl_bias := b\<rparr>))"

definition DualConv2d_apply :: "DualConv2d_obj \<Rightarrow> dual \<Rightarrow> error + DualConv2d_obj" where
  "DualConv2d_apply self dual_layer =
     ebind (bias_apply (dc_bias self) dual_layer) (\<lambda>b. Inr (self\<lparr>dc_bias := b\<rparr>))"

definition DualBatchNorm2d_apply ::
  "DualBatchNorm2d_obj \<Rightarrow> dual \<Rightarrow> error + DualBatchNorm2d_obj" where
  "DualBatchNorm2d_apply self dual_layer =
     ebind (affine dual_layer (bn_ds self)) (\<lambda>t. Inr (self\<lparr>bn_ds := bn_ds self @ [t]\<rparr>))"

subsection \<open>\<^verbatim>\<open>DualReLU\<close>\<close>

text \<open>\<^verbatim>\<open>I.view(-1,n).nonzero()\<close>: the index pairs (example, feature) of the set entries, in
  row-major order.\<close>

definition nonzero :: "bool list list \<Rightarrow> (nat \<times> nat) list" where
  "nonzero M =
     concat (map (\<lambda>(b, row). map (\<lambda>j. (b, j)) (filter (\<lambda>j. row ! j) [0..<length row]))
               (zip [0..<length M] M))"

text \<open>
  \<^verbatim>\<open>
  self.nus = [Variable(zl.data.new(I.data.sum(), n).zero_())]
  self.nus[-1].scatter_(1, self.I_ind[:,1,None], d[I][:,None])
  self.I_collapse = Variable(zl.data.new(self.I_ind.size(0),zl.size(0)).zero_())
  self.I_collapse.scatter_(1, self.I_ind[:,0][:,None], 1)
  \<close>
\<close>

definition DualReLU_init :: "bool list list \<Rightarrow> mat \<Rightarrow> mat \<Rightarrow> error + DualReLU_obj" where
  "DualReLU_init I_mask d_slope z_l =
     (case d_slope of
        [] \<Rightarrow> Inl (IndexError ''index 0 is out of range'')
      | d0 # _ \<Rightarrow>
          (let n = length d0 in
           if mask_sum I_mask > 0
           then (let ind = nonzero I_mask in
                 Inr \<lparr>relu_I_empty = False,
                      relu_I_ind = ind,
                      relu_nus = [T2 (map2 (\<lambda>(b, j) v. (replicate n 0)[j := v]) ind
                                        (masked_select I_mask d_slope))],
                      relu_I_collapse = map (\<lambda>(b, j). (replicate (length z_l) 0)[b := 1]) ind,
                      relu_d = d_slope, relu_I = I_mask, relu_zl = z_l\<rparr>)
           else Inr \<lparr>relu_I_empty = True, relu_I_ind = [], relu_nus = [], relu_I_collapse = [],
                     relu_d = d_slope, relu_I = I_mask, relu_zl = z_l\<rparr>))"

definition DualReLU_apply :: "DualReLU_obj \<Rightarrow> dual \<Rightarrow> error + DualReLU_obj" where
  "DualReLU_apply self dual_layer =
     (if relu_I_empty self then Inr self
      else ebind (case dual_layer of
                    DReLU s \<Rightarrow> DualReLU_affine (relu_d s) (relu_nus self) (Some (relu_I_ind self))
                  | DReLUProj s \<Rightarrow> DualReLU_affine (proj_d s) (relu_nus self) (Some (relu_I_ind self))
                  | _ \<Rightarrow> affine dual_layer (relu_nus self))
             (\<lambda>t. Inr (self\<lparr>relu_nus := relu_nus self @ [t]\<rparr>)))"

definition mm :: "mat \<Rightarrow> mat \<Rightarrow> mat" where
  "mm A B = map (\<lambda>a. map (\<lambda>col. dot a col) (transpose B)) A"

text \<open>
  The branch of \<^verbatim>\<open>DualReLU.fval\<close> for a direction \<^verbatim>\<open>nu_prev\<close>:
  \<^verbatim>\<open>
  n = nu_prev.size(0)
  nu = nu_prev.view(n, nu_prev.size(1), -1)
  zl = self.zl.view(n, -1)
  I = self.I.view(n, -1)
  return (nu.clamp(min=0)*zl.unsqueeze(1)).matmul(I.type_as(nu).unsqueeze(2)).squeeze(2)
  \<close>
\<close>

definition relu_direction ::
  "bool \<Rightarrow> mat \<Rightarrow> bool list list \<Rightarrow> tensor \<Rightarrow> error + fval_result" where
  "relu_direction self_I_empty self_zl self_I nu_prev =
     (if self_I_empty then Inr (Val (Num 0))
      else (case nu_prev of
              T3 t \<Rightarrow>
                Inr (Val (T2 (map2 (\<lambda>nub (zlb, Ib).
                                map (\<lambda>v. dot (map2 (*) (map (max 0) v) zlb)
                                              (map (\<lambda>b. if b then 1 else 0) Ib)) nub)
                              t (zip self_zl self_I))))
            | _ \<Rightarrow> Inl (RuntimeError ''direction is not of shape (batch, k, features)'')))"

text \<open>
  \<^verbatim>\<open>
  nu = self.nus[-1]
  nu = nu.view(nu.size(0), -1)
  zlI = self.zl[self.I]
  zl = (zlI * (-nu.t()).clamp(min=0)).mm(self.I_collapse).t().contiguous()
  zu = -(zlI * nu.t().clamp(min=0)).mm(self.I_collapse).t().contiguous()
  \<close>
\<close>

definition DualReLU_fval ::
  "DualReLU_obj \<Rightarrow> tensor option \<Rightarrow> tensor option \<Rightarrow> error + fval_result" where
  "DualReLU_fval self nu nu_prev =
     (case nu_prev of
        None \<Rightarrow>
          (if relu_I_empty self then Inr (Bounds (Num 0) (Num 0))
           else ebind (py_last (relu_nus self)) (\<lambda>t.
                  case t of
                    T2 M \<Rightarrow>
                      (let zlI = masked_select (relu_I self) (relu_zl self);
                           lo = transpose (mm (map (\<lambda>row. map2 (*) zlI (map (\<lambda>v. max 0 (- v)) row))
                                                 (transpose M))
                                              (relu_I_collapse self));
                           up = map (map uminus)
                                  (transpose (mm (map (\<lambda>row. map2 (*) zlI (map (max 0) row))
                                                    (transpose M))
                                                 (relu_I_collapse self)))
                       in Inr (Bounds (T2 lo) (T2 up)))
                  | _ \<Rightarrow> Inl (RuntimeError ''certificate is not of shape (rows, features)'')))
      | Some np \<Rightarrow> relu_direction (relu_I_empty self) (relu_zl self) (relu_I self) np)"

subsection \<open>\<^verbatim>\<open>DualReLUProj\<close>\<close>

text \<open>
  The samples that \<^verbatim>\<open>cauchy_()\<close> draws are a parameter \<open>cauchy\<close>, read in order.  The
  constructor returns the operator and the warnings it has emitted.
  \<^verbatim>\<open>
  nu = Variable(zl.data.new(n, k, *(d.size()[1:])).zero_())
  nu_one = Variable(zl.data.new(n, *(d.size()[1:])).zero_())
  if  (I.data).sum() > 0:
      nu.data[I.data.unsqueeze(1).expand_as(nu)] = nu.data.new(I.data.sum()*k).cauchy_()
      nu_one.data[I.data] = 1
  nu = zl.unsqueeze(1)*nu
  nu_one = zl*nu_one
  self.nus = [d.unsqueeze(1)*nu]
  self.nu_ones = [d*nu_one]
  \<close>
\<close>

definition features :: "mat \<Rightarrow> nat" where
  "features t = (case t of [] \<Rightarrow> 0 | r # _ \<Rightarrow> length r)"

definition DualReLUProj_init ::
  "bool list list \<Rightarrow> mat \<Rightarrow> mat \<Rightarrow> nat \<Rightarrow> (nat \<Rightarrow> real) \<Rightarrow> DualReLUProj_obj \<times> string list" where
  "DualReLUProj_init I_mask d_slope z_l k cauchy =
     (if mask_sum I_mask = 0
      then (\<lparr>proj_I_empty = True, proj_nus = [], proj_nu_ones = [],
              proj_d = d_slope, proj_I = I_mask, proj_zl = z_l\<rparr>,
            [''ReLU projection has no origin crossing activations''])
      else (let n = length I_mask;
                f = features d_slope;
                nu0 = replicate n (replicate k (replicate f 0));
                nu_one0 = replicate n (replicate f 0);
                nu1 = (if mask_sum I_mask > 0
                       then batch (masked_assign (concat (map (replicate k) I_mask)) (unbatch nu0)
                                     (map cauchy [0..<mask_sum I_mask * k])) n
                       else nu0);
                nu_one1 = (if mask_sum I_mask > 0
                           then masked_assign I_mask nu_one0 (replicate (mask_sum I_mask) 1)
                           else nu_one0);
                nu = tmul (T3 (unsqueeze1 z_l)) (T3 nu1);
                nu_one = tmul (T2 z_l) (T2 nu_one1)
            in (\<lparr>proj_I_empty = False,
                  proj_nus = [tmul (T3 (unsqueeze1 d_slope)) nu],
                  proj_nu_ones = [tmul (T2 d_slope) nu_one],
                  proj_d = d_slope, proj_I = I_mask, proj_zl = z_l\<rparr>, [])))"

definition DualReLUProj_apply :: "DualReLUProj_obj \<Rightarrow> dual \<Rightarrow> error + DualReLUProj_obj" where
  "DualReLUProj_apply self dual_layer =
     (if proj_I_empty self then Inr self
      else ebind (affine dual_layer (proj_nus self)) (\<lambda>a.
           ebind (affine dual_layer (proj_nu_ones self)) (\<lambda>b.
             Inr (self\<lparr>proj_nus := proj_nus self @ [a],
                       proj_nu_ones := proj_nu_ones self @ [b]\<rparr>))))"

text \<open>
  \<^verbatim>\<open>
  n = torch.median(self.nus[-1].abs(), 1)[0]
  no = self.nu_ones[-1]
  zl = (-n - no)/2
  zu = (n - no)/2
  \<close>
\<close>

definition DualReLUProj_fval ::
  "DualReLUProj_obj \<Rightarrow> tensor option \<Rightarrow> tensor option \<Rightarrow> error + fval_result" where
  "DualReLUProj_fval self nu nu_prev =
     (case nu_prev of
        None \<Rightarrow>
          (if proj_I_empty self then Inr (Bounds (Num 0) (Num 0))
           else ebind (py_last (proj_nus self)) (\<lambda>c.
                ebind (abs_median_dim1 c) (\<lambda>n.
                ebind (py_last (proj_nu_ones self)) (\<lambda>no.
                  Inr (Bounds (tdiv (tsub (tmap uminus n) no) (Num 2))
                              (tdiv (tsub n no) (Num 2)))))))
      | Some np \<Rightarrow> relu_direction (proj_I_empty self) (proj_zl self) (proj_I self) np)"

subsection \<open>\<^verbatim>\<open>DualDense\<close>\<close>

text \<open>
  \<^verbatim>\<open>DualDense.__init__(dense, dense_t, net, out_features)\<close> builds one operator (or
  \<^verbatim>\<open>None\<close>) for every entry of \<^verbatim>\<open>dense.Ws\<close> and, for every entry but the last that is not
  \<^verbatim>\<open>None\<close>, prepends it to the \<^verbatim>\<open>dual_ts\<close> of an earlier element of the chain \<^verbatim>\<open>net\<close>
  (\<^verbatim>\<open>net[idx]\<close> with a negative \<^verbatim>\<open>idx\<close>).  The argument \<^verbatim>\<open>dense_t\<close> is not read.  The
  function returns the new operator and the updated chain.  The operators stored in
  \<^verbatim>\<open>dual_ts\<close> are only ever asked for \<^verbatim>\<open>affine_transpose\<close>, which reads the layer and not
  the bias history, so they are stored by value.
\<close>

definition dense_dual :: "wmodule \<Rightarrow> nat \<Rightarrow> error + sub_dual option" where
  "dense_dual W out_features =
     (case W of
        WConv2d cv \<Rightarrow> ebind (DualConv2d_init (Conv2d cv) out_features) (\<lambda>s. Inr (Some (SConv2d s)))
      | WLinear lin \<Rightarrow> ebind (DualLinear_init (Linear lin) out_features) (\<lambda>s. Inr (Some (SLinear s)))
      | WSequential 0 \<Rightarrow> Inr (Some SSequential)
      | WNone \<Rightarrow> Inr None
      | _ \<Rightarrow> Inl (ValueError ''Don't know how to parse dense structure''))"

definition rewire ::
  "dual list \<Rightarrow> nat \<Rightarrow> nat \<Rightarrow> sub_dual option \<Rightarrow> error + dual list" where
  "rewire net back width dual_layer =
     (if length net < back then Inl (IndexError ''list index out of range'')
      else (case net ! (length net - back) of
              DDense s \<Rightarrow>
                Inr (net[length net - back :=
                       DDense (s\<lparr>dd_dual_ts :=
                                  [dual_layer] @ replicate (width - length (dd_dual_ts s) - 1) None
                                  @ dd_dual_ts s\<rparr>)])
            | _ \<Rightarrow> Inl (AttributeError ''dual_ts'')))"

fun DualDense_loop ::
  "wmodule list \<Rightarrow> nat \<Rightarrow> nat \<Rightarrow> nat \<Rightarrow> sub_dual option list \<Rightarrow> dual list
     \<Rightarrow> error + (sub_dual option list \<times> dual list)" where
  "DualDense_loop [] i len out_features ds net = Inr (ds, net)"
| "DualDense_loop (W # Ws) i len out_features ds net =
     ebind (dense_dual W out_features) (\<lambda>dual_layer.
     ebind (if i < len - 1 \<and> (case W of WNone \<Rightarrow> False | _ \<Rightarrow> True)
            then rewire net (len - 1 - i) (len - i) dual_layer
            else Inr net) (\<lambda>net'.
       DualDense_loop Ws (i + 1) len out_features (ds @ [dual_layer]) net'))"

definition DualDense_init ::
  "wmodule list \<Rightarrow> dual list \<Rightarrow> nat \<Rightarrow> error + (DualDense_obj \<times> dual list)" where
  "DualDense_init Ws net out_features =
     ebind (DualDense_loop Ws 0 (length Ws) out_features [] net) (\<lambda>(ds, net').
     ebind (py_last ds) (\<lambda>top.
       Inr (\<lparr>dd_duals = ds, dd_dual_ts = [top]\<rparr>, net')))"

definition sub_apply :: "sub_dual \<Rightarrow> dual \<Rightarrow> error + sub_dual" where
  "sub_apply W dual_layer =
     (case W of
        SLinear s \<Rightarrow> ebind (DualLinear_apply s dual_layer) (\<lambda>s'. Inr (SLinear s'))
      | SConv2d s \<Rightarrow> ebind (DualConv2d_apply s dual_layer) (\<lambda>s'. Inr (SConv2d s'))
      | SSequential \<Rightarrow> Inr SSequential)"

definition DualDense_apply :: "DualDense_obj \<Rightarrow> dual \<Rightarrow> error + DualDense_obj" where
  "DualDense_apply self dual_layer =
     ebind (emap (\<lambda>W. case W of
                        None \<Rightarrow> Inr None
                      | Some w \<Rightarrow> ebind (sub_apply w dual_layer) (\<lambda>w'. Inr (Some w')))
              (dd_duals self))
       (\<lambda>ds. Inr (self\<lparr>dd_duals := ds\<rparr>))"

definition sub_fval :: "sub_dual \<Rightarrow> tensor option \<Rightarrow> tensor option \<Rightarrow> error + fval_result" where
  "sub_fval W nu nu_prev =
     (case W of
        SLinear s \<Rightarrow> DualLinear_fval s nu nu_prev
      | SConv2d s \<Rightarrow> DualConv2d_fval s nu nu_prev
      | SSequential \<Rightarrow> DualSequential_fval nu nu_prev)"

text \<open>Unpacking a result as a pair of bounds, or adding it to a sum of tensors.\<close>

definition as_bounds :: "fval_result \<Rightarrow> error + (tensor \<times> tensor)" where
  "as_bounds r =
     (case r of
        Bounds l u \<Rightarrow> Inr (l, u)
      | Val _ \<Rightarrow> Inl (TypeError ''zip argument is not iterable''))"

definition as_val :: "fval_result \<Rightarrow> error + tensor" where
  "as_val r =
     (case r of
        Val t \<Rightarrow> Inr t
      | Bounds _ _ \<Rightarrow> Inl (TypeError ''unsupported operand type(s) for +: int and tuple''))"

text \<open>
  \<^verbatim>\<open>
  fvals = list(W.fval(nu=nu, nu_prev=nu_prev) for W in self.duals if W is not None)
  if nu is None:
      l,u = zip(*fvals)
      return sum(l), sum(u)
  else:
      return sum(fvals)
  \<close>
\<close>

definition DualDense_fval ::
  "DualDense_obj \<Rightarrow> tensor option \<Rightarrow> tensor option \<Rightarrow> error + fval_result" where
  "DualDense_fval self nu nu_prev =
     ebind (emap (\<lambda>W. sub_fval W nu nu_prev) (List.map_filter (\<lambda>W. W) (dd_duals self)))
       (\<lambda>fvals.
          case nu of
            None \<Rightarrow>
              (case fvals of
                 [] \<Rightarrow> Inl (ValueError ''not enough values to unpack (expected 2, got 0)'')
               | _ \<Rightarrow> ebind (emap as_bounds fvals)
                        (\<lambda>lus. Inr (Bounds (py_sum (map fst lus)) (py_sum (map snd lus)))))
          | Some _ \<Rightarrow> ebind (emap as_val fvals) (\<lambda>ts. Inr (Val (py_sum ts))))"

subsection \<open>The dispatch of \<^verbatim>\<open>apply\<close> and \<^verbatim>\<open>fval\<close>\<close>

definition dual_apply :: "dual \<Rightarrow> dual \<Rightarrow> error + dual" where
  "dual_apply l dual_layer =
     (case l of
        DInfBall s \<Rightarrow> ebind (InfBall_apply s dual_layer) (\<lambda>s'. Inr (DInfBall s'))
      | DInfBallProj s \<Rightarrow> ebind (InfBallProj_apply s dual_layer) (\<lambda>s'. Inr (DInfBallProj s'))
      | DLinear s \<Rightarrow> ebind (DualLinear_apply s dual_layer) (\<lambda>s'. Inr (DLinear s'))
      | DConv2d s \<Rightarrow> ebind (DualConv2d_apply s dual_layer) (\<lambda>s'. Inr (DConv2d s'))
      | DReshape s \<Rightarrow> Inr (DReshape s)
      | DReLU s \<Rightarrow> ebind (DualReLU_apply s dual_layer) (\<lambda>s'. Inr (DReLU s'))
      | DReLUProj s \<Rightarrow> ebind (DualReLUProj_apply s dual_layer) (\<lambda>s'. Inr (DReLUProj s'))
      | DDense s \<Rightarrow> ebind (DualDense_apply s dual_layer) (\<lambda>s'. Inr (DDense s'))
      | DBatchNorm2d s \<Rightarrow> ebind (DualBatchNorm2d_apply s dual_layer) (\<lambda>s'. Inr (DBatchNorm2d s'))
      | DSequential \<Rightarrow> Inr DSequential)"

definition fval :: "dual \<Rightarrow> tensor option \<Rightarrow> tensor option \<Rightarrow> error + fval_result" where
  "fval l nu nu_prev =
     (case l of
        DInfBall s \<Rightarrow> InfBall_fval s nu nu_prev
      | DInfBallProj s \<Rightarrow> InfBallProj_fval s nu nu_prev
      | DLinear s \<Rightarrow> DualLinear_fval s nu nu_prev
      | DConv2d s \<Rightarrow> DualConv2d_fval s nu nu_prev
      | DReshape s \<Rightarrow> DualReshape_fval s nu nu_prev
      | DReLU s \<Rightarrow> DualReLU_fval s nu nu_prev
      | DReLUProj s \<Rightarrow> DualReLUProj_fval s nu nu_prev
      | DDense s \<Rightarrow> DualDense_fval s nu nu_prev
      | DBatchNorm2d s \<Rightarrow> DualBatchNorm2d_fval s nu nu_prev
      | DSequential \<Rightarrow> DualSequential_fval nu nu_prev)"

section \<open>\<^verbatim>\<open>DualNetBounds\<close>\<close>

text \<open>
  The keyword arguments of the constructor.  \<^verbatim>\<open>l1_proj\<close> is the size of the projection (a
  count, or \<^verbatim>\<open>None\<close>); \<^verbatim>\<open>alpha_grad\<close>, \<^verbatim>\<open>scatter_grad\<close>, \<^verbatim>\<open>l1_eps\<close>, \<^verbatim>\<open>m\<close> and
  \<^verbatim>\<open>batchnorm\<close> are accepted and not read.
\<close>

record kwargs =
  alpha_grad :: bool
  scatter_grad :: bool
  l1_proj :: "nat option"
  l1_eps :: "real option"
  m_bounds :: "nat option"
  batchnorm :: bool
  l1_type :: string

text \<open>
  What the constructor uses and the repository does not define is a parameter:
  \<^item> \<open>call_module l xs\<close>, the forward pass \<^verbatim>\<open>l(*xs)\<close> of a torch module;
  \<^item> \<open>transpose_all\<close>, \<^verbatim>\<open>Aff.transpose_all\<close> of module \<^verbatim>\<open>affine\<close>;
  \<^item> \<open>cauchy i\<close>, the Cauchy samples drawn while layer \<open>i\<close> is built.
\<close>

record env =
  call_module :: "layer \<Rightarrow> mat list \<Rightarrow> error + mat"
  transpose_all :: "layer list \<Rightarrow> error + layer list"
  cauchy :: "nat \<Rightarrow> nat \<Rightarrow> real"

record DualNetBounds_obj =
  dual_net :: "dual list"
  last_layer :: "dual option"

definition is_Dense :: "layer \<Rightarrow> bool" where
  "is_Dense l = (case l of Dense _ \<Rightarrow> True | _ \<Rightarrow> False)"

text \<open>
  \<^verbatim>\<open>
  zs = [Variable(X.data, volatile=True)]
  nf = [zs[0].size()]
  for l in net:
      if isinstance(l, Dense):
          zs.append(l(*zs))
      else:
          zs.append(l(zs[-1]))
      nf.append(zs[-1].size())
  \<close>
\<close>

fun forward_pass :: "env \<Rightarrow> layer list \<Rightarrow> mat list \<Rightarrow> error + mat list" where
  "forward_pass E [] zs = Inr zs"
| "forward_pass E (l # ls) zs =
     ebind (if is_Dense l then call_module E l zs else call_module E l [last zs]) (\<lambda>z.
       forward_pass E ls (zs @ [z]))"

text \<open>\<^verbatim>\<open>'Flatten' in str(layer.__class__.__name__)\<close>\<close>

fun starts_with :: "string \<Rightarrow> string \<Rightarrow> bool" where
  "starts_with [] s = True"
| "starts_with (c # cs) [] = False"
| "starts_with (c # cs) (x # xs) = (c = x \<and> starts_with cs xs)"

fun contains :: "string \<Rightarrow> string \<Rightarrow> bool" where
  "contains sub [] = (sub = [])"
| "contains sub (x # xs) = (starts_with sub (x # xs) \<or> contains sub xs)"

text \<open>
  The branch for \<^verbatim>\<open>nn.ReLU\<close>: the bounds are the sums of what every operator of the chain
  returns for \<^verbatim>\<open>fval()\<close>.
  \<^verbatim>\<open>
  zl, zu = zip(*[l.fval() for l in dual_net])
  zl, zu = sum(zl), sum(zu)
  ...
  if l1_proj is not None and l1_type=='median' and I.data.sum() > l1_proj:
      dual_layer = DualReLUProj(I, d, zl, l1_proj)
  else:
      dual_layer = DualReLU(I, d, zl)
  \<close>
\<close>

definition relu_bounds :: "dual list \<Rightarrow> error + (tensor \<times> tensor)" where
  "relu_bounds net =
     ebind (emap (\<lambda>l. ebind (fval l None None) as_bounds) net) (\<lambda>lus.
       Inr (py_sum (map fst lus), py_sum (map snd lus)))"

definition make_relu ::
  "env \<Rightarrow> kwargs \<Rightarrow> nat \<Rightarrow> dual list \<Rightarrow> error + (dual \<times> string list)" where
  "make_relu E kw i net =
     ebind (relu_bounds net) (\<lambda>(zl, zu).
       case (zl, zu) of
         (T2 l, T2 u) \<Rightarrow>
           (let (d, I) = relu_slope l u in
            case l1_proj kw of
              Some k \<Rightarrow>
                (if l1_type kw = ''median'' \<and> mask_sum I > k
                 then (let (s, w) = DualReLUProj_init I d l k (cauchy E i) in Inr (DReLUProj s, w))
                 else ebind (DualReLU_init I d l) (\<lambda>s. Inr (DReLU s, [])))
            | None \<Rightarrow> ebind (DualReLU_init I d l) (\<lambda>s. Inr (DReLU s, [])))
       | _ \<Rightarrow> Inl (RuntimeError ''bounds are not of shape (batch, features)''))"

text \<open>
  One step of the chain of \<^verbatim>\<open>isinstance\<close> tests: the operator for layer \<open>i\<close>, the chain
  (changed only by \<^verbatim>\<open>DualDense\<close>) and the warnings.
\<close>

definition make_dual ::
  "env \<Rightarrow> kwargs \<Rightarrow> mat list \<Rightarrow> layer list \<Rightarrow> nat \<Rightarrow> nat \<Rightarrow> nat \<Rightarrow> layer \<Rightarrow> dual list
     \<Rightarrow> error + (dual \<times> dual list \<times> string list)" where
  "make_dual E kw zs dense_t i fi fo l net =
     (case l of
        Linear _ \<Rightarrow> ebind (DualLinear_init l fo) (\<lambda>s. Inr (DLinear s, net, []))
      | Conv2d _ \<Rightarrow> ebind (DualConv2d_init l fo) (\<lambda>s. Inr (DConv2d s, net, []))
      | ReLU \<Rightarrow> ebind (make_relu E kw i net) (\<lambda>(s, w). Inr (s, net, w))
      | Dense Ws \<Rightarrow>
          (if i < length dense_t
           then (if is_Dense (dense_t ! i)
                 then ebind (DualDense_init Ws net fo) (\<lambda>(s, net'). Inr (DDense s, net', []))
                 else Inl AssertionError)
           else Inl (IndexError ''list index out of range''))
      | BatchNorm2d bn \<Rightarrow> Inr (DBatchNorm2d (DualBatchNorm2d_init bn (zs ! i) fo), net, [])
      | Custom name \<Rightarrow>
          (if contains ''Flatten'' name then Inr (DReshape (DualReshape_init fi fo), net, [])
           else Inl (ValueError (''No module for layer '' @ name))))"

text \<open>
  \<^verbatim>\<open>
  for i,(in_f,out_f,layer) in enumerate(zip(nf[:-1], nf[1:], net)):
      ...
      # skip last layer
      if i < len(net)-1:
          for l in dual_net:
              l.apply(dual_layer)
          dual_net.append(dual_layer)
      else:
          self.last_layer = dual_layer
  \<close>
\<close>

fun build ::
  "env \<Rightarrow> kwargs \<Rightarrow> mat list \<Rightarrow> layer list \<Rightarrow> nat \<Rightarrow> (nat \<times> nat \<times> nat \<times> layer) list
     \<Rightarrow> dual list \<Rightarrow> dual option \<Rightarrow> string list
     \<Rightarrow> error + (dual list \<times> dual option \<times> string list)" where
  "build E kw zs dense_t len [] net lst ws = Inr (net, lst, ws)"
| "build E kw zs dense_t len ((i, fi, fo, l) # rest) net lst ws =
     ebind (make_dual E kw zs dense_t i fi fo l net) (\<lambda>(dual_layer, net', w).
       if i < len - 1
       then ebind (emap (\<lambda>l. dual_apply l dual_layer) net') (\<lambda>net''.
              build E kw zs dense_t len rest (net'' @ [dual_layer]) lst (ws @ w))
       else build E kw zs dense_t len rest net' (Some dual_layer) (ws @ w))"

definition DualNetBounds_init ::
  "env \<Rightarrow> layer list \<Rightarrow> mat \<Rightarrow> real \<Rightarrow> kwargs \<Rightarrow> error + (DualNetBounds_obj \<times> string list)" where
  "DualNetBounds_init E net X eps kw =
     ebind (forward_pass E net [X]) (\<lambda>zs.
     let nf = map features zs in
     ebind (InfBall_init X eps) (\<lambda>ball.
     ebind (if list_ex is_Dense net then transpose_all E net else Inr []) (\<lambda>dense_t.
     ebind (build E kw zs dense_t (length net)
              (zip [0..<length net] (zip (butlast nf) (zip (tl nf) net)))
              [DInfBall ball] None [])
       (\<lambda>(dn, lst, ws). Inr (\<lparr>dual_net = dn, last_layer = lst\<rparr>, ws)))))"

text \<open>
  \<^verbatim>\<open>
  def g(self, c):
      nu = [-c]
      nu.append(self.last_layer.affine_transpose(nu[0]))
      for l in reversed(self.dual_net[1:]):
          nu.append(l.affine_transpose(*nu))
      dual_net = self.dual_net + [self.last_layer]
      nu.append(None)
      nu = list(reversed(nu))
      return sum(l.fval(nu=n, nu_prev=nprev)
          for l,nprev,n in zip(dual_net, nu[:-1],nu[1:]))
  \<close>
\<close>

fun sweep :: "dual list \<Rightarrow> tensor list \<Rightarrow> error + tensor list" where
  "sweep [] nu = Inr nu"
| "sweep (l # ls) nu = ebind (affine_transpose l nu) (\<lambda>t. sweep ls (nu @ [t]))"

definition g :: "DualNetBounds_obj \<Rightarrow> tensor \<Rightarrow> error + tensor" where
  "g self c =
     (case last_layer self of
        None \<Rightarrow> Inl (AttributeError ''last_layer'')
      | Some ll \<Rightarrow>
          ebind (affine_transpose ll [tmap uminus c]) (\<lambda>t.
          ebind (sweep (rev (drop 1 (dual_net self))) [tmap uminus c, t]) (\<lambda>nu.
            let chain = dual_net self @ [ll];
                nus = rev (map Some nu @ [None])
            in ebind (emap (\<lambda>(l, nprev, n). ebind (fval l n nprev) as_val)
                        (zip chain (zip (butlast nus) (drop 1 nus))))
                 (\<lambda>ts. Inr (py_sum ts)))))"

section \<open>History lists and sequences of operations\<close>

text \<open>
  The lengths of the history lists an operator owns: \<^verbatim>\<open>nu_x\<close> and \<^verbatim>\<open>nu_1\<close> (or \<^verbatim>\<open>nu\<close>) of
  an uncertainty-set representative, the \<^verbatim>\<open>bias\<close> of an affine or convolution operator
  that has one, \<^verbatim>\<open>nus\<close> (and \<^verbatim>\<open>nu_ones\<close>) of a ReLU operator that is not in the
  empty-relaxation state, \<^verbatim>\<open>ds\<close> of a normalization operator, and the bias lists of the
  operators in \<^verbatim>\<open>duals\<close> of a dense operator.
\<close>

definition bias_history :: "tensor list option \<Rightarrow> nat list" where
  "bias_history b = (case b of None \<Rightarrow> [] | Some bs \<Rightarrow> [length bs])"

definition sub_histories :: "sub_dual option \<Rightarrow> nat list" where
  "sub_histories W =
     (case W of
        Some (SLinear s) \<Rightarrow> bias_history (dl_bias s)
      | Some (SConv2d s) \<Rightarrow> bias_history (dc_bias s)
      | _ \<Rightarrow> [])"

definition histories :: "dual \<Rightarrow> nat list" where
  "histories l =
     (case l of
        DInfBall s \<Rightarrow> [length (ball_nu_x s), length (ball_nu_1 s)]
      | DInfBallProj s \<Rightarrow> [length (bproj_nu_x s), length (bproj_nu s)]
      | DLinear s \<Rightarrow> bias_history (dl_bias s)
      | DConv2d s \<Rightarrow> bias_history (dc_bias s)
      | DReshape s \<Rightarrow> []
      | DReLU s \<Rightarrow> (if relu_I_empty s then [] else [length (relu_nus s)])
      | DReLUProj s \<Rightarrow>
          (if proj_I_empty s then [] else [length (proj_nus s), length (proj_nu_ones s)])
      | DDense s \<Rightarrow> concat (map sub_histories (dd_duals s))
      | DBatchNorm2d s \<Rightarrow> [length (bn_ds s)]
      | DSequential \<Rightarrow> [])"

text \<open>
  The operations of an operator.  Only \<^verbatim>\<open>apply\<close> assigns to the object; \<^verbatim>\<open>fval\<close>,
  \<^verbatim>\<open>affine\<close> and \<^verbatim>\<open>affine_transpose\<close> return a value and leave the object as it is.  A
  sequence of operations stops at the first one that raises.
\<close>

datatype operation =
    Apply dual
  | Fval "tensor option" "tensor option"
  | Affine "tensor list"
  | Affine_transpose "tensor list"

definition run_op :: "dual \<Rightarrow> operation \<Rightarrow> error + dual" where
  "run_op l opn =
     (case opn of
        Apply dual_layer \<Rightarrow> dual_apply l dual_layer
      | Fval nu nu_prev \<Rightarrow> ebind (fval l nu nu_prev) (\<lambda>_. Inr l)
      | Affine xs \<Rightarrow> ebind (affine l xs) (\<lambda>_. Inr l)
      | Affine_transpose xs \<Rightarrow> ebind (affine_transpose l xs) (\<lambda>_. Inr l))"

fun run :: "dual \<Rightarrow> operation list \<Rightarrow> error + dual" where
  "run l [] = Inr l"
| "run l (opn # ops) = ebind (run_op l opn) (\<lambda>l'. run l' ops)"

definition applies :: "operation list \<Rightarrow> nat" where
  "applies ops = length (filter (\<lambda>opn. case opn of Apply _ \<Rightarrow> True | _ \<Rightarrow> False) ops)"

text \<open>An operator in its initial state: what a constructor returns.\<close>


inductive constructed :: "dual \<Rightarrow> bool" where
  "InfBall_init X eps = Inr s \<Longrightarrow> constructed (DInfBall s)"
| "InfBallProj_init X eps smp = Inr s \<Longrightarrow> constructed (DInfBallProj s)"
| "DualLinear_init ly n = Inr s \<Longrightarrow> constructed (DLinear s)"
| "DualConv2d_init ly n = Inr s \<Longrightarrow> constructed (DConv2d s)"
| "constructed (DReshape (DualReshape_init fi fo))"
| "DualReLU_init I_mask d_slope z_l = Inr s \<Longrightarrow> constructed (DReLU s)"
| "constructed (DReLUProj (fst (DualReLUProj_init I_mask d_slope z_l k cz)))"
| "DualDense_init Ws net n = Inr (s, net') \<Longrightarrow> constructed (DDense s)"
| "constructed (DBatchNorm2d (DualBatchNorm2d_init bn mb n))"
| "constructed DSequential"
section \<open>The interval estimate of the specification\<close>

text \<open>
  The bounds as the specification words them for the randomized operators: from the
  median \<open>n\<close> over the rows of the certificate's absolute values and the accumulated
  ones term \<open>no\<close>, the pair \<open>((- n - no) / 2, (n - no) / 2)\<close>.
\<close>

definition median_bounds :: "tensor \<Rightarrow> tensor \<Rightarrow> fval_result" where
  "median_bounds n no =
     Bounds (tdiv (tsub (tmap uminus n) no) (Num 2)) (tdiv (tsub n no) (Num 2))"

section \<open>The initial certificate of the specification\<close>

text \<open>
  A tensor with one row per set entry of the mask \<open>M\<close>, in row-major order: the row of
  entry \<open>(b, j)\<close> has \<open>n\<close> coordinates, all zero but coordinate \<open>j\<close>, which holds the
  entry \<open>(b, j)\<close> of \<open>v\<close>.
\<close>

definition seed_rows :: "nat \<Rightarrow> bool list list \<Rightarrow> mat \<Rightarrow> mat" where
  "seed_rows n M v = map (\<lambda>(b, j). (replicate n 0)[j := v ! b ! j]) (nonzero M)"

text \<open>
  \<^verbatim>\<open>isinstance(dual_layer, DualReLU)\<close> holds for both ReLU operators, \<^verbatim>\<open>DualReLUProj\<close> being a
  subclass of \<^verbatim>\<open>DualReLU\<close>; \<open>relu_d_of\<close> is the attribute \<^verbatim>\<open>d\<close> of such an operator.
\<close>

definition relu_d_of :: "dual \<Rightarrow> mat option" where
  "relu_d_of l = (case l of DReLU s \<Rightarrow> Some (relu_d s) | DReLUProj s \<Rightarrow> Some (proj_d s) | _ \<Rightarrow> None)"

section \<open>Layer kinds\<close>

text \<open>
  A layer of a kind the constructor does not recognise: none of the \<^verbatim>\<open>isinstance\<close> tests
  holds and the class name does not contain \<^verbatim>\<open>Flatten\<close>.
\<close>

definition unrecognized :: "layer \<Rightarrow> bool" where
  "unrecognized l = (case l of Custom name \<Rightarrow> \<not> contains ''Flatten'' name | _ \<Rightarrow> False)"

definition is_ball :: "dual \<Rightarrow> bool" where
  "is_ball l = (case l of DInfBall _ \<Rightarrow> True | DInfBallProj _ \<Rightarrow> True | _ \<Rightarrow> False)"

text \<open>
  What \<^verbatim>\<open>DualDense.__init__\<close> may do to the chain it is given: replace the \<^verbatim>\<open>dual_ts\<close> of
  dense operators.  Every other element stays as it is.
\<close>

definition dense_kind :: "dual \<Rightarrow> bool" where
  "dense_kind l = (case l of DDense _ \<Rightarrow> True | _ \<Rightarrow> False)"

definition dense_updated :: "dual list \<Rightarrow> dual list \<Rightarrow> bool" where
  "dense_updated net net' \<longleftrightarrow>
     length net' = length net
     \<and> (\<forall>k<length net. (dense_kind (net ! k) \<longrightarrow> dense_kind (net' ! k))
                      \<and> (\<not> dense_kind (net ! k) \<longrightarrow> net' ! k = net ! k))"

section \<open>The evaluation of the bound on an explicit store\<close>

text \<open>
  The objects that \<^verbatim>\<open>g\<close> reads and writes, at addresses of a store.  A Python list is a cell
  of its own that \<^verbatim>\<open>append\<close> changes in place; it holds tensors, \<^verbatim>\<open>None\<close>, or references to
  other cells.  An operator of the chain is a cell that holds all its attributes, its
  history lists included.  The \<^verbatim>\<open>DualNetBounds\<close> object holds the address of the list
  \<^verbatim>\<open>self.dual_net\<close> and, when the attribute is set, the address of \<^verbatim>\<open>self.last_layer\<close>.
  Tensors are values: no statement of \<^verbatim>\<open>g\<close>, and no statement of the methods
  \<^verbatim>\<open>affine_transpose\<close> and \<^verbatim>\<open>fval\<close> that it calls, writes into a tensor or assigns to an
  attribute (they use \<^verbatim>\<open>view\<close>, \<^verbatim>\<open>matmul\<close>, \<^verbatim>\<open>clamp\<close>, \<^verbatim>\<open>*\<close> and slices, which return new
  objects), so these methods read an operator cell and return a tensor.
\<close>

type_synonym addr = nat

datatype pyval = VTensor tensor | VNone | VRef addr

datatype cell =
    CList "pyval list"
  | COp dual
  | CNet addr "addr option"

type_synonym store = "cell list"

type_synonym 'a run = "store \<Rightarrow> (error + 'a) \<times> store"

definition sreturn :: "'a \<Rightarrow> 'a run" where
  "sreturn x \<sigma> = (Inr x, \<sigma>)"

text \<open>A computation that reads and writes no cell; it may raise.\<close>

definition lift :: "error + 'a \<Rightarrow> 'a run" where
  "lift r \<sigma> = (r, \<sigma>)"

text \<open>An exception ends the run; what was written before it stays written.\<close>

definition sbind :: "'a run \<Rightarrow> ('a \<Rightarrow> 'b run) \<Rightarrow> 'b run" where
  "sbind m f \<sigma> = (case m \<sigma> of (Inl e, \<sigma>') \<Rightarrow> (Inl e, \<sigma>') | (Inr x, \<sigma>') \<Rightarrow> f x \<sigma>')"

definition deref :: "addr \<Rightarrow> store \<Rightarrow> error + cell" where
  "deref a \<sigma> =
     (if a < length \<sigma> then Inr (\<sigma> ! a) else Inl (RuntimeError ''no object at this address''))"

text \<open>A list display, a slice, \<^verbatim>\<open>+\<close> on lists and \<^verbatim>\<open>list(...)\<close> make a new list.\<close>

definition new_list :: "pyval list \<Rightarrow> addr run" where
  "new_list vs \<sigma> = (Inr (length \<sigma>), \<sigma> @ [CList vs])"

definition get_list :: "addr \<Rightarrow> pyval list run" where
  "get_list a \<sigma> =
     (ebind (deref a \<sigma>) (\<lambda>c. case c of
                                CList vs \<Rightarrow> Inr vs
                              | _ \<Rightarrow> Inl (TypeError ''object is not a list'')), \<sigma>)"

text \<open>\<^verbatim>\<open>a.append(v)\<close> changes the list at \<open>a\<close> in place.\<close>

definition list_append :: "addr \<Rightarrow> pyval \<Rightarrow> unit run" where
  "list_append a v \<sigma> =
     (case fst (get_list a \<sigma>) of
        Inl e \<Rightarrow> (Inl e, \<sigma>)
      | Inr vs \<Rightarrow> (Inr (), \<sigma>[a := CList (vs @ [v])]))"

definition get_op :: "pyval \<Rightarrow> dual run" where
  "get_op v \<sigma> =
     ((case v of
         VRef a \<Rightarrow> ebind (deref a \<sigma>) (\<lambda>c. case c of
                                            COp l \<Rightarrow> Inr l
                                          | _ \<Rightarrow> Inl (AttributeError ''not a dual operator''))
       | _ \<Rightarrow> Inl (AttributeError ''not a dual operator'')), \<sigma>)"

definition get_net :: "addr \<Rightarrow> (addr \<times> addr option) run" where
  "get_net a \<sigma> =
     (ebind (deref a \<sigma>) (\<lambda>c. case c of
                                CNet dn ll \<Rightarrow> Inr (dn, ll)
                              | _ \<Rightarrow> Inl (AttributeError ''dual_net'')), \<sigma>)"

definition as_tensor :: "pyval \<Rightarrow> error + tensor" where
  "as_tensor v = (case v of VTensor t \<Rightarrow> Inr t | _ \<Rightarrow> Inl (TypeError ''not a tensor''))"

definition as_tensor_opt :: "pyval \<Rightarrow> error + tensor option" where
  "as_tensor_opt v =
     (case v of
        VTensor t \<Rightarrow> Inr (Some t)
      | VNone \<Rightarrow> Inr None
      | VRef _ \<Rightarrow> Inl (TypeError ''not a tensor''))"

definition py_first :: "'a list \<Rightarrow> error + 'a" where
  "py_first xs = (case xs of [] \<Rightarrow> Inl (IndexError ''list index out of range'') | x # _ \<Rightarrow> Inr x)"

text \<open>
  \<^verbatim>\<open>
  for l in reversed(self.dual_net[1:]):
      nu.append(l.affine_transpose(*nu))
  \<close>
  The list \<^verbatim>\<open>nu\<close> is read anew in every round and appended to in place.
\<close>

fun sweep_store :: "addr \<Rightarrow> pyval list \<Rightarrow> unit run" where
  "sweep_store nu [] = sreturn ()"
| "sweep_store nu (l # ls) =
     sbind (get_op l) (\<lambda>op.
     sbind (get_list nu) (\<lambda>vs.
     sbind (lift (ebind (emap as_tensor vs) (affine_transpose op))) (\<lambda>t.
     sbind (list_append nu (VTensor t)) (\<lambda>_.
       sweep_store nu ls))))"

text \<open>
  \<^verbatim>\<open>l.fval(nu=n, nu_prev=nprev) for l,nprev,n in zip(dual_net, nu[:-1], nu[1:])\<close>
\<close>

fun fvals_store :: "(pyval \<times> pyval \<times> pyval) list \<Rightarrow> tensor list run" where
  "fvals_store [] = sreturn []"
| "fvals_store ((l, nprev, n) # rest) =
     sbind (get_op l) (\<lambda>op.
     sbind (lift (ebind (as_tensor_opt n) (\<lambda>n'.
                  ebind (as_tensor_opt nprev) (\<lambda>nprev'.
                  ebind (fval op n' nprev') as_val)))) (\<lambda>t.
     sbind (fvals_store rest) (\<lambda>ts. sreturn (t # ts))))"

text \<open>
  \<^verbatim>\<open>g\<close>, statement by statement.  \<^verbatim>\<open>nu = [-c]\<close> makes a list; the three \<^verbatim>\<open>append\<close> calls change
  it in place; \<^verbatim>\<open>self.dual_net[1:]\<close>, \<^verbatim>\<open>self.dual_net + [self.last_layer]\<close>,
  \<^verbatim>\<open>list(reversed(nu))\<close>, \<^verbatim>\<open>nu[:-1]\<close> and \<^verbatim>\<open>nu[1:]\<close> make lists.
\<close>

definition g_store :: "addr \<Rightarrow> tensor \<Rightarrow> tensor run" where
  "g_store self c =
     sbind (new_list [VTensor (tmap uminus c)]) (\<lambda>nu.
     sbind (get_net self) (\<lambda>(dn, ll_attr).
     sbind (lift (case ll_attr of
                    None \<Rightarrow> Inl (AttributeError ''last_layer'')
                  | Some a \<Rightarrow> Inr a)) (\<lambda>ll.
     sbind (get_op (VRef ll)) (\<lambda>op.
     sbind (get_list nu) (\<lambda>vs.
     sbind (lift (ebind (py_first vs) (\<lambda>v0.
                  ebind (as_tensor v0) (\<lambda>t0. affine_transpose op [t0])))) (\<lambda>t.
     sbind (list_append nu (VTensor t)) (\<lambda>_.
     sbind (get_list dn) (\<lambda>refs.
     sbind (new_list (drop 1 refs)) (\<lambda>tail.
     sbind (get_list tail) (\<lambda>tail_refs.
     sbind (sweep_store nu (rev tail_refs)) (\<lambda>_.
     sbind (get_list dn) (\<lambda>refs'.
     sbind (new_list (refs' @ [VRef ll])) (\<lambda>chain.
     sbind (list_append nu VNone) (\<lambda>_.
     sbind (get_list nu) (\<lambda>vs'.
     sbind (new_list (rev vs')) (\<lambda>nu'.
     sbind (get_list nu') (\<lambda>ws.
     sbind (new_list (butlast ws)) (\<lambda>nprevs.
     sbind (new_list (drop 1 ws)) (\<lambda>ns.
     sbind (get_list chain) (\<lambda>ls.
     sbind (get_list nprevs) (\<lambda>ps.
     sbind (get_list ns) (\<lambda>ns'.
     sbind (fvals_store (zip ls (zip ps ns'))) (\<lambda>ts.
       sreturn (py_sum ts))))))))))))))))))))))))"

text \<open>One evaluation after the other on the same store; an exception ends one evaluation only.\<close>

fun g_all_store :: "addr \<Rightarrow> tensor list \<Rightarrow> store \<Rightarrow> (error + tensor) list \<times> store" where
  "g_all_store self [] \<sigma> = ([], \<sigma>)"
| "g_all_store self (c # cs) \<sigma> =
     (let (r, \<sigma>') = g_store self c \<sigma>;
          (rs, \<sigma>'') = g_all_store self cs \<sigma>'
      in (r # rs, \<sigma>''))"

text \<open>The \<^verbatim>\<open>DualNetBounds\<close> object at an address of a store, read with all its operators.\<close>

definition chain_of :: "store \<Rightarrow> addr \<Rightarrow> error + DualNetBounds_obj" where
  "chain_of \<sigma> self =
     ebind (fst (get_net self \<sigma>)) (\<lambda>(dn, ll_attr).
     ebind (fst (get_list dn \<sigma>)) (\<lambda>refs.
     ebind (emap (\<lambda>v. fst (get_op v \<sigma>)) refs) (\<lambda>ops.
     ebind (case ll_attr of
              None \<Rightarrow> Inr None
            | Some a \<Rightarrow> ebind (fst (get_op (VRef a) \<sigma>)) (\<lambda>l. Inr (Some l))) (\<lambda>lst.
       Inr \<lparr>dual_net = ops, last_layer = lst\<rparr>))))"

text \<open>The constructor builds a randomized ReLU operator only with these keyword arguments.\<close>

definition projection_used :: "kwargs \<Rightarrow> bool" where
  "projection_used kw \<longleftrightarrow> l1_proj kw \<noteq> None \<and> l1_type kw = ''median''"

text \<open>
  A run keeps the cells below an address: it writes to none of them and removes none.
\<close>

definition keeps :: "nat \<Rightarrow> 'a run \<Rightarrow> bool" where
  "keeps n m \<longleftrightarrow>
     (\<forall>\<sigma>. n \<le> length \<sigma> \<longrightarrow> n \<le> length (snd (m \<sigma>)) \<and> take n (snd (m \<sigma>)) = take n \<sigma>)"

section \<open>The closed form of the bound of an affine network\<close>

text \<open>
  The value that the specification compares \<^verbatim>\<open>g(c)\<close> with for a network without ReLU
  layers, written from the words of the specification and with none of the dual operators
  of the program.  A direction is a tensor of shape \<^verbatim>\<open>(batch, k, features)\<close>: one feature
  vector for every example and every row of the objective.

  The negated objective is the direction at the output of the network.  It is propagated
  to the input: the direction at an activation is the sum, over the layers that read the
  activation, of the transposed map of the reading part of the layer, applied to the
  direction at the output of that layer.  A layer that is not a block reads only its own
  input; a residual block reads, with its last entry, its own input and, with the entries
  before it, the activations one, two, ... layers further back.  Every bias of a layer
  contributes \<open>- direction \<cdot> bias\<close> with the direction at the output of the layer, and the
  uncertainty set contributes, for the direction \<open>v\<close> at the input \<open>x\<close>,
  \<open>- v \<cdot> x - \<epsilon> \<parallel>v\<parallel>\<^sub>1\<close>.
\<close>

type_synonym direction = "mat list"

definition cf_dot :: "vec \<Rightarrow> vec \<Rightarrow> real" where
  "cf_dot u v = sum_list (map2 (*) u v)"

text \<open>The transpose of a linear map: entry \<open>j\<close> of \<open>W\<^sup>T v\<close> is column \<open>j\<close> of \<open>W\<close> times \<open>v\<close>.\<close>

definition cf_transpose_linear :: "mat \<Rightarrow> vec \<Rightarrow> vec" where
  "cf_transpose_linear W v = map (\<lambda>col. cf_dot col v) (transpose W)"

text \<open>
  A normalization layer is the per-channel map \<open>y = scale * x + shift\<close> with
  \<open>scale = weight / sqrt (var + eps)\<close> and \<open>shift = bias - weight * mean / sqrt (var + eps)\<close>,
  where mean and variance are the stored running statistics in inference mode and the
  statistics of the nominal activation in training mode (the unbiased variance, over all
  examples and all positions of the channel).  The features of an example are its
  channels one after the other.
\<close>

definition cf_channel :: "nat \<Rightarrow> nat \<Rightarrow> vec \<Rightarrow> vec" where
  "cf_channel C c x = take (length x div C) (drop (c * (length x div C)) x)"

definition cf_mean :: "vec \<Rightarrow> real" where
  "cf_mean xs = sum_list xs / real (length xs)"

definition cf_var :: "vec \<Rightarrow> real" where
  "cf_var xs = (\<Sum>x\<leftarrow>xs. (x - cf_mean xs)\<^sup>2) / (real (length xs) - 1)"

definition cf_stats :: "bn_layer \<Rightarrow> mat \<Rightarrow> vec \<times> vec" where
  "cf_stats bn z =
     (if bn_training bn
      then (let vals = map (\<lambda>c. concat (map (cf_channel (length (bn_weight bn)) c) z))
                         [0..<length (bn_weight bn)]
            in (map cf_mean vals, map cf_var vals))
      else (running_mean bn, running_var bn))"

definition cf_scale :: "bn_layer \<Rightarrow> mat \<Rightarrow> vec" where
  "cf_scale bn z = map2 (\<lambda>w v. w / sqrt (v + bn_eps bn)) (bn_weight bn) (snd (cf_stats bn z))"

definition cf_shift :: "bn_layer \<Rightarrow> mat \<Rightarrow> vec" where
  "cf_shift bn z =
     map2 (\<lambda>b (w, m, v). b - w * (m / sqrt (v + bn_eps bn))) (bn_bias bn)
       (zip (bn_weight bn) (zip (fst (cf_stats bn z)) (snd (cf_stats bn z))))"

text \<open>A value per channel, repeated for every position of the channel, for \<open>n\<close> features.\<close>

definition cf_per_feature :: "vec \<Rightarrow> nat \<Rightarrow> vec" where
  "cf_per_feature s n = concat (map (replicate (n div length s)) s)"

text \<open>
  The transposed map of an entry of a residual block, and its bias for \<open>fo\<close> output
  features.  An empty entry (\<^verbatim>\<open>None\<close>) reads nothing; an empty \<^verbatim>\<open>Sequential\<close> is the identity.
\<close>

definition cf_part_transpose :: "wmodule \<Rightarrow> (vec \<Rightarrow> error + vec) option" where
  "cf_part_transpose W =
     (case W of
        WLinear lin \<Rightarrow> Some (\<lambda>v. Inr (cf_transpose_linear (lin_weight lin) v))
      | WConv2d cv \<Rightarrow> Some (F_conv_transpose2d cv)
      | WSequential n \<Rightarrow> (if n = 0 then Some (\<lambda>v. Inr v) else None)
      | _ \<Rightarrow> None)"

definition cf_part_bias :: "wmodule \<Rightarrow> nat \<Rightarrow> vec option" where
  "cf_part_bias W fo =
     (case W of
        WLinear lin \<Rightarrow> lin_bias lin
      | WConv2d cv \<Rightarrow> map_option (\<lambda>b. cf_per_feature b fo) (conv_bias cv)
      | _ \<Rightarrow> None)"

text \<open>
  \<open>cf_route zs i l k\<close>: the transposed map of the part of layer \<open>l\<close>, the layer of index \<open>i\<close>,
  that reads the activation \<open>k\<close> layers before its own input, if there is such a part.
  \<open>cf_biases\<close>: the biases of the layer, for \<open>fo\<close> output features.
\<close>

definition cf_route :: "mat list \<Rightarrow> nat \<Rightarrow> layer \<Rightarrow> nat \<Rightarrow> (vec \<Rightarrow> error + vec) option" where
  "cf_route zs i l k =
     (case l of
        Linear lin \<Rightarrow>
          (if k = 0 then Some (\<lambda>v. Inr (cf_transpose_linear (lin_weight lin) v)) else None)
      | Conv2d cv \<Rightarrow> (if k = 0 then Some (F_conv_transpose2d cv) else None)
      | BatchNorm2d bn \<Rightarrow>
          (if k = 0
           then Some (\<lambda>v. Inr (map2 (*) (cf_per_feature (cf_scale bn (zs ! i)) (length v)) v))
           else None)
      | Custom name \<Rightarrow> (if k = 0 then Some (\<lambda>v. Inr v) else None)
      | Dense Ws \<Rightarrow>
          (if k < length Ws then cf_part_transpose (Ws ! (length Ws - 1 - k)) else None)
      | ReLU \<Rightarrow> None)"

definition cf_biases :: "mat list \<Rightarrow> nat \<Rightarrow> nat \<Rightarrow> layer \<Rightarrow> vec list" where
  "cf_biases zs i fo l =
     (case l of
        Linear lin \<Rightarrow> (case lin_bias lin of None \<Rightarrow> [] | Some b \<Rightarrow> [b])
      | Conv2d cv \<Rightarrow> (case conv_bias cv of None \<Rightarrow> [] | Some b \<Rightarrow> [cf_per_feature b fo])
      | BatchNorm2d bn \<Rightarrow> [cf_per_feature (cf_shift bn (zs ! i)) fo]
      | Dense Ws \<Rightarrow> List.map_filter (\<lambda>W. cf_part_bias W fo) Ws
      | _ \<Rightarrow> [])"

text \<open>A map on feature vectors, applied to every example and row of a direction.\<close>

definition cf_each :: "(vec \<Rightarrow> error + vec) \<Rightarrow> direction \<Rightarrow> error + direction" where
  "cf_each f d = emap (emap f) d"

definition cf_add :: "direction \<Rightarrow> direction \<Rightarrow> direction" where
  "cf_add = map2 (map2 (map2 (+)))"

text \<open>The zero direction with the examples and rows of \<open>c\<close> and \<open>n\<close> features.\<close>

definition cf_zero :: "direction \<Rightarrow> nat \<Rightarrow> direction" where
  "cf_zero c n = map (map (\<lambda>_. replicate n 0)) c"

definition cf_features :: "mat \<Rightarrow> nat" where
  "cf_features z = (case z of [] \<Rightarrow> 0 | x # _ \<Rightarrow> length x)"

text \<open>
  The direction at activation \<open>j\<close>, from the directions \<open>vs\<close> at the activations
  \<open>n, n - 1, ..., j + 1\<close> (in this order, \<open>n\<close> the number of layers): layer \<open>j + k\<close> reads
  activation \<open>j\<close> with the part \<open>k\<close> layers back, and the direction at its output is number
  \<open>n - 1 - (j + k)\<close> of \<open>vs\<close>.  Where no layer reads the activation the direction is zero.
\<close>

definition cf_direction ::
  "mat list \<Rightarrow> layer list \<Rightarrow> direction \<Rightarrow> nat \<Rightarrow> direction list \<Rightarrow> error + direction" where
  "cf_direction zs net c j vs =
     ebind (emap (\<lambda>k. case cf_route zs (j + k) (net ! (j + k)) k of
                        None \<Rightarrow> Inr None
                      | Some T \<Rightarrow> ebind (cf_each T (vs ! (length net - 1 - (j + k))))
                                    (\<lambda>d. Inr (Some d)))
              [0..<length net - j])
       (\<lambda>ts. Inr (case List.map_filter (\<lambda>t. t) ts of
                     [] \<Rightarrow> cf_zero c (cf_features (zs ! j))
                   | d # ds \<Rightarrow> foldl cf_add d ds))"

fun cf_directions ::
  "mat list \<Rightarrow> layer list \<Rightarrow> direction \<Rightarrow> nat \<Rightarrow> direction list \<Rightarrow> error + direction list" where
  "cf_directions zs net c 0 vs = Inr vs"
| "cf_directions zs net c (Suc j) vs =
     ebind (cf_direction zs net c j vs) (\<lambda>v. cf_directions zs net c j (vs @ [v]))"

definition cf_bias_term :: "direction \<Rightarrow> vec \<Rightarrow> mat" where
  "cf_bias_term d b = map (map (\<lambda>v. - cf_dot v b)) d"

definition cf_ball_term :: "real \<Rightarrow> mat \<Rightarrow> direction \<Rightarrow> mat" where
  "cf_ball_term eps X d =
     map2 (\<lambda>x rows. map (\<lambda>v. - cf_dot v x - eps * (\<Sum>a\<leftarrow>v. \<bar>a\<bar>)) rows) X d"

definition cf_madd :: "mat \<Rightarrow> mat \<Rightarrow> mat" where
  "cf_madd = map2 (map2 (+))"

text \<open>
  The closed form for the objective \<open>c\<close>, the nominal activations \<open>zs\<close> of the layers
  \<open>net\<close> (the input \<open>X\<close> first) and the radius \<open>eps\<close>: one value for every example and every
  row of the objective.
\<close>

definition closed_form ::
  "mat list \<Rightarrow> layer list \<Rightarrow> mat \<Rightarrow> real \<Rightarrow> direction \<Rightarrow> error + mat" where
  "closed_form zs net X eps c =
     ebind (cf_directions zs net (map (map (map uminus)) c) (length net)
              [map (map (map uminus)) c]) (\<lambda>vs.
       Inr (foldl cf_madd (cf_ball_term eps X (vs ! length net))
              (concat (map (\<lambda>i. map (cf_bias_term (vs ! (length net - 1 - i)))
                                  (cf_biases zs i (cf_features (zs ! (i + 1))) (net ! i)))
                         [0..<length net]))))"

section \<open>Auxiliary notions for chains without residual blocks\<close>

text \<open>
  The notions of this section serve the proof that \<^verbatim>\<open>g\<close> computes the closed form on the
  networks of linear, convolution, normalization and reshape layers.  They describe the
  program: \<open>affine_dual\<close> is the operator that the constructor builds for such a layer \<open>l\<close>
  at index \<open>i\<close>, with \<open>fi\<close> input and \<open>fo\<close> output features.
\<close>

definition affine_layer :: "layer \<Rightarrow> bool" where
  "affine_layer l =
     (case l of
        Linear _ \<Rightarrow> True
      | Conv2d _ \<Rightarrow> True
      | BatchNorm2d _ \<Rightarrow> True
      | Custom name \<Rightarrow> contains ''Flatten'' name
      | _ \<Rightarrow> False)"

definition affine_dual :: "mat list \<Rightarrow> nat \<Rightarrow> nat \<Rightarrow> nat \<Rightarrow> layer \<Rightarrow> dual" where
  "affine_dual zs i fi fo l =
     (case l of
        Linear lin \<Rightarrow>
          DLinear \<lparr>dl_layer = lin,
                   dl_bias = (case lin_bias lin of
                                None \<Rightarrow> None
                              | Some b \<Rightarrow> Some [full_bias_linear b])\<rparr>
      | Conv2d cv \<Rightarrow>
          DConv2d \<lparr>dc_layer = cv,
                   dc_bias = (case conv_bias cv of
                                None \<Rightarrow> None
                              | Some b \<Rightarrow> Some [full_bias_conv b fo])\<rparr>
      | BatchNorm2d bn \<Rightarrow> DBatchNorm2d (DualBatchNorm2d_init bn (zs ! i) fo)
      | _ \<Rightarrow> DReshape (DualReshape_init fi fo))"

text \<open>
  The operators of such a chain, and an operator with every history list cut down to
  its first entry: the only entry that \<^verbatim>\<open>g\<close> reads.
\<close>

definition affine_kind :: "dual \<Rightarrow> bool" where
  "affine_kind l =
     (case l of
        DInfBall _ \<Rightarrow> True
      | DLinear _ \<Rightarrow> True
      | DConv2d _ \<Rightarrow> True
      | DReshape _ \<Rightarrow> True
      | DBatchNorm2d _ \<Rightarrow> True
      | _ \<Rightarrow> False)"

definition core :: "dual \<Rightarrow> dual" where
  "core l =
     (case l of
        DInfBall s \<Rightarrow>
          DInfBall (s\<lparr>ball_nu_x := take 1 (ball_nu_x s), ball_nu_1 := take 1 (ball_nu_1 s)\<rparr>)
      | DLinear s \<Rightarrow> DLinear (s\<lparr>dl_bias := map_option (take 1) (dl_bias s)\<rparr>)
      | DConv2d s \<Rightarrow> DConv2d (s\<lparr>dc_bias := map_option (take 1) (dc_bias s)\<rparr>)
      | DBatchNorm2d s \<Rightarrow> DBatchNorm2d (s\<lparr>bn_ds := take 1 (bn_ds s)\<rparr>)
      | _ \<Rightarrow> l)"

text \<open>
  What \<^verbatim>\<open>affine_transpose\<close> of the operator of layer \<open>l\<close> returns for the tensor \<open>nu\<close>, and
  the bias that its \<^verbatim>\<open>fval\<close> reads, flattened.
\<close>

definition op_transpose :: "mat list \<Rightarrow> nat \<Rightarrow> nat \<Rightarrow> layer \<Rightarrow> tensor \<Rightarrow> error + tensor" where
  "op_transpose zs i fo l nu =
     (case l of
        Linear lin \<Rightarrow> F_linear nu (transpose (lin_weight lin))
      | Conv2d cv \<Rightarrow> conv_affine conv_transpose2d (F_conv_transpose2d cv) [nu]
      | BatchNorm2d bn \<Rightarrow>
          Inr (tvmap (scale_channels (bn_D (DualBatchNorm2d_init bn (zs ! i) fo))) nu)
      | _ \<Rightarrow> view_features nu)"

definition op_bias :: "mat list \<Rightarrow> nat \<Rightarrow> nat \<Rightarrow> layer \<Rightarrow> vec option" where
  "op_bias zs i fo l =
     (case l of
        Linear lin \<Rightarrow> lin_bias lin
      | Conv2d cv \<Rightarrow> map_option (\<lambda>b. expand_channels b fo) (conv_bias cv)
      | BatchNorm2d bn \<Rightarrow> Some (flat (hd (bn_ds (DualBatchNorm2d_init bn (zs ! i) fo))))
      | _ \<Rightarrow> None)"

text \<open>What \<^verbatim>\<open>fval\<close> of such an operator returns for a direction: the number \<open>0\<close> without
  bias.\<close>

definition bias_contribution :: "vec option \<Rightarrow> tensor \<Rightarrow> error + tensor" where
  "bias_contribution b nu =
     (case b of None \<Rightarrow> Inr (Num 0) | Some b' \<Rightarrow> neg_matmul_vec nu b')"

text \<open>What \<^verbatim>\<open>InfBall.fval\<close> returns for a direction before any \<^verbatim>\<open>apply\<close>.\<close>

definition ball_term :: "real \<Rightarrow> mat \<Rightarrow> tensor \<Rightarrow> error + tensor" where
  "ball_term eps X nu = ebind (ball_direction eps [T2 X] nu) as_val"

text \<open>
  The computation of \<^verbatim>\<open>g\<close> on such a chain as one recursion over the layers, last first
  (each with its index and its number of output features): the results of \<^verbatim>\<open>fval\<close> in the
  order of the layers and the tensor that reaches the input; and the value of \<^verbatim>\<open>g\<close>.
  \<open>directions\<close> are the tensors of the sweep alone.
\<close>

fun propagate ::
  "mat list \<Rightarrow> (nat \<times> nat \<times> layer) list \<Rightarrow> tensor \<Rightarrow> error + (tensor list \<times> tensor)" where
  "propagate zs [] nu = Inr ([], nu)"
| "propagate zs ((i, fo, l) # ls) nu =
     ebind (bias_contribution (op_bias zs i fo l) nu) (\<lambda>t.
     ebind (op_transpose zs i fo l nu) (\<lambda>nu'.
     ebind (propagate zs ls nu') (\<lambda>(ts, nu0). Inr (ts @ [t], nu0))))"

definition chain_value :: "mat list \<Rightarrow> layer list \<Rightarrow> mat \<Rightarrow> real \<Rightarrow> tensor \<Rightarrow> error + tensor" where
  "chain_value zs net X eps c =
     ebind (propagate zs (rev (zip [0..<length net] (zip (tl (map features zs)) net)))
              (tmap uminus c)) (\<lambda>(ts, nu0).
     ebind (ball_term eps X nu0) (\<lambda>t0. Inr (py_sum (t0 # ts))))"

fun directions :: "mat list \<Rightarrow> (nat \<times> nat \<times> layer) list \<Rightarrow> tensor \<Rightarrow> error + tensor list" where
  "directions zs [] nu = Inr [nu]"
| "directions zs ((i, fo, l) # ls) nu =
     ebind (op_transpose zs i fo l nu) (\<lambda>nu'.
     ebind (directions zs ls nu') (\<lambda>vs. Inr (nu # vs)))"

text \<open>A direction for \<open>B\<close> examples with \<open>k\<close> rows each.\<close>

definition shaped :: "nat \<Rightarrow> nat \<Rightarrow> direction \<Rightarrow> bool" where
  "shaped B k d \<longleftrightarrow> length d = B \<and> list_all (\<lambda>m. length m = k) d"

section \<open>Verified properties\<close>

subsection \<open>The error monad\<close>

lemma ebind_Inr [simp]: "ebind (Inr v) f = f v"
  by (simp add: ebind_def)

lemma ebind_Inl [simp]: "ebind (Inl e) f = Inl e"
  by (simp add: ebind_def)

lemma ebind_eq_Inr: "ebind m f = Inr r \<longleftrightarrow> (\<exists>v. m = Inr v \<and> f v = Inr r)"
  by (cases m) auto

lemma py_last_nonempty: "xs \<noteq> [] \<Longrightarrow> py_last xs = Inr (last xs)"
  by (cases xs) (auto simp: py_last_def)

lemma bcast2_same_length: "length xs = length ys \<Longrightarrow> bcast2 f xs ys = map2 f xs ys"
  by (cases xs; cases ys) (auto simp: bcast2_def split: list.splits)

subsection \<open>The activation classification\<close>


lemma select_map2:
  "length xs = length bs \<Longrightarrow> length ys = length bs \<Longrightarrow>
   select bs (map2 f xs ys) = map2 f (select bs xs) (select bs ys)"
proof (induction bs arbitrary: xs ys)
  case Nil
  then show ?case by (simp add: select_def)
next
  case (Cons b bs)
  then obtain x xs' y ys' where "xs = x # xs'" "ys = y # ys'"
    by (cases xs; cases ys) auto
  with Cons show ?case by (auto simp: select_def)
qed

lemma masked_put_select:
  "length xs = length bs \<Longrightarrow> length ys = length bs \<Longrightarrow>
   masked_put bs xs (select bs ys) = map2 (\<lambda>b (x, y). if b then y else x) bs (zip xs ys)"
proof (induction bs arbitrary: xs ys)
  case Nil
  then show ?case by simp
next
  case (Cons b bs)
  then obtain x xs' y ys' where "xs = x # xs'" "ys = y # ys'"
    by (cases xs; cases ys) auto
  with Cons show ?case by (cases b) (auto simp: select_def)
qed

lemma concat_map2_map2:
  "same_shape xss yss \<Longrightarrow> concat (map2 (map2 f) xss yss) = map2 f (concat xss) (concat yss)"
proof (induction xss arbitrary: yss)
  case Nil
  then show ?case by simp
next
  case (Cons xs xss)
  then obtain ys yss' where "yss = ys # yss'" by (cases yss) (auto simp: same_shape_def)
  with Cons show ?case by (auto simp: same_shape_def zip_append)
qed

lemma unconcat_map2:
  "same_shape t xss \<Longrightarrow> same_shape t yss \<Longrightarrow>
   unconcat t (map2 f (concat xss) (concat yss)) = map2 (map2 f) xss yss"
proof (induction t arbitrary: xss yss)
  case Nil
  then show ?case by (simp add: same_shape_def)
next
  case (Cons r t)
  then obtain xs xss' ys yss' where "xss = xs # xss'" "yss = ys # yss'"
    by (cases xss; cases yss) (auto simp: same_shape_def)
  with Cons show ?case by (auto simp: same_shape_def zip_append take_map drop_map take_zip drop_zip)
qed

lemma masked_put_none: "\<forall>b\<in>set bs. \<not> b \<Longrightarrow> masked_put bs xs vs = xs"
  by (induction bs xs vs rule: masked_put.induct) auto

lemma unconcat_concat: "unconcat t (concat t) = t"
  by (induction t) auto

lemma length_concat_same_shape: "same_shape xss yss \<Longrightarrow> length (concat xss) = length (concat yss)"
  by (simp add: same_shape_def length_concat)

lemma concat_active_mask: "concat (active_mask zl) = map (\<lambda>l. if l \<ge> - tol then 1 else 0) (concat zl)"
  by (simp add: active_mask_def map_concat)

lemma same_shape_active_mask: "same_shape (active_mask zl) zl"
  by (simp add: same_shape_def active_mask_def comp_def)

lemma same_shape_sym: "same_shape xss yss \<Longrightarrow> same_shape yss xss"
  by (simp add: same_shape_def)

lemma same_shape_trans: "same_shape xss yss \<Longrightarrow> same_shape yss zss \<Longrightarrow> same_shape xss zss"
  by (simp add: same_shape_def)

lemma flat_slope:
  assumes "length ZU = length ZL"
  shows "masked_put (map2 (\<lambda>u l. u > tol \<and> l < - tol) ZU ZL) (map (\<lambda>l. if l \<ge> - tol then 1 else 0) ZL)
      (map2 (+) (select (map2 (\<lambda>u l. u > tol \<and> l < - tol) ZU ZL) (map (\<lambda>l. if l \<ge> - tol then 1 else 0) ZL))
         (map2 (/) (select (map2 (\<lambda>u l. u > tol \<and> l < - tol) ZU ZL) ZU)
            (map2 (-) (select (map2 (\<lambda>u l. u > tol \<and> l < - tol) ZU ZL) ZU)
                      (select (map2 (\<lambda>u l. u > tol \<and> l < - tol) ZU ZL) ZL))))
     = map2 (\<lambda>u l. slope_spec l u) ZU ZL" (is "masked_put ?B ?D ?V = ?R")
proof -
  have lB: "length ?B = length ZL" using assms by simp
  have V: "?V = select ?B (map2 (+) ?D (map2 (/) ZU (map2 (-) ZU ZL)))"
    using assms by (simp add: select_map2)
  have "masked_put ?B ?D ?V = map2 (\<lambda>b (x, y). if b then y else x) ?B (zip ?D (map2 (+) ?D (map2 (/) ZU (map2 (-) ZU ZL))))"
    unfolding V using assms by (intro masked_put_select) simp_all
  also have "\<dots> = ?R"
    using assms by (intro nth_equalityI) (auto simp: slope_spec_def)
  finally show ?thesis .
qed

lemma relu_slope_d:
  assumes "same_shape zl zu"
  shows "fst (relu_slope zl zu) = map2 (map2 (\<lambda>u l. slope_spec l u)) zu zl"
proof -
  let ?d = "active_mask zl" and ?I = "unstable_mask zl zu"
  have sh: "same_shape zu zl" using assms by (rule same_shape_sym)
  have len: "length (concat zu) = length (concat zl)" using sh by (rule length_concat_same_shape)
  have cI: "concat ?I = map2 (\<lambda>u l. u > tol \<and> l < - tol) (concat zu) (concat zl)"
    unfolding unstable_mask_def using sh by (rule concat_map2_map2)
  have main: "masked_assign ?I ?d
                 (map2 (+) (masked_select ?I ?d)
                    (map2 (/) (masked_select ?I zu)
                       (map2 (-) (masked_select ?I zu) (masked_select ?I zl))))
        = map2 (map2 (\<lambda>u l. slope_spec l u)) zu zl"
    unfolding masked_assign_def masked_select_def cI concat_active_mask flat_slope[OF len]
    by (intro unconcat_map2 same_shape_trans[OF same_shape_active_mask] assms)
       (simp add: same_shape_def)
  show ?thesis
  proof (cases "mask_sum ?I > 0")
    case True
    then show ?thesis using main by (simp add: relu_slope_def Let_def)
  next
    case False
    then have "\<forall>b\<in>set (concat ?I). \<not> b"
      by (auto simp: mask_sum_def filter_empty_conv)
    then have "masked_assign ?I ?d
                 (map2 (+) (masked_select ?I ?d)
                    (map2 (/) (masked_select ?I zu)
                       (map2 (-) (masked_select ?I zu) (masked_select ?I zl)))) = ?d"
      by (simp add: masked_assign_def masked_put_none unconcat_concat)
    with main False show ?thesis by (simp add: relu_slope_def Let_def)
  qed
qed

lemma slope_bounds: "0 \<le> slope_spec l u \<and> slope_spec l u \<le> 1"
  by (auto simp: slope_spec_def tol_def divide_simps)

lemma relu_slope_I: "snd (relu_slope zl zu) = unstable_mask zl zu"
  by (simp add: relu_slope_def Let_def)


lemma same_shape_nth:
  assumes "same_shape xss yss" and "b < length xss"
  shows "b < length yss \<and> length (yss ! b) = length (xss ! b)"
proof -
  have eq: "map length xss = map length yss" using assms(1) by (simp add: same_shape_def)
  then have len: "length xss = length yss" by (rule map_eq_imp_length_eq)
  have "map length xss ! b = map length yss ! b" using eq by simp
  then show ?thesis using assms(2) len by simp
qed

lemma same_shape_map2:
  "same_shape yss xss \<Longrightarrow> same_shape xss (map2 (map2 f) yss xss)"
proof (induction xss arbitrary: yss)
  case Nil
  then show ?case by (simp add: same_shape_def)
next
  case (Cons xs xss)
  then obtain ys yss' where "yss = ys # yss'" by (cases yss) (auto simp: same_shape_def)
  with Cons show ?case by (auto simp: same_shape_def)
qed

text \<open>
  C2.  For pre-activation bounds \<open>zl\<close>, \<open>zu\<close> of one shape, at every activation: the mask
  \<open>I\<close> is set exactly when \<open>zu > 1e-5\<close> and \<open>zl < -1e-5\<close>; the slope \<open>d\<close> is the
  three-case value of \<open>slope_spec\<close> (1 where \<open>zl \<ge> -1e-5\<close>, \<open>zu / (zu - zl)\<close> where \<open>I\<close> is
  set, 0 in the remaining case \<open>zl < -1e-5\<close>, \<open>zu \<le> 1e-5\<close>) and lies in \<open>[0, 1]\<close>; and
  where \<open>I\<close> is set the denominator \<open>zu - zl\<close> exceeds \<open>2e-5\<close>.
\<close>

theorem relu_classification:
  assumes "same_shape zl zu" and "b < length zl" and "j < length (zl ! b)"
  shows "snd (relu_slope zl zu) ! b ! j = (zu ! b ! j > tol \<and> zl ! b ! j < - tol)
       \<and> fst (relu_slope zl zu) ! b ! j = slope_spec (zl ! b ! j) (zu ! b ! j)
       \<and> 0 \<le> fst (relu_slope zl zu) ! b ! j \<and> fst (relu_slope zl zu) ! b ! j \<le> 1
       \<and> (if snd (relu_slope zl zu) ! b ! j then zu ! b ! j - zl ! b ! j > 2 * tol else True)
       \<and> same_shape (fst (relu_slope zl zu)) zl \<and> same_shape (snd (relu_slope zl zu)) zl"
proof -
  have lb: "b < length zu" and lj: "j < length (zu ! b)"
    using same_shape_nth[OF assms(1,2)] assms(3) by simp_all
  have I: "snd (relu_slope zl zu) ! b ! j = (zu ! b ! j > tol \<and> zl ! b ! j < - tol)"
    using assms lb lj by (simp add: relu_slope_I unstable_mask_def)
  have d: "fst (relu_slope zl zu) ! b ! j = slope_spec (zl ! b ! j) (zu ! b ! j)"
    using assms lb lj by (simp add: relu_slope_d)
  have sh1: "same_shape (fst (relu_slope zl zu)) zl"
    unfolding relu_slope_d[OF assms(1)]
    by (rule same_shape_sym, rule same_shape_map2, rule same_shape_sym, rule assms(1))
  have sh2: "same_shape (snd (relu_slope zl zu)) zl"
    unfolding relu_slope_I unstable_mask_def
    by (rule same_shape_sym, rule same_shape_map2, rule same_shape_sym, rule assms(1))
  have bnd: "0 \<le> slope_spec (zl ! b ! j) (zu ! b ! j) \<and> slope_spec (zl ! b ! j) (zu ! b ! j) \<le> 1"
    by (rule slope_bounds)
  have den: "zu ! b ! j > tol \<and> zl ! b ! j < - tol \<Longrightarrow> zu ! b ! j - zl ! b ! j > 2 * tol"
    by simp
  show ?thesis
    unfolding d I using bnd den sh1 sh2 by simp
qed

theorem relu_classification_witness:
  "same_shape [[-1, 1 / 2, -1]] [[1, 1, - 1 / 2 :: real]]
   \<and> (0::nat) < length [[-1, 1 / 2, -1 :: real]]
   \<and> (0::nat) < length ([[-1, 1 / 2, -1 :: real]] ! 0)
   \<and> snd (relu_slope [[-1, 1 / 2, -1]] [[1, 1, - 1 / 2]]) ! 0 ! 0 = True
   \<and> fst (relu_slope [[-1, 1 / 2, -1]] [[1, 1, - 1 / 2]]) ! 0 ! 0 = 1 / 2"
  using relu_classification[of "[[-1, 1 / 2, -1]]" "[[1, 1, - 1 / 2]]" 0 0]
  by (simp add: same_shape_def slope_spec_def tol_def)

subsection \<open>The chunked convolution helpers\<close>


lemma F_batched_append:
  "F_batched f (xs @ ys) =
     (case F_batched f xs of
        Inl e \<Rightarrow> Inl e
      | Inr a \<Rightarrow> (case F_batched f ys of Inl e \<Rightarrow> Inl e | Inr b \<Rightarrow> Inr (a @ b)))"
  by (induction xs) (auto split: sum.splits)

lemma slice_drop: "slice x i (min (i + n) (length x)) @ drop (i + n) x = drop i x"
proof -
  have "take n (drop i x) @ drop n (drop i x) = drop i x" by (rule append_take_drop_id)
  moreover have "take (min (i + n) (length x) - i) (drop i x) = take n (drop i x)"
    by (cases "i + n \<le> length x") (auto simp: min_def)
  ultimately show ?thesis by (simp add: slice_def add.commute)
qed

lemma conv2d_loop_spec:
  "(case conv2d_loop f x i out of
      Inl e \<Rightarrow> F_batched f (drop i x) = Inl e
    | Inr out' \<Rightarrow> (\<exists>ys. F_batched f (drop i x) = Inr ys \<and> concat out' = concat out @ ys
                      \<and> (if i < length x then out' \<noteq> [] else out' = out)))"
proof (induction f x i out rule: conv2d_loop.induct)
  case (1 f x i out)
  show ?case
  proof (cases "i < length x")
    case False
    then show ?thesis by (simp add: conv2d_loop.simps[of f x i out])
  next
    case True
    note lt = this
    show ?thesis
    proof (cases "F_batched f (slice x i (min (i + batch_size) (length x)))")
      case (Inl e)
      then have "F_batched f (drop i x) = Inl e"
        using F_batched_append[of f "slice x i (min (i + batch_size) (length x))" "drop (i + batch_size) x"]
        by (simp add: slice_drop)
      with lt Inl show ?thesis by (simp add: conv2d_loop.simps[of f x i out])
    next
      case (Inr y)
      have app: "F_batched f (drop i x) = (case F_batched f (drop (i + batch_size) x) of Inl e \<Rightarrow> Inl e | Inr b \<Rightarrow> Inr (y @ b))"
        using F_batched_append[of f "slice x i (min (i + batch_size) (length x))" "drop (i + batch_size) x"] Inr
        by (simp add: slice_drop)
      have step: "conv2d_loop f x i out = conv2d_loop f x (i + batch_size) (out @ [y])"
        using lt Inr by (simp add: conv2d_loop.simps[of f x i out])
      have ih: "(case conv2d_loop f x (i + batch_size) (out @ [y]) of
          Inl e \<Rightarrow> F_batched f (drop (i + batch_size) x) = Inl e
        | Inr out' \<Rightarrow> (\<exists>ys. F_batched f (drop (i + batch_size) x) = Inr ys \<and> concat out' = concat (out @ [y]) @ ys
                      \<and> (if i + batch_size < length x then out' \<noteq> [] else out' = out @ [y])))"
        using "1.IH" lt Inr by blast
      show ?thesis
        unfolding step using app ih lt
        by (auto split: sum.splits if_splits)
    qed
  qed
qed

lemma conv2d_eq: "x \<noteq> [] \<Longrightarrow> conv2d f x = F_batched f x"
  using conv2d_loop_spec[where f=f and x=x and i=0 and out="[]"]
  by (auto simp: conv2d_def torch_cat_def split: sum.splits list.splits)


lemma conv_transpose2d_loop_eq: "conv_transpose2d_loop f x i out = conv2d_loop f x i out"
proof (induction f x i out rule: conv2d_loop.induct)
  case (1 f x i out)
  show ?case
    using "1.IH"
    by (subst conv_transpose2d_loop.simps, subst conv2d_loop.simps)
       (auto split: sum.splits)
qed

lemma conv_transpose2d_eq: "x \<noteq> [] \<Longrightarrow> conv_transpose2d f x = F_batched f x"
  using conv2d_eq[of x f] by (simp add: conv_transpose2d_def conv2d_def conv_transpose2d_loop_eq)

text \<open>
  For every input with a non-empty leading dimension, and every element-wise primitive, the
  chunked helpers \<open>conv2d\<close> and \<open>conv_transpose2d\<close> return what one call of the primitive on
  the whole input returns.
\<close>

lemma chunked_conv_nonempty:
  "x \<noteq> [] \<Longrightarrow> conv2d f x = F_batched f x \<and> conv_transpose2d f' x = F_batched f' x"
  by (simp add: conv2d_eq conv_transpose2d_eq)


subsection \<open>The empty-relaxation state\<close>


text \<open>
  C6.  A ReLU operator whose mask has no set entry is inert.  The exact operator is built
  with \<open>I_empty\<close> set, \<^verbatim>\<open>apply\<close> returns it unchanged, \<^verbatim>\<open>fval\<close> without a direction returns
  \<open>(0, 0)\<close> and with a direction returns \<open>0\<close>; the randomized operator behaves the same and
  its constructor emits the warning.
\<close>

theorem empty_relaxation_inert:
  "(mask_sum I_mask = 0 \<and> DualReLU_init I_mask d_slope z_l = Inr s \<longrightarrow>
      relu_I_empty s
      \<and> DualReLU_apply s dual_layer = Inr s
      \<and> DualReLU_fval s nu None = Inr (Bounds (Num 0) (Num 0))
      \<and> DualReLU_fval s nu (Some nu_prev) = Inr (Val (Num 0)))
   \<and> (mask_sum I_mask = 0 \<and> DualReLUProj_init I_mask d_slope z_l k smp = (p, ws) \<longrightarrow>
      proj_I_empty p
      \<and> ws = [''ReLU projection has no origin crossing activations'']
      \<and> DualReLUProj_apply p dual_layer = Inr p
      \<and> DualReLUProj_fval p nu None = Inr (Bounds (Num 0) (Num 0))
      \<and> DualReLUProj_fval p nu (Some nu_prev) = Inr (Val (Num 0)))"
  by (auto simp: DualReLU_init_def DualReLU_apply_def DualReLU_fval_def relu_direction_def
      DualReLUProj_init_def DualReLUProj_apply_def DualReLUProj_fval_def Let_def
      split: list.splits if_splits)

theorem empty_relaxation_inert_witness:
  "mask_sum [[False, False]] = 0
   \<and> DualReLU_init [[False, False]] [[1, 0]] [[0, -1]]
       = Inr \<lparr>relu_I_empty = True, relu_I_ind = [], relu_nus = [], relu_I_collapse = [],
              relu_d = [[1, 0]], relu_I = [[False, False]], relu_zl = [[0, -1]]\<rparr>
   \<and> DualReLU_apply \<lparr>relu_I_empty = True, relu_I_ind = [], relu_nus = [], relu_I_collapse = [],
              relu_d = [[1, 0]], relu_I = [[False, False]], relu_zl = [[0, -1]]\<rparr> DSequential
       = Inr \<lparr>relu_I_empty = True, relu_I_ind = [], relu_nus = [], relu_I_collapse = [],
              relu_d = [[1, 0]], relu_I = [[False, False]], relu_zl = [[0, -1]]\<rparr>
   \<and> DualReLU_fval \<lparr>relu_I_empty = True, relu_I_ind = [], relu_nus = [], relu_I_collapse = [],
              relu_d = [[1, 0]], relu_I = [[False, False]], relu_zl = [[0, -1]]\<rparr>
         None (Some (T3 [[[1, 1]]])) = Inr (Val (Num 0))
   \<and> snd (DualReLUProj_init [[False, False]] [[1, 0]] [[0, -1]] 3 (\<lambda>i. 1))
       = [''ReLU projection has no origin crossing activations'']"
  using empty_relaxation_inert[of "[[False, False]]" "[[1, 0]]" "[[0, -1]]"
      "\<lparr>relu_I_empty = True, relu_I_ind = [], relu_nus = [], relu_I_collapse = [],
              relu_d = [[1, 0]], relu_I = [[False, False]], relu_zl = [[0, -1]]\<rparr>"
      DSequential None "T3 [[[1, 1]]]" 3 "\<lambda>i. 1"
      "fst (DualReLUProj_init [[False, False]] [[1, 0]] [[0, -1]] 3 (\<lambda>i. 1))"
      "snd (DualReLUProj_init [[False, False]] [[1, 0]] [[0, -1]] 3 (\<lambda>i. 1))"]
  by (simp add: mask_sum_def DualReLU_init_def)

subsection \<open>History lists\<close>

lemma bias_apply_history:
  "bias_apply b x = Inr b' \<Longrightarrow> bias_history b' = map Suc (bias_history b)"
  by (auto simp: bias_apply_def bias_history_def ebind_eq_Inr split: option.splits)

lemma sub_apply_history:
  "(case W of None \<Rightarrow> Inr None | Some w \<Rightarrow> ebind (sub_apply w x) (\<lambda>w'. Inr (Some w'))) = Inr W'
   \<Longrightarrow> sub_histories W' = map Suc (sub_histories W)"
  by (auto simp: sub_apply_def sub_histories_def DualLinear_apply_def DualConv2d_apply_def
      ebind_eq_Inr split: option.splits sub_dual.splits dest!: bias_apply_history)

lemma emap_sub_history:
  "emap (\<lambda>W. case W of None \<Rightarrow> Inr None | Some w \<Rightarrow> ebind (sub_apply w x) (\<lambda>w'. Inr (Some w'))) ds = Inr ds'
   \<Longrightarrow> concat (map sub_histories ds') = map Suc (concat (map sub_histories ds))"
proof (induction ds arbitrary: ds')
  case Nil
  then show ?case by simp
next
  case (Cons W ds)
  then show ?case
    by (auto split: sum.splits dest!: sub_apply_history)
qed

lemma dual_apply_history:
  assumes "dual_apply l x = Inr l'"
  shows "histories l' = map Suc (histories l)"
proof (cases l)
  case (DInfBall s)
  with assms show ?thesis
    by (auto simp: dual_apply_def histories_def ebind_eq_Inr InfBall_apply_def)
next
  case (DInfBallProj s)
  with assms show ?thesis
    by (auto simp: dual_apply_def histories_def ebind_eq_Inr InfBallProj_apply_def)
next
  case (DLinear s)
  with assms show ?thesis
    by (auto simp: dual_apply_def histories_def ebind_eq_Inr DualLinear_apply_def
        dest!: bias_apply_history)
next
  case (DConv2d s)
  with assms show ?thesis
    by (auto simp: dual_apply_def histories_def ebind_eq_Inr DualConv2d_apply_def
        dest!: bias_apply_history)
next
  case (DReshape s)
  with assms show ?thesis by (auto simp: dual_apply_def histories_def)
next
  case (DReLU s)
  with assms show ?thesis
    by (auto simp: dual_apply_def histories_def ebind_eq_Inr DualReLU_apply_def
        split: if_splits)
next
  case (DReLUProj s)
  with assms show ?thesis
    by (auto simp: dual_apply_def histories_def ebind_eq_Inr DualReLUProj_apply_def
        split: if_splits)
next
  case (DDense s)
  with assms show ?thesis
    by (auto simp: dual_apply_def histories_def DualDense_apply_def ebind_eq_Inr
        dest!: emap_sub_history)
next
  case (DBatchNorm2d s)
  with assms show ?thesis
    by (auto simp: dual_apply_def histories_def ebind_eq_Inr DualBatchNorm2d_apply_def)
next
  case DSequential
  with assms show ?thesis by (auto simp: dual_apply_def histories_def)
qed

lemma run_op_history:
  "run_op l opn = Inr l' \<Longrightarrow>
     histories l' = map (\<lambda>h. h + applies [opn]) (histories l)"
  by (cases opn) (auto simp: run_op_def applies_def ebind_eq_Inr dest!: dual_apply_history)

lemma applies_Cons: "applies (opn # ops) = applies [opn] + applies ops"
  by (simp add: applies_def)

lemma run_history:
  "run l ops = Inr l' \<Longrightarrow> histories l' = map (\<lambda>h. h + applies ops) (histories l)"
proof (induction ops arbitrary: l)
  case Nil
  then show ?case by (simp add: applies_def)
next
  case (Cons opn ops)
  then obtain l1 where 1: "run_op l opn = Inr l1" and 2: "run l1 ops = Inr l'"
    by (auto simp: ebind_eq_Inr)
  show ?case
    using Cons.IH[OF 2] run_op_history[OF 1]
    by (simp add: applies_Cons[of opn ops] comp_def add.assoc)
qed

lemma DualDense_loop_fresh:
  "DualDense_loop Ws i len out ds net = Inr (ds', net') \<Longrightarrow>
   list_all (\<lambda>h. h = 1) (concat (map sub_histories ds)) \<Longrightarrow>
   list_all (\<lambda>h. h = 1) (concat (map sub_histories ds'))"
proof (induction Ws arbitrary: i ds net)
  case Nil
  then show ?case by simp
next
  case (Cons W Ws)
  from Cons.prems(1) obtain dl netm where
    dl: "dense_dual W out = Inr dl" and
    rest: "DualDense_loop Ws (i + 1) len out (ds @ [dl]) netm = Inr (ds', net')"
    by (auto simp: ebind_eq_Inr)
  have "list_all (\<lambda>h. h = 1) (sub_histories dl)"
    using dl
    by (auto simp: dense_dual_def sub_histories_def bias_history_def DualLinear_init_def
        DualConv2d_init_def ebind_eq_Inr split: wmodule.splits nat.splits option.splits)
  with Cons.prems(2) have "list_all (\<lambda>h. h = 1) (concat (map sub_histories (ds @ [dl])))"
    by simp
  from Cons.IH[OF rest this] show ?case .
qed

lemma fresh_InfBall: "InfBall_init X eps = Inr b \<Longrightarrow> histories (DInfBall b) = [1, 1]"
  by (auto simp: InfBall_init_def histories_def split: list.splits)

lemma fresh_InfBallProj:
  "InfBallProj_init X eps smp = Inr bp \<Longrightarrow> histories (DInfBallProj bp) = [1, 1]"
  by (auto simp: InfBallProj_init_def histories_def split: list.splits)

lemma fresh_DualLinear:
  "DualLinear_init ly out = Inr sl \<Longrightarrow> list_all (\<lambda>h. h = 1) (histories (DLinear sl))"
  by (auto simp: DualLinear_init_def histories_def bias_history_def
      split: layer.splits option.splits)

lemma fresh_DualConv2d:
  "DualConv2d_init ly out = Inr sc \<Longrightarrow> list_all (\<lambda>h. h = 1) (histories (DConv2d sc))"
  by (auto simp: DualConv2d_init_def histories_def bias_history_def
      split: layer.splits option.splits)

lemma fresh_DualReLU:
  "DualReLU_init I_mask d_slope z_l = Inr sr \<Longrightarrow> list_all (\<lambda>h. h = 1) (histories (DReLU sr))"
  by (auto simp: DualReLU_init_def histories_def Let_def split: list.splits if_splits)

lemma fresh_DualReLUProj:
  "list_all (\<lambda>h. h = 1) (histories (DReLUProj (fst (DualReLUProj_init I_mask d_slope z_l k cz))))"
  by (simp add: DualReLUProj_init_def histories_def Let_def)

lemma fresh_DualBatchNorm2d: "histories (DBatchNorm2d (DualBatchNorm2d_init bn mb out)) = [1]"
  by (simp add: DualBatchNorm2d_init_def histories_def Let_def)

lemma fresh_DualDense:
  "DualDense_init Ws net out = Inr (sd, net') \<Longrightarrow> list_all (\<lambda>h. h = 1) (histories (DDense sd))"
  by (auto simp: DualDense_init_def histories_def ebind_eq_Inr dest!: DualDense_loop_fresh)


lemma constructed_histories: "constructed l \<Longrightarrow> list_all (\<lambda>h. h = 1) (histories l)"
proof (induction rule: constructed.induct)
  case (1 X eps s)
  then show ?case by (simp add: fresh_InfBall)
next
  case (2 X eps smp s)
  then show ?case by (simp add: fresh_InfBallProj)
next
  case (3 ly n s)
  then show ?case by (rule fresh_DualLinear)
next
  case (4 ly n s)
  then show ?case by (rule fresh_DualConv2d)
next
  case (5 fi fo)
  then show ?case by (simp add: histories_def)
next
  case (6 I_mask d_slope z_l s)
  then show ?case by (rule fresh_DualReLU)
next
  case (7 I_mask d_slope z_l k cz)
  then show ?case by (rule fresh_DualReLUProj)
next
  case (8 Ws net n s net')
  then show ?case by (rule fresh_DualDense)
next
  case (9 bn mb n)
  then show ?case by (simp add: fresh_DualBatchNorm2d)
next
  case 10
  then show ?case by (simp add: histories_def)
qed

text \<open>
  C7.  Start from an operator as its constructor returns it and run any sequence of
  operations that returns (\<^verbatim>\<open>apply\<close>, \<^verbatim>\<open>fval\<close>, \<^verbatim>\<open>affine\<close>, \<^verbatim>\<open>affine_transpose\<close>, in any
  order).  Then every history list the operator owns has as many entries as \<^verbatim>\<open>apply\<close> was
  called, plus one; and the operator owns the same lists as before.
\<close>

theorem history_length_invariant:
  assumes "constructed l" and "run l ops = Inr l'"
  shows "list_all (\<lambda>h. h = applies ops + 1) (histories l')
       \<and> length (histories l') = length (histories l)"
proof -
  have "histories l' = map (\<lambda>h. h + applies ops) (histories l)"
    using assms(2) by (rule run_history)
  then show ?thesis
    using constructed_histories[OF assms(1)] by (simp add: list_all_iff)
qed

theorem history_length_invariant_witness:
  "constructed (DLinear \<lparr>dl_layer = \<lparr>lin_weight = [[2]], lin_bias = Some [1]\<rparr>,
                          dl_bias = Some [T2 [[1]]]\<rparr>)
   \<and> run (DLinear \<lparr>dl_layer = \<lparr>lin_weight = [[2]], lin_bias = Some [1]\<rparr>,
                     dl_bias = Some [T2 [[1]]]\<rparr>)
         [Apply (DLinear \<lparr>dl_layer = \<lparr>lin_weight = [[3]], lin_bias = None\<rparr>, dl_bias = None\<rparr>),
          Fval None None,
          Apply DSequential]
       = Inr (DLinear \<lparr>dl_layer = \<lparr>lin_weight = [[2]], lin_bias = Some [1]\<rparr>,
                       dl_bias = Some [T2 [[1]], T2 [[3]], T2 [[3]]]\<rparr>)
   \<and> histories (DLinear \<lparr>dl_layer = \<lparr>lin_weight = [[2]], lin_bias = Some [1]\<rparr>,
                       dl_bias = Some [T2 [[1]], T2 [[3]], T2 [[3]]]\<rparr>) = [3]"
proof -
  let ?l = "DLinear \<lparr>dl_layer = \<lparr>lin_weight = [[2]], lin_bias = Some [1]\<rparr>,
                          dl_bias = Some [T2 [[1]]]\<rparr>"
  let ?ops = "[Apply (DLinear \<lparr>dl_layer = \<lparr>lin_weight = [[3]], lin_bias = None\<rparr>, dl_bias = None\<rparr>),
          Fval None None,
          Apply DSequential]"
  let ?l' = "DLinear \<lparr>dl_layer = \<lparr>lin_weight = [[2]], lin_bias = Some [1]\<rparr>,
                       dl_bias = Some [T2 [[1]], T2 [[3]], T2 [[3]]]\<rparr>"
  have "DualLinear_init (Linear \<lparr>lin_weight = [[2]], lin_bias = Some [1]\<rparr>) 1
        = Inr \<lparr>dl_layer = \<lparr>lin_weight = [[2]], lin_bias = Some [1]\<rparr>, dl_bias = Some [T2 [[1]]]\<rparr>"
    by (simp add: DualLinear_init_def full_bias_linear_def)
  then have c: "constructed ?l" by (rule constructed.intros)
  have r: "run ?l ?ops = Inr ?l'"
    by (simp add: run_op_def dual_apply_def DualLinear_apply_def bias_apply_def affine_def
        DualLinear_affine_def DualSequential_affine_def py_last_def linear_def dot_def
        fval_def DualLinear_fval_def bias_fval_def)
  from history_length_invariant[OF c r] have "histories ?l' = [3]"
    by (simp add: histories_def bias_history_def)
  with c r show ?thesis by simp
qed

subsection \<open>The bounds of the randomized operators\<close>


lemma foldr_max_length:
  "\<forall>row\<in>set A. length row = n \<Longrightarrow>
   foldr (\<lambda>xs. max (length xs)) A 0 = (if A = [] then 0 else n)"
  by (induction A) auto

lemma abs_median1_nth:
  assumes "b < length c" and "c ! b \<noteq> []" and "\<forall>row\<in>set (c ! b). length row = n" and "f < n"
  shows "abs_median1 c ! b ! f = median (map (\<lambda>row. \<bar>row ! f\<bar>) (c ! b))"
    and "length (abs_median1 c ! b) = n"
proof -
  let ?A = "map (map abs) (c ! b)"
  have len: "\<forall>row\<in>set ?A. length row = n" using assms(3) by simp
  have ne: "?A \<noteq> []" using assms(2) by simp
  have lt: "length (transpose ?A) = n"
  proof -
    have "length (transpose ?A) = foldr (\<lambda>xs. max (length xs)) ?A 0"
      by (rule length_transpose)
    also have "\<dots> = n" using foldr_max_length[OF len] ne by simp
    finally show ?thesis .
  qed
  have "transpose ?A ! f = map (\<lambda>xs. xs ! f) (filter (\<lambda>ys. f < length ys) ?A)"
    using lt assms(4) by (simp add: nth_transpose)
  also have "filter (\<lambda>ys. f < length ys) ?A = ?A"
    using len assms(4) by (simp add: filter_id_conv)
  also have "map (\<lambda>xs. xs ! f) ?A = map (\<lambda>row. \<bar>row ! f\<bar>) (c ! b)"
    using assms(3,4) by (auto simp: comp_def)
  finally have tr: "transpose ?A ! f = map (\<lambda>row. \<bar>row ! f\<bar>) (c ! b)" .
  show "abs_median1 c ! b ! f = median (map (\<lambda>row. \<bar>row ! f\<bar>) (c ! b))"
    using assms(1,4) lt tr by (simp add: abs_median1_def)
  show "length (abs_median1 c ! b) = n"
    using assms(1) lt by (simp add: abs_median1_def)
qed


lemma median_bounds_entry:
  assumes "length no = length med" and "b < length med"
      and "length (no ! b) = length (med ! b)" and "f < length (med ! b)"
  shows "\<exists>lo up. median_bounds (T2 med) (T2 no) = Bounds (T2 lo) (T2 up)
           \<and> lo ! b ! f = (- (med ! b ! f) - no ! b ! f) / 2
           \<and> up ! b ! f = (med ! b ! f - no ! b ! f) / 2"
  using assms
  by (simp add: median_bounds_def tdiv_def tsub_def bcast2_same_length)

text \<open>
  C4 (as amended).  With no direction, the randomized ReLU operator returns
  \<open>((- n - no) / 2, (n - no) / 2)\<close>, where \<open>n\<close> is the median over the \<open>k\<close> rows of the
  absolute values of its latest certificate and \<open>no\<close> its latest ones term; the randomized
  uncertainty-set representative has no ones term and returns \<open>nu_x - \<epsilon> n\<close> and
  \<open>nu_x + \<epsilon> n\<close> for the median \<open>n\<close> of its latest certificate.
\<close>

theorem randomized_bounds:
  "(\<not> proj_I_empty p \<and> proj_nus p \<noteq> [] \<and> last (proj_nus p) = T3 c \<and> proj_nu_ones p \<noteq> [] \<longrightarrow>
      DualReLUProj_fval p nu None
        = Inr (median_bounds (T2 (abs_median1 c)) (last (proj_nu_ones p))))
   \<and> (bproj_nu s \<noteq> [] \<and> last (bproj_nu s) = T3 c \<and> bproj_nu_x s \<noteq> [] \<longrightarrow>
      InfBallProj_fval s None nu_prev
        = Inr (Bounds (tsub (last (bproj_nu_x s)) (tmul (Num (bproj_epsilon s)) (T2 (abs_median1 c))))
                      (tadd (last (bproj_nu_x s)) (tmul (Num (bproj_epsilon s)) (T2 (abs_median1 c))))))
   \<and> (b < length c \<and> c ! b \<noteq> [] \<and> (\<forall>row\<in>set (c ! b). length row = n) \<and> f < n \<longrightarrow>
      abs_median1 c ! b ! f = median (map (\<lambda>row. \<bar>row ! f\<bar>) (c ! b)))
   \<and> (length no = length med \<and> b < length med \<and> length (no ! b) = length (med ! b)
        \<and> f < length (med ! b) \<longrightarrow>
      (\<exists>lo up. median_bounds (T2 med) (T2 no) = Bounds (T2 lo) (T2 up)
           \<and> lo ! b ! f = (- (med ! b ! f) - no ! b ! f) / 2
           \<and> up ! b ! f = (med ! b ! f - no ! b ! f) / 2))"
proof -
  have 1: "\<not> proj_I_empty p \<and> proj_nus p \<noteq> [] \<and> last (proj_nus p) = T3 c \<and> proj_nu_ones p \<noteq> [] \<longrightarrow>
      DualReLUProj_fval p nu None
        = Inr (median_bounds (T2 (abs_median1 c)) (last (proj_nu_ones p)))"
    by (auto simp: DualReLUProj_fval_def py_last_def abs_median_dim1_def median_bounds_def
        split: list.splits)
  have 2: "bproj_nu s \<noteq> [] \<and> last (bproj_nu s) = T3 c \<and> bproj_nu_x s \<noteq> [] \<longrightarrow>
      InfBallProj_fval s None nu_prev
        = Inr (Bounds (tsub (last (bproj_nu_x s)) (tmul (Num (bproj_epsilon s)) (T2 (abs_median1 c))))
                      (tadd (last (bproj_nu_x s)) (tmul (Num (bproj_epsilon s)) (T2 (abs_median1 c)))))"
    by (auto simp: InfBallProj_fval_def py_last_def abs_median_dim1_def split: list.splits)
  show ?thesis
    using 1 2 abs_median1_nth(1)[of b c n f] median_bounds_entry[of no med b f]
    by blast
qed

theorem randomized_bounds_witness:
  "DualReLUProj_fval
      \<lparr>proj_I_empty = False, proj_nus = [T3 [[[3], [-1], [2]]]], proj_nu_ones = [T2 [[1]]],
       proj_d = [[1 / 2]], proj_I = [[True]], proj_zl = [[-1]]\<rparr> None None
     = Inr (Bounds (T2 [[- 3 / 2]]) (T2 [[1 / 2]]))
   \<and> InfBallProj_fval \<lparr>bproj_epsilon = 1, bproj_nu_x = [T2 [[0]]], bproj_nu = [T3 [[[3], [-1], [2]]]]\<rparr>
        None None
     = Inr (Bounds (T2 [[- 2]]) (T2 [[2]]))
   \<and> abs_median1 [[[3], [-1], [2]]] ! 0 ! 0 = 2"
proof -
  let ?p = "\<lparr>proj_I_empty = False, proj_nus = [T3 [[[3], [-1], [2]]]], proj_nu_ones = [T2 [[1]]],
       proj_d = [[1 / 2]], proj_I = [[True]], proj_zl = [[-1]]\<rparr>"
  let ?s = "\<lparr>bproj_epsilon = 1, bproj_nu_x = [T2 [[0]]], bproj_nu = [T3 [[[3], [-1], [2]]]]\<rparr>"
  have m: "abs_median1 [[[3], [-1], [2]]] = [[2]]"
    by (simp add: abs_median1_def median_def)
  show ?thesis
    using randomized_bounds[of ?p "[[[3], [-1], [2]]]" None ?s None 0 1 0 "[[1]]" "[[2]]"]
    by (simp add: m median_bounds_def tdiv_def tsub_def tadd_def tmul_def bcast2_def)
qed

text \<open>
  C4 as stated fails for the randomized uncertainty-set representative: with
  \<open>\<epsilon> = 1\<close>, nominal input 0 and a certificate whose median is 2 it returns
  \<open>(-2, 2)\<close>, which is \<open>((- n - no) / 2, (n - no) / 2)\<close> for no ones term \<open>no\<close>.
\<close>

theorem infballproj_no_bias_correction_counterexample:
  "\<not> (\<exists>no. InfBallProj_fval \<lparr>bproj_epsilon = 1, bproj_nu_x = [T2 [[0]]], bproj_nu = [T3 [[[2]]]]\<rparr>
               None None
             = Inr (median_bounds (T2 (abs_median1 [[[2]]])) no))"
proof
  assume "\<exists>no. InfBallProj_fval \<lparr>bproj_epsilon = 1, bproj_nu_x = [T2 [[0]]], bproj_nu = [T3 [[[2]]]]\<rparr>
               None None
             = Inr (median_bounds (T2 (abs_median1 [[[2]]])) no)"
  then obtain no where
    eq: "InfBallProj_fval \<lparr>bproj_epsilon = 1, bproj_nu_x = [T2 [[0]]], bproj_nu = [T3 [[[2]]]]\<rparr>
               None None
             = Inr (median_bounds (T2 (abs_median1 [[[2]]])) no)" ..
  have m: "abs_median1 [[[2]]] = [[2]]"
    by (simp add: abs_median1_def median_def)
  have lhs: "InfBallProj_fval \<lparr>bproj_epsilon = 1, bproj_nu_x = [T2 [[0]]], bproj_nu = [T3 [[[2]]]]\<rparr>
               None None = Inr (Bounds (T2 [[- 2]]) (T2 [[2]]))"
    by (simp add: InfBallProj_fval_def py_last_def abs_median_dim1_def m tsub_def tadd_def
        tmul_def bcast2_def)
  from eq have b: "median_bounds (T2 [[2]]) no = Bounds (T2 [[- 2]]) (T2 [[2]])"
    unfolding lhs m by simp
  show False
  proof (cases no)
    case (Num a)
    with b show False by (auto simp: median_bounds_def tdiv_def tsub_def)
  next
    case (T1 y)
    with b show False
      by (cases y) (auto simp: median_bounds_def tdiv_def tsub_def zip_Cons1 split: list.splits)
  next
    case (T2 y)
    with b show False
      by (auto simp: median_bounds_def tdiv_def tsub_def bcast2_def zip_Cons1 split: list.splits)
  next
    case (T3 y)
    with b show False by (simp add: median_bounds_def tdiv_def tsub_def)
  qed
qed

subsection \<open>The certificate of the exact ReLU operator\<close>

lemma select_append:
  "length bs = length xs \<Longrightarrow> select (bs @ cs) (xs @ ys) = select bs xs @ select cs ys"
  by (simp add: select_def)

lemma select_nth:
  "length xs = length bs \<Longrightarrow>
   select bs xs = map (\<lambda>j. xs ! j) (filter (\<lambda>j. bs ! j) [0..<length bs])"
proof (induction bs arbitrary: xs rule: rev_induct)
  case Nil
  then show ?case by (simp add: select_def)
next
  case (snoc b bs)
  then obtain xs' x where xs: "xs = xs' @ [x]" and len: "length xs' = length bs"
    by (cases xs rule: rev_cases) auto
  let ?P = "\<lambda>j. (bs @ [b]) ! j" and ?f = "\<lambda>j. (xs' @ [x]) ! j"
  have a: "filter ?P [0..<length bs] = filter (\<lambda>j. bs ! j) [0..<length bs]"
    by (rule filter_cong) (auto simp: nth_append)
  have c: "map ?f (filter (\<lambda>j. bs ! j) [0..<length bs])
         = map (\<lambda>j. xs' ! j) (filter (\<lambda>j. bs ! j) [0..<length bs])"
    by (rule map_cong) (auto simp: nth_append len)
  have e: "map ?f (filter ?P [length bs]) = select [b] [x]"
    using len by (simp add: select_def nth_append)
  have "map ?f (filter ?P [0..<length (bs @ [b])])
        = map ?f (filter ?P [0..<length bs]) @ map ?f (filter ?P [length bs])"
    by simp
  also have "\<dots> = map (\<lambda>j. xs' ! j) (filter (\<lambda>j. bs ! j) [0..<length bs]) @ select [b] [x]"
    unfolding a c e ..
  also have "\<dots> = select bs xs' @ select [b] [x]"
    using snoc.IH[of xs'] len by simp
  also have "\<dots> = select (bs @ [b]) (xs' @ [x])"
    using len by (simp add: select_append)
  finally show ?case unfolding xs by simp
qed

lemma nonzero_snoc:
  "nonzero (M @ [row]) = nonzero M @ map (\<lambda>j. (length M, j)) (filter (\<lambda>j. row ! j) [0..<length row])"
  by (simp add: nonzero_def)

lemma nonzero_bound: "(b, j) \<in> set (nonzero M) \<Longrightarrow> b < length M"
  by (auto simp: nonzero_def in_set_zip)

lemma nonzero_set:
  "(b, j) \<in> set (nonzero M) \<longleftrightarrow> b < length M \<and> j < length (M ! b) \<and> M ! b ! j"
proof
  assume "(b, j) \<in> set (nonzero M)"
  then show "b < length M \<and> j < length (M ! b) \<and> M ! b ! j"
    by (auto simp: nonzero_def in_set_zip)
next
  assume h: "b < length M \<and> j < length (M ! b) \<and> M ! b ! j"
  have "zip [0..<length M] M ! b \<in> set (zip [0..<length M] M)"
    using h by (intro nth_mem) simp
  then have 1: "(b, M ! b) \<in> set (zip [0..<length M] M)"
    using h by simp
  have 2: "(b, j) \<in> set (map (\<lambda>j. (b, j)) (filter (\<lambda>j. M ! b ! j) [0..<length (M ! b)]))"
    using h by simp
  have "(b, j) \<in> (\<Union>x\<in>set (zip [0..<length M] M).
           set (case x of (b, row) \<Rightarrow> map (\<lambda>j. (b, j)) (filter (\<lambda>j. row ! j) [0..<length row])))"
    by (rule UN_I[OF 1]) (use 2 in simp)
  then show "(b, j) \<in> set (nonzero M)"
    by (simp add: nonzero_def)
qed

lemma masked_select_nonzero:
  "same_shape M v \<Longrightarrow> masked_select M v = map (\<lambda>(b, j). v ! b ! j) (nonzero M)"
proof (induction M arbitrary: v rule: rev_induct)
  case Nil
  then show ?case by (simp add: masked_select_def select_def nonzero_def)
next
  case (snoc row M)
  then obtain v' vr where v: "v = v' @ [vr]" and sh: "same_shape M v'" and lr: "length vr = length row"
    by (cases v rule: rev_cases) (auto simp: same_shape_def)
  have lc: "length (concat M) = length (concat v')"
    using sh by (simp add: same_shape_def length_concat)
  have lM: "length v' = length M"
    using sh by (auto simp: same_shape_def dest: map_eq_imp_length_eq)
  have old: "map (\<lambda>(b, j). (v' @ [vr]) ! b ! j) (nonzero M) = map (\<lambda>(b, j). v' ! b ! j) (nonzero M)"
    by (rule map_cong) (auto simp: nth_append lM dest: nonzero_bound)
  have "masked_select (M @ [row]) (v' @ [vr]) = select (concat M) (concat v') @ select row vr"
    using lc by (simp add: masked_select_def select_append)
  also have "select (concat M) (concat v') = map (\<lambda>(b, j). v' ! b ! j) (nonzero M)"
    using snoc.IH[OF sh] by (simp add: masked_select_def)
  also have "select row vr = map (\<lambda>j. vr ! j) (filter (\<lambda>j. row ! j) [0..<length row])"
    using lr by (rule select_nth)
  finally have "masked_select (M @ [row]) (v' @ [vr])
      = map (\<lambda>(b, j). v' ! b ! j) (nonzero M)
        @ map (\<lambda>j. vr ! j) (filter (\<lambda>j. row ! j) [0..<length row])" .
  moreover have "(v' @ [vr]) ! length M = vr"
    using lM by (simp add: nth_append)
  ultimately show ?case
    unfolding v by (simp add: nonzero_snoc old comp_def)
qed

lemma length_nonzero: "length (nonzero M) = mask_sum M"
proof (induction M rule: rev_induct)
  case Nil
  then show ?case by (simp add: nonzero_def mask_sum_def)
next
  case (snoc row M)
  have "length (filter (\<lambda>j. row ! j) [0..<length row]) = length (filter (\<lambda>b. b) row)"
  proof -
    have "filter (\<lambda>b. b) row = select row row"
      by (induction row) (auto simp: select_def)
    also have "\<dots> = map (\<lambda>j. row ! j) (filter (\<lambda>j. row ! j) [0..<length row])"
      by (rule select_nth) simp
    finally show ?thesis by simp
  qed
  with snoc show ?case by (simp add: nonzero_snoc mask_sum_def)
qed

lemma map2_const_fun:
  "length xs = length ys \<Longrightarrow> map2 f xs (map g xs) = map (\<lambda>x. f x (g x)) xs"
  by (simp add: zip_map2 map_zip_map2 zip_same_conv_map comp_def)




lemma gather_rows_ok:
  "\<forall>(b, j)\<in>set ind. b < length t \<Longrightarrow> gather_rows t ind = Inr (map (\<lambda>(b, j). t ! b) ind)"
  unfolding gather_rows_def
  by (induction ind) auto

lemma seed_rows_entry:
  assumes "r < length (nonzero M)" and "nonzero M ! r = (b, j)" and "j < n" and "j' < n"
  shows "seed_rows n M v ! r ! j' = (if j' = j then v ! b ! j else 0)" and "M ! b ! j"
proof -
  show "seed_rows n M v ! r ! j' = (if j' = j then v ! b ! j else 0)"
    using assms by (simp add: seed_rows_def nth_list_update)
  have "(b, j) \<in> set (nonzero M)"
    using assms(1,2) by (metis nth_mem)
  then show "M ! b ! j" by (simp add: nonzero_set)
qed

lemma DualReLU_init_nonempty:
  assumes "mask_sum M > 0" and "same_shape M dv"
  shows "\<exists>s. DualReLU_init M dv z = Inr s \<and> \<not> relu_I_empty s \<and> relu_I_ind s = nonzero M
           \<and> relu_nus s = [T2 (seed_rows (length (hd dv)) M dv)]
           \<and> length (seed_rows (length (hd dv)) M dv) = mask_sum M"
proof -
  have "M \<noteq> []" using assms(1) by (auto simp: mask_sum_def)
  then have ne: "dv \<noteq> []" using assms(2) by (auto simp: same_shape_def)
  then obtain d0 ds where dv: "dv = d0 # ds" by (cases dv) auto
  have sel: "masked_select M dv = map (\<lambda>(b, j). dv ! b ! j) (nonzero M)"
    using assms(2) by (rule masked_select_nonzero)
  have "map2 (\<lambda>(b, j) v. (replicate (length d0) 0)[j := v]) (nonzero M)
           (map (\<lambda>(b, j). dv ! b ! j) (nonzero M))
        = map (\<lambda>(b, j). (replicate (length d0) 0)[j := dv ! b ! j]) (nonzero M)"
    by (simp add: zip_map2 zip_same_conv_map comp_def case_prod_unfold)
  then show ?thesis
    using assms(1) unfolding dv[symmetric] sel
    by (simp add: DualReLU_init_def dv seed_rows_def length_nonzero Let_def sel[unfolded dv])
qed

lemma DualReLU_apply_relu:
  assumes "\<not> relu_I_empty s" and "relu_nus s \<noteq> []" and "last (relu_nus s) = T2 C"
      and "length C = length (relu_I_ind s)"
      and "relu_d_of l' = Some d'"
      and "\<forall>(b, j)\<in>set (relu_I_ind s). b < length d'"
  shows "DualReLU_apply s l'
         = Inr (s\<lparr>relu_nus := relu_nus s
                   @ [T2 (map2 (\<lambda>(b, j) row. map2 (*) (d' ! b) row) (relu_I_ind s) C)]\<rparr>)"
proof -
  have g: "gather_rows d' (relu_I_ind s) = Inr (map (\<lambda>(b, j). d' ! b) (relu_I_ind s))"
    using assms(6) by (rule gather_rows_ok)
  have m: "bcast2 (map2 (*)) (map (\<lambda>(b, j). d' ! b) (relu_I_ind s)) C
         = map2 (\<lambda>(b, j) row. map2 (*) (d' ! b) row) (relu_I_ind s) C"
    using assms(4) by (simp add: bcast2_same_length zip_map1 case_prod_unfold)
  have "DualReLU_affine d' (relu_nus s) (Some (relu_I_ind s))
        = Inr (T2 (map2 (\<lambda>(b, j) row. map2 (*) (d' ! b) row) (relu_I_ind s) C))"
    using assms(2,3) by (simp add: DualReLU_affine_def py_last_nonempty g tmul_def m)
  then show ?thesis
    using assms(1,5) by (cases l') (simp_all add: DualReLU_apply_def relu_d_of_def)
qed

lemma DualReLU_apply_other:
  assumes "\<not> relu_I_empty s" and "relu_d_of l' = None"
  shows "DualReLU_apply s l'
         = ebind (affine l' (relu_nus s)) (\<lambda>t. Inr (s\<lparr>relu_nus := relu_nus s @ [t]\<rparr>))"
  using assms by (cases l') (simp_all add: DualReLU_apply_def relu_d_of_def)

text \<open>
  C3 (as amended).  An exact ReLU operator built with a non-empty unstable set starts with a
  certificate of one row per unstable activation, in row-major order; the only non-zero
  entry of a row is at the coordinate of its activation and equals the slope \<open>d\<close> there
  (the bound \<open>zl\<close> enters in \<^verbatim>\<open>fval\<close>, not here).  Every later \<^verbatim>\<open>apply\<close> appends one entry to the
  certificates.  With a ReLU operator, exact or randomized, the entry is the latest
  certificate multiplied element-wise by that operator's \<open>d\<close> restricted to the unstable
  index set: the row of \<open>d\<close> at the batch index of every unstable activation.  With an
  operator of another kind the entry is what that operator's \<^verbatim>\<open>affine\<close> returns for the
  certificates.
\<close>

theorem exact_relu_certificate:
  "(mask_sum M > 0 \<and> same_shape M dv \<longrightarrow>
      (\<exists>s. DualReLU_init M dv z = Inr s \<and> \<not> relu_I_empty s \<and> relu_I_ind s = nonzero M
           \<and> relu_nus s = [T2 (seed_rows (length (hd dv)) M dv)]
           \<and> length (seed_rows (length (hd dv)) M dv) = mask_sum M))
   \<and> (r < length (nonzero M) \<and> nonzero M ! r = (b, j) \<and> j < n \<and> j' < n \<longrightarrow>
      M ! b ! j \<and> seed_rows n M v ! r ! j' = (if j' = j then v ! b ! j else 0))
   \<and> (\<not> relu_I_empty s \<and> relu_nus s \<noteq> [] \<and> last (relu_nus s) = T2 C
        \<and> length C = length (relu_I_ind s)
        \<and> relu_d_of l' = Some d'
        \<and> (\<forall>(b, j)\<in>set (relu_I_ind s). b < length d') \<longrightarrow>
      DualReLU_apply s l'
        = Inr (s\<lparr>relu_nus := relu_nus s
                  @ [T2 (map2 (\<lambda>(b, j) row. map2 (*) (d' ! b) row) (relu_I_ind s) C)]\<rparr>))
   \<and> (\<not> relu_I_empty s \<and> relu_d_of l'' = None \<longrightarrow>
      DualReLU_apply s l''
        = ebind (affine l'' (relu_nus s)) (\<lambda>t. Inr (s\<lparr>relu_nus := relu_nus s @ [t]\<rparr>)))"
  using DualReLU_init_nonempty[where M = M and dv = dv and z = z]
    seed_rows_entry(1)[where r = r and M = M and b = b and j = j and n = n and j' = j' and v = v]
    seed_rows_entry(2)[where r = r and M = M and b = b and j = j and n = n and j' = j']
    DualReLU_apply_relu[where s = s and C = C and l' = l' and d' = d']
    DualReLU_apply_other[where s = s and l' = l'']
  by blast

theorem exact_relu_certificate_witness:
  "DualReLU_init [[True, False]] [[1 / 2, 0]] [[-1, -2]]
     = Inr \<lparr>relu_I_empty = False, relu_I_ind = [(0, 0)], relu_nus = [T2 [[1 / 2, 0]]],
            relu_I_collapse = [[1]], relu_d = [[1 / 2, 0]], relu_I = [[True, False]],
            relu_zl = [[-1, -2]]\<rparr>
   \<and> seed_rows 2 [[True, False]] [[1 / 2, 0]] = [[1 / 2, 0]]
   \<and> DualReLU_apply
        \<lparr>relu_I_empty = False, relu_I_ind = [(0, 0)], relu_nus = [T2 [[1 / 2, 0]]],
         relu_I_collapse = [[1]], relu_d = [[1 / 2, 0]], relu_I = [[True, False]],
         relu_zl = [[-1, -2]]\<rparr>
        (DReLU \<lparr>relu_I_empty = True, relu_I_ind = [], relu_nus = [], relu_I_collapse = [],
                relu_d = [[1 / 3, 1]], relu_I = [[False, False]], relu_zl = [[0, 0]]\<rparr>)
     = Inr \<lparr>relu_I_empty = False, relu_I_ind = [(0, 0)],
            relu_nus = [T2 [[1 / 2, 0]], T2 [[1 / 6, 0]]],
            relu_I_collapse = [[1]], relu_d = [[1 / 2, 0]], relu_I = [[True, False]],
            relu_zl = [[-1, -2]]\<rparr>
   \<and> DualReLU_apply
        \<lparr>relu_I_empty = False, relu_I_ind = [(0, 0)], relu_nus = [T2 [[1 / 2, 0]]],
         relu_I_collapse = [[1]], relu_d = [[1 / 2, 0]], relu_I = [[True, False]],
         relu_zl = [[-1, -2]]\<rparr>
        (DReLUProj \<lparr>proj_I_empty = True, proj_nus = [], proj_nu_ones = [],
                    proj_d = [[1 / 5, 1]], proj_I = [[False, False]], proj_zl = [[0, 0]]\<rparr>)
     = Inr \<lparr>relu_I_empty = False, relu_I_ind = [(0, 0)],
            relu_nus = [T2 [[1 / 2, 0]], T2 [[1 / 10, 0]]],
            relu_I_collapse = [[1]], relu_d = [[1 / 2, 0]], relu_I = [[True, False]],
            relu_zl = [[-1, -2]]\<rparr>
   \<and> DualReLU_apply
        \<lparr>relu_I_empty = False, relu_I_ind = [(0, 0)], relu_nus = [T2 [[1 / 2, 0]]],
         relu_I_collapse = [[1]], relu_d = [[1 / 2, 0]], relu_I = [[True, False]],
         relu_zl = [[-1, -2]]\<rparr>
        (DLinear \<lparr>dl_layer = \<lparr>lin_weight = [[1, 1], [1, 1]], lin_bias = None\<rparr>, dl_bias = None\<rparr>)
     = Inr \<lparr>relu_I_empty = False, relu_I_ind = [(0, 0)],
            relu_nus = [T2 [[1 / 2, 0]], T2 [[1 / 2, 1 / 2]]],
            relu_I_collapse = [[1]], relu_d = [[1 / 2, 0]], relu_I = [[True, False]],
            relu_zl = [[-1, -2]]\<rparr>"
proof -
  let ?s = "\<lparr>relu_I_empty = False, relu_I_ind = [(0, 0)], relu_nus = [T2 [[1 / 2, 0]]],
         relu_I_collapse = [[1]], relu_d = [[1 / 2, 0]], relu_I = [[True, False]],
         relu_zl = [[-1, -2 :: real]]\<rparr>"
  let ?s' = "DReLU \<lparr>relu_I_empty = True, relu_I_ind = [], relu_nus = [], relu_I_collapse = [],
                relu_d = [[1 / 3, 1]], relu_I = [[False, False]], relu_zl = [[0, 0 :: real]]\<rparr>"
  let ?p' = "DReLUProj \<lparr>proj_I_empty = True, proj_nus = [], proj_nu_ones = [],
                    proj_d = [[1 / 5, 1]], proj_I = [[False, False]], proj_zl = [[0, 0 :: real]]\<rparr>"
  let ?l = "DLinear \<lparr>dl_layer = \<lparr>lin_weight = [[1, 1], [1, 1]], lin_bias = None\<rparr>, dl_bias = None\<rparr>"
  have nz: "nonzero [[True, False]] = [(0, 0)]"
    by (simp add: nonzero_def)
  have ms: "mask_sum [[True, False]] = 1"
    by (simp add: mask_sum_def)
  have sr: "seed_rows 2 [[True, False]] [[1 / 2, 0]] = [[1 / 2, 0]]"
    by (simp add: seed_rows_def nz eval_nat_numeral)
  have 1: "DualReLU_init [[True, False]] [[1 / 2, 0]] [[-1, -2]] = Inr ?s
           \<and> seed_rows 2 [[True, False]] [[1 / 2, 0]] = [[1 / 2, 0]]
           \<and> DualReLU_apply ?s ?s' = Inr (?s\<lparr>relu_nus := [T2 [[1 / 2, 0]], T2 [[1 / 6, 0]]]\<rparr>)
           \<and> DualReLU_apply ?s ?l = Inr (?s\<lparr>relu_nus := [T2 [[1 / 2, 0]], T2 [[1 / 2, 1 / 2]]]\<rparr>)"
    using exact_relu_certificate[where M = "[[True, False]]" and dv = "[[1 / 2, 0]]"
        and z = "[[-1, -2]]" and r = 0 and b = 0 and j = 0 and n = 2 and j' = 0
        and v = "[[1 / 2, 0]]" and s = ?s and C = "[[1 / 2, 0]]" and l' = ?s'
        and d' = "[[1 / 3, 1]]" and l'' = ?l]
    by (simp add: nz ms sr same_shape_def DualReLU_init_def masked_select_def select_def
        relu_d_of_def affine_def DualLinear_affine_def py_last_def linear_def dot_def)
  have 2: "DualReLU_apply ?s ?p' = Inr (?s\<lparr>relu_nus := [T2 [[1 / 2, 0]], T2 [[1 / 10, 0]]]\<rparr>)"
    using exact_relu_certificate[where M = "[[True, False]]" and dv = "[[1 / 2, 0]]"
        and z = "[[-1, -2]]" and r = 0 and b = 0 and j = 0 and n = 2 and j' = 0
        and v = "[[1 / 2, 0]]" and s = ?s and C = "[[1 / 2, 0]]" and l' = ?p'
        and d' = "[[1 / 5, 1]]" and l'' = ?l]
    by (simp add: nz ms sr same_shape_def DualReLU_init_def masked_select_def select_def
        relu_d_of_def affine_def DualLinear_affine_def py_last_def linear_def dot_def)
  show ?thesis
    using 1 2 by simp
qed

text \<open>
  C3 as stated fails in two places.  For one activation with \<open>d = 1/2\<close> and \<open>zl = -1\<close> the
  initial certificate holds \<open>1/2\<close>, not \<open>d * zl = -1/2\<close>.  And a later \<^verbatim>\<open>apply\<close> with an
  operator that is not a ReLU operator does not multiply by a slope: with a linear operator
  of weight \<open>[[1, 1], [1, 1]]\<close> the certificate \<open>[[1/2, 0]]\<close> is followed by \<open>[[1/2, 1/2]]\<close>,
  which no element-wise product with \<open>[[1/2, 0]]\<close> gives.
\<close>

theorem exact_relu_seed_counterexample:
  "\<not> (\<exists>s. DualReLU_init [[True]] [[1 / 2]] [[-1]] = Inr s
          \<and> relu_nus s = [T2 (seed_rows 1 [[True]] (map2 (map2 (*)) [[1 / 2]] [[-1]]))])
   \<and> DualReLU_apply
        \<lparr>relu_I_empty = False, relu_I_ind = [(0, 0)], relu_nus = [T2 [[1 / 2, 0]]],
         relu_I_collapse = [[1]], relu_d = [[1 / 2, 0]], relu_I = [[True, False]],
         relu_zl = [[-1, -2]]\<rparr>
        (DLinear \<lparr>dl_layer = \<lparr>lin_weight = [[1, 1], [1, 1]], lin_bias = None\<rparr>, dl_bias = None\<rparr>)
     = Inr \<lparr>relu_I_empty = False, relu_I_ind = [(0, 0)],
            relu_nus = [T2 [[1 / 2, 0]], T2 [[1 / 2, 1 / 2]]],
            relu_I_collapse = [[1]], relu_d = [[1 / 2, 0]], relu_I = [[True, False]],
            relu_zl = [[-1, -2]]\<rparr>
   \<and> \<not> (\<exists>dv. tmul (T2 dv) (T2 [[1 / 2, 0]]) = T2 [[1 / 2, 1 / 2]])"
proof -
  have nz: "nonzero [[True]] = [(0, 0)]"
    by (simp add: nonzero_def)
  have 1: "\<not> (\<exists>s. DualReLU_init [[True]] [[1 / 2]] [[-1]] = Inr s
          \<and> relu_nus s = [T2 (seed_rows 1 [[True]] (map2 (map2 (*)) [[1 / 2]] [[-1]]))])"
    by (simp add: DualReLU_init_def mask_sum_def nz seed_rows_def masked_select_def select_def)
  have 2: "DualReLU_apply
        \<lparr>relu_I_empty = False, relu_I_ind = [(0, 0)], relu_nus = [T2 [[1 / 2, 0]]],
         relu_I_collapse = [[1]], relu_d = [[1 / 2, 0]], relu_I = [[True, False]],
         relu_zl = [[-1, -2]]\<rparr>
        (DLinear \<lparr>dl_layer = \<lparr>lin_weight = [[1, 1], [1, 1]], lin_bias = None\<rparr>, dl_bias = None\<rparr>)
     = Inr \<lparr>relu_I_empty = False, relu_I_ind = [(0, 0)],
            relu_nus = [T2 [[1 / 2, 0]], T2 [[1 / 2, 1 / 2]]],
            relu_I_collapse = [[1]], relu_d = [[1 / 2, 0]], relu_I = [[True, False]],
            relu_zl = [[-1, -2]]\<rparr>"
    by (simp add: DualReLU_apply_def affine_def DualLinear_affine_def py_last_def linear_def dot_def)
  have row: "map2 (*) x [1 / 2, 0 :: real] \<noteq> [1 / 2, 1 / 2]" for x
    by (cases x; simp) (cases "tl x"; auto)
  have 3: "\<not> (\<exists>dv. tmul (T2 dv) (T2 [[1 / 2, 0]]) = T2 [[1 / 2, 1 / 2]])"
  proof
    assume "\<exists>dv. tmul (T2 dv) (T2 [[1 / 2, 0]]) = T2 [[1 / 2, 1 / 2]]"
    then obtain dv where "bcast2 (map2 (*)) dv [[1 / 2, 0]] = [[1 / 2, 1 / 2 :: real]]"
      by (auto simp: tmul_def)
    then obtain x :: "real list" where "map2 (*) x [1 / 2, 0] = [1 / 2, 1 / 2]"
      by (auto simp: bcast2_def split: list.splits)
    with row[of x] show False by simp
  qed
  show ?thesis
    using 1 2 3 by blast
qed

subsection \<open>The constructor: failures and the shape of the chain\<close>

lemma isl_ebind: "isl (ebind m f) \<longleftrightarrow> (case m of Inl _ \<Rightarrow> True | Inr v \<Rightarrow> isl (f v))"
  by (cases m) auto

lemma emap_length: "emap f xs = Inr ys \<Longrightarrow> length ys = length xs"
  by (induction xs arbitrary: ys) (auto split: sum.splits)

lemma forward_pass_length:
  "forward_pass E ls zs = Inr zs' \<Longrightarrow> length zs' = length zs + length ls"
  by (induction ls arbitrary: zs) (auto simp: ebind_eq_Inr)

lemma make_dual_unrecognized:
  "unrecognized l \<Longrightarrow> isl (make_dual E kw zs dt i fi fo l net)"
  by (auto simp: unrecognized_def make_dual_def split: layer.splits)

lemma build_unrecognized:
  "\<exists>(i, fi, fo, l)\<in>set items. unrecognized l \<Longrightarrow>
   isl (build E kw zs dt len items net lst ws)"
proof (induction items arbitrary: net lst ws)
  case Nil
  then show ?case by simp
next
  case (Cons it items)
  obtain i fi fo l where it: "it = (i, fi, fo, l)" by (cases it) auto
  show ?case
  proof (cases "make_dual E kw zs dt i fi fo l net")
    case (Inl e)
    then show ?thesis by (simp add: it)
  next
    case (Inr r)
    obtain dl net' w where r: "r = (dl, net', w)" by (cases r) auto
    have "\<not> unrecognized l"
      using Inr make_dual_unrecognized[of l E kw zs dt i fi fo net] by auto
    with Cons.prems have rest: "\<exists>(i, fi, fo, l)\<in>set items. unrecognized l"
      by (auto simp: it)
    show ?thesis
      using Cons.IH[OF rest] Inr
      by (auto simp: it r isl_ebind split: sum.splits)
  qed
qed

lemma items_cover:
  assumes "l \<in> set net" and "length nf = Suc (length net)"
  shows "\<exists>(i, fi, fo, l')\<in>set (zip [0..<length net] (zip (butlast nf) (zip (tl nf) net))). l' = l"
proof -
  from assms(1) obtain k where k: "k < length net" and lk: "net ! k = l"
    by (auto simp: in_set_conv_nth)
  let ?items = "zip [0..<length net] (zip (butlast nf) (zip (tl nf) net))"
  have len: "length ?items = length net" using assms(2) by simp
  have "?items ! k = (k, butlast nf ! k, tl nf ! k, l)"
    using k lk assms(2) by simp
  moreover have "?items ! k \<in> set ?items"
    using k len by (intro nth_mem) simp
  ultimately show ?thesis by force
qed

lemma init_unrecognized:
  assumes "list_ex unrecognized net"
  shows "isl (DualNetBounds_init E net X eps kw)"
proof (cases "forward_pass E net [X]")
  case (Inl e)
  then show ?thesis by (simp add: DualNetBounds_init_def)
next
  case (Inr zs)
  then have len: "length (map features zs) = Suc (length net)"
    by (auto dest: forward_pass_length)
  from assms obtain l where l: "l \<in> set net" "unrecognized l"
    by (auto simp: list_ex_iff)
  have "\<exists>(i, fi, fo, l')\<in>set (zip [0..<length net]
            (zip (butlast (map features zs)) (zip (tl (map features zs)) net))). unrecognized l'"
    using items_cover[OF l(1) len] l(2) by fastforce
  then have b: "\<And>dt net0 lst ws. isl (build E kw zs dt (length net)
            (zip [0..<length net] (zip (butlast (map features zs)) (zip (tl (map features zs)) net)))
            net0 lst ws)"
    by (rule build_unrecognized)
  show ?thesis
  proof (cases "InfBall_init X eps")
    case (Inl e)
    then show ?thesis using Inr by (simp add: DualNetBounds_init_def)
  next
    case ball: (Inr ball)
    show ?thesis
    proof (cases "if list_ex is_Dense net then transpose_all E net else Inr []")
      case (Inl e)
      then show ?thesis using Inr ball by (simp add: DualNetBounds_init_def)
    next
      case dt: (Inr dt)
      have "isl (build E kw zs dt (length net)
            (zip [0..<length net] (zip (butlast (map features zs)) (zip (tl (map features zs)) net)))
            [DInfBall ball] None [])"
        by (rule b)
      then show ?thesis
        using Inr ball dt
        by (auto simp: DualNetBounds_init_def Let_def isl_ebind split: sum.splits)
    qed
  qed
qed

lemma dense_updated_refl: "dense_updated net net"
  by (simp add: dense_updated_def)

lemma dense_updated_trans:
  "dense_updated a b \<Longrightarrow> dense_updated b c \<Longrightarrow> dense_updated a c"
  unfolding dense_updated_def by auto

lemma rewire_dense_updated:
  assumes "rewire net back w dl = Inr net'"
  shows "dense_updated net net'"
proof -
  from assms have lb: "\<not> length net < back"
    by (auto simp: rewire_def split: if_splits)
  with assms obtain s s' where
    s: "net ! (length net - back) = DDense s" and n': "net' = net[length net - back := DDense s']"
    by (auto simp: rewire_def split: dual.splits)
  have "\<And>k. k < length net \<Longrightarrow>
          (dense_kind (net ! k) \<longrightarrow> dense_kind (net[length net - back := DDense s'] ! k))
          \<and> (\<not> dense_kind (net ! k) \<longrightarrow> net[length net - back := DDense s'] ! k = net ! k)"
  proof -
    fix k assume k: "k < length net"
    show "(dense_kind (net ! k) \<longrightarrow> dense_kind (net[length net - back := DDense s'] ! k))
          \<and> (\<not> dense_kind (net ! k) \<longrightarrow> net[length net - back := DDense s'] ! k = net ! k)"
    proof (cases "k = length net - back")
      case True
      then show ?thesis using s k by (simp add: dense_kind_def)
    next
      case False
      then show ?thesis by simp
    qed
  qed
  then show ?thesis
    unfolding dense_updated_def n' by simp
qed

lemma DualDense_loop_dense_updated:
  "DualDense_loop Ws i len out ds net = Inr (ds', net') \<Longrightarrow> dense_updated net net'"
proof (induction Ws arbitrary: i ds net)
  case Nil
  then show ?case by (simp add: dense_updated_refl)
next
  case (Cons W Ws)
  from Cons.prems obtain dl netm where
    rw: "(if i < len - 1 \<and> (case W of WNone \<Rightarrow> False | _ \<Rightarrow> True)
          then rewire net (len - 1 - i) (len - i) dl else Inr net) = Inr netm" and
    rest: "DualDense_loop Ws (i + 1) len out (ds @ [dl]) netm = Inr (ds', net')"
    by (auto simp: ebind_eq_Inr)
  have "dense_updated net netm"
    using rw by (auto split: if_splits dest: rewire_dense_updated simp: dense_updated_refl)
  with Cons.IH[OF rest] show ?case by (blast intro: dense_updated_trans)
qed

lemma make_relu_result:
  assumes "make_relu E kw i net = Inr (dl, w)"
  shows "\<not> is_ball dl"
proof -
  from assms obtain zl zu where
    r: "(case (zl, zu) of
         (T2 l, T2 u) \<Rightarrow>
           (let (d, I) = relu_slope l u in
            case l1_proj kw of
              Some k \<Rightarrow>
                (if l1_type kw = ''median'' \<and> mask_sum I > k
                 then (let (s, w) = DualReLUProj_init I d l k (cauchy E i) in Inr (DReLUProj s, w))
                 else ebind (DualReLU_init I d l) (\<lambda>s. Inr (DReLU s, [])))
            | None \<Rightarrow> ebind (DualReLU_init I d l) (\<lambda>s. Inr (DReLU s, [])))
       | _ \<Rightarrow> Inl (RuntimeError ''bounds are not of shape (batch, features)'')) = Inr (dl, w)"
    by (auto simp: make_relu_def ebind_eq_Inr)
  then obtain l u where "zl = T2 l" "zu = T2 u"
    by (cases zl; cases zu) auto
  with r show ?thesis
    by (auto simp: Let_def ebind_eq_Inr is_ball_def split: prod.splits option.splits if_splits)
qed

lemma make_dual_result:
  assumes "make_dual E kw zs dt i fi fo l net = Inr (dl, net', w)"
  shows "\<not> is_ball dl \<and> dense_updated net net'"
proof (cases l)
  case (Linear x)
  with assms show ?thesis
    by (auto simp: make_dual_def ebind_eq_Inr is_ball_def dense_updated_refl)
next
  case (Conv2d x)
  with assms show ?thesis
    by (auto simp: make_dual_def ebind_eq_Inr is_ball_def dense_updated_refl)
next
  case ReLU
  with assms show ?thesis
    by (auto simp: make_dual_def ebind_eq_Inr dense_updated_refl dest: make_relu_result)
next
  case (Dense Ws)
  with assms show ?thesis
    by (auto simp: make_dual_def DualDense_init_def ebind_eq_Inr is_ball_def
        split: if_splits dest: DualDense_loop_dense_updated)
next
  case (BatchNorm2d x)
  with assms show ?thesis
    by (auto simp: make_dual_def is_ball_def dense_updated_refl)
next
  case (Custom x)
  with assms show ?thesis
    by (auto simp: make_dual_def is_ball_def dense_updated_refl split: if_splits)
qed

lemma dual_apply_kind:
  assumes "dual_apply l x = Inr l'"
  shows "is_ball l' = is_ball l"
  using assms
  by (cases l) (auto simp: dual_apply_def is_ball_def ebind_eq_Inr)

lemma dual_apply_ball:
  assumes "dual_apply (DInfBall b) x = Inr l'" and "ball_nu_x b \<noteq> []"
  shows "\<exists>b'. l' = DInfBall b' \<and> ball_epsilon b' = ball_epsilon b
            \<and> ball_nu_x b' \<noteq> [] \<and> hd (ball_nu_x b') = hd (ball_nu_x b)"
  using assms
  by (auto simp: dual_apply_def InfBall_apply_def ebind_eq_Inr)

lemma emap_apply_no_ball:
  "emap (\<lambda>l. dual_apply l x) xs = Inr ys \<Longrightarrow> \<forall>l\<in>set xs. \<not> is_ball l \<Longrightarrow> \<forall>l\<in>set ys. \<not> is_ball l"
proof (induction xs arbitrary: ys)
  case Nil
  then show ?case by simp
next
  case (Cons a xs)
  then show ?case
    by (auto split: sum.splits dest: dual_apply_kind)
qed


lemma dense_updated_ball:
  assumes "dense_updated (DInfBall b # rest) netm" and "\<forall>l\<in>set rest. \<not> is_ball l"
  shows "\<exists>restm. netm = DInfBall b # restm \<and> (\<forall>l\<in>set restm. \<not> is_ball l)"
proof -
  from assms(1) have len: "length netm = Suc (length rest)"
    by (simp add: dense_updated_def)
  then obtain l0 restm where netm: "netm = l0 # restm" and lr: "length restm = length rest"
    by (cases netm) auto
  have "l0 = DInfBall b"
    using assms(1) unfolding dense_updated_def netm
    by (auto simp: dense_kind_def dest: spec[of _ 0])
  moreover have "\<forall>l\<in>set restm. \<not> is_ball l"
  proof
    fix l assume "l \<in> set restm"
    then obtain k where k: "k < length restm" and l: "restm ! k = l"
      by (auto simp: in_set_conv_nth)
    have nb: "\<not> is_ball (rest ! k)" using assms(2) k lr by simp
    have "(dense_kind (rest ! k) \<longrightarrow> dense_kind (restm ! k))
          \<and> (\<not> dense_kind (rest ! k) \<longrightarrow> restm ! k = rest ! k)"
      using assms(1) k lr unfolding dense_updated_def netm
      by (auto dest: spec[of _ "Suc k"])
    then show "\<not> is_ball l"
      using nb l by (cases "dense_kind (rest ! k)") (auto simp: dense_kind_def is_ball_def split: dual.splits)
  qed
  ultimately show ?thesis using netm by simp
qed

lemma build_invariant:
  assumes "build E kw zs dt len items net lst ws = Inr (net', lst', ws')"
      and "net = DInfBall b # rest" and "ball_nu_x b \<noteq> []"
      and "\<forall>l\<in>set rest. \<not> is_ball l" and "\<forall>ll. lst = Some ll \<longrightarrow> \<not> is_ball ll"
  shows "\<exists>b' rest'. net' = DInfBall b' # rest' \<and> ball_epsilon b' = ball_epsilon b
           \<and> ball_nu_x b' \<noteq> [] \<and> hd (ball_nu_x b') = hd (ball_nu_x b)
           \<and> (\<forall>l\<in>set rest'. \<not> is_ball l) \<and> (\<forall>ll. lst' = Some ll \<longrightarrow> \<not> is_ball ll)"
  using assms
proof (induction items arbitrary: net lst ws b rest)
  case Nil
  then show ?case by auto
next
  case (Cons it items)
  obtain i fi fo l where it: "it = (i, fi, fo, l)" by (cases it) auto
  from Cons.prems(1) obtain dl netm w where
    md: "make_dual E kw zs dt i fi fo l net = Inr (dl, netm, w)" and
    k: "(if i < len - 1
         then ebind (emap (\<lambda>l. dual_apply l dl) netm) (\<lambda>net''.
                build E kw zs dt len items (net'' @ [dl]) lst (ws @ w))
         else build E kw zs dt len items netm (Some dl) (ws @ w)) = Inr (net', lst', ws')"
    by (auto simp: it ebind_eq_Inr)
  from make_dual_result[OF md] have nb: "\<not> is_ball dl" and du: "dense_updated net netm"
    by auto
  from dense_updated_ball[OF du[unfolded Cons.prems(2)] Cons.prems(4)] obtain restm where
    netm: "netm = DInfBall b # restm" and rm: "\<forall>l\<in>set restm. \<not> is_ball l" by auto
  show ?case
  proof (cases "i < len - 1")
    case True
    with k obtain net'' where
      em: "emap (\<lambda>l. dual_apply l dl) netm = Inr net''" and
      bd: "build E kw zs dt len items (net'' @ [dl]) lst (ws @ w) = Inr (net', lst', ws')"
      by (auto simp: ebind_eq_Inr)
    from em obtain l0 rest'' where
      a0: "dual_apply (DInfBall b) dl = Inr l0" and
      ar: "emap (\<lambda>l. dual_apply l dl) restm = Inr rest''" and
      n'': "net'' = l0 # rest''"
      by (auto simp: netm split: sum.splits)
    from dual_apply_ball[OF a0 Cons.prems(3)] obtain b1 where
      b1: "l0 = DInfBall b1" "ball_epsilon b1 = ball_epsilon b" "ball_nu_x b1 \<noteq> []"
          "hd (ball_nu_x b1) = hd (ball_nu_x b)" by auto
    have r2: "\<forall>l\<in>set (rest'' @ [dl]). \<not> is_ball l"
      using emap_apply_no_ball[OF ar rm] nb by auto
    have "net'' @ [dl] = DInfBall b1 # (rest'' @ [dl])" by (simp add: n'' b1)
    from Cons.IH[OF bd this b1(3) r2 Cons.prems(5)] show ?thesis
      using b1 by auto
  next
    case False
    with k have bd: "build E kw zs dt len items netm (Some dl) (ws @ w) = Inr (net', lst', ws')"
      by simp
    have "\<forall>ll. Some dl = Some ll \<longrightarrow> \<not> is_ball ll" using nb by simp
    from Cons.IH[OF bd netm Cons.prems(3) rm this] show ?thesis .
  qed
qed

lemma build_length:
  assumes "build E kw zs dt len items net lst ws = Inr (net', lst', ws')"
  shows "length net' = length net + length (filter (\<lambda>i. i < len - 1) (map fst items))
         \<and> ((lst \<noteq> None \<or> (\<exists>i\<in>set (map fst items). \<not> i < len - 1)) \<longrightarrow> lst' \<noteq> None)"
  using assms
proof (induction items arbitrary: net lst ws)
  case Nil
  then show ?case by simp
next
  case (Cons it items)
  obtain i fi fo l where it: "it = (i, fi, fo, l)" by (cases it) auto
  from Cons.prems(1) obtain dl netm w where
    md: "make_dual E kw zs dt i fi fo l net = Inr (dl, netm, w)" and
    k: "(if i < len - 1
         then ebind (emap (\<lambda>l. dual_apply l dl) netm) (\<lambda>net''.
                build E kw zs dt len items (net'' @ [dl]) lst (ws @ w))
         else build E kw zs dt len items netm (Some dl) (ws @ w)) = Inr (net', lst', ws')"
    by (auto simp: it ebind_eq_Inr)
  have lm: "length netm = length net"
    using make_dual_result[OF md] by (simp add: dense_updated_def)
  show ?case
  proof (cases "i < len - 1")
    case True
    with k obtain net'' where
      em: "emap (\<lambda>l. dual_apply l dl) netm = Inr net''" and
      bd: "build E kw zs dt len items (net'' @ [dl]) lst (ws @ w) = Inr (net', lst', ws')"
      by (auto simp: ebind_eq_Inr)
    from Cons.IH[OF bd] emap_length[OF em] lm True show ?thesis
      by (auto simp: it)
  next
    case False
    with k have bd: "build E kw zs dt len items netm (Some dl) (ws @ w) = Inr (net', lst', ws')"
      by simp
    from Cons.IH[OF bd] lm False show ?thesis
      by (auto simp: it)
  qed
qed

lemma filter_less_upt: "filter (\<lambda>i. i < k) [0..<n] = [0..<min k n]"
proof (induction n)
  case 0
  then show ?case by simp
next
  case (Suc n)
  show ?case
  proof (cases "n < k")
    case True
    then have "min k n = n" "min k (Suc n) = Suc n" by auto
    with Suc True show ?thesis by simp
  next
    case False
    then have "min k n = k" "min k (Suc n) = k" by auto
    with Suc False show ?thesis by simp
  qed
qed


lemma map_fst_items:
  assumes "length nf = Suc n" and "length net = n"
  shows "map fst (zip [0..<n] (zip (butlast nf) (zip (tl nf) net))) = [0..<n]"
proof -
  have "length (zip (butlast nf) (zip (tl nf) net)) = n" using assms by simp
  then have "length [0..<n] = length (zip (butlast nf) (zip (tl nf) net))" by simp
  then show ?thesis by (rule map_fst_zip)
qed

lemma init_chain:
  assumes "DualNetBounds_init E net X eps kw = Inr (obj, ws)"
  shows "(\<exists>b rest. dual_net obj = DInfBall b # rest \<and> ball_epsilon b = eps
             \<and> ball_nu_x b \<noteq> [] \<and> hd (ball_nu_x b) = T2 X \<and> (\<forall>l\<in>set rest. \<not> is_ball l))
         \<and> (\<forall>ll. last_layer obj = Some ll \<longrightarrow> \<not> is_ball ll)
         \<and> length (dual_net obj) = Suc (length net - 1)
         \<and> (net \<noteq> [] \<longrightarrow> last_layer obj \<noteq> None)"
proof -
  let ?items = "\<lambda>zs. zip [0..<length net]
      (zip (butlast (map features zs)) (zip (tl (map features zs)) net))"
  from assms obtain zs ball dt dn lst where
    fp: "forward_pass E net [X] = Inr zs" and
    ib: "InfBall_init X eps = Inr ball" and
    bd: "build E kw zs dt (length net) (?items zs) [DInfBall ball] None [] = Inr (dn, lst, ws)" and
    obj: "obj = \<lparr>dual_net = dn, last_layer = lst\<rparr>"
    by (auto simp: DualNetBounds_init_def Let_def ebind_eq_Inr)
  have ball: "ball_epsilon ball = eps" "ball_nu_x ball = [T2 X]"
    using ib by (auto simp: InfBall_init_def split: list.splits)
  have 1: "\<exists>b' rest'. dn = DInfBall b' # rest' \<and> ball_epsilon b' = ball_epsilon ball
           \<and> ball_nu_x b' \<noteq> [] \<and> hd (ball_nu_x b') = hd (ball_nu_x ball)
           \<and> (\<forall>l\<in>set rest'. \<not> is_ball l) \<and> (\<forall>ll. lst = Some ll \<longrightarrow> \<not> is_ball ll)"
    by (rule build_invariant[OF bd, of ball "[]"]) (simp_all add: ball)
  have len: "length (map features zs) = Suc (length net)"
    using forward_pass_length[OF fp] by simp
  have mf: "map fst (?items zs) = [0..<length net]"
    using len by (intro map_fst_items) simp_all
  have 2: "length dn = length [DInfBall ball] + length (filter (\<lambda>i. i < length net - 1) (map fst (?items zs)))
         \<and> ((None \<noteq> (None :: dual option) \<or> (\<exists>i\<in>set (map fst (?items zs)). \<not> i < length net - 1)) \<longrightarrow> lst \<noteq> None)"
    by (rule build_length[OF bd])
  have 3: "length dn = Suc (length net - 1)"
    using 2 unfolding mf by (simp add: filter_less_upt)
  have 4: "net \<noteq> [] \<longrightarrow> lst \<noteq> None"
  proof
    assume "net \<noteq> []"
    then have "length net - 1 \<in> set [0..<length net]" by (cases net) auto
    then have "\<exists>i\<in>set (map fst (?items zs)). \<not> i < length net - 1"
      unfolding mf by (intro bexI[of _ "length net - 1"]) simp_all
    with 2 show "lst \<noteq> None" by blast
  qed
  show ?thesis
    using 1 3 4 by (auto simp: obj ball)
qed

text \<open>
  C5.  Whatever the keyword arguments are, a chain that the constructor returns starts
  with the exact representative \<^verbatim>\<open>InfBall(X, epsilon)\<close>; no other element of the chain, nor
  the last layer, is an uncertainty-set representative, so \<^verbatim>\<open>InfBallProj\<close> is never part of
  it; and the bounds of the first element use the sum of the absolute values of its
  certificate.
\<close>

theorem first_operator_is_exact_ball:
  "DualNetBounds_init E net X eps kw = Inr (obj, ws) \<longrightarrow>
     (\<exists>b rest. dual_net obj = DInfBall b # rest \<and> ball_epsilon b = eps
         \<and> hd (ball_nu_x b) = T2 X \<and> (\<forall>l\<in>set rest. \<not> is_ball l)
         \<and> (\<forall>c. ball_nu_1 b \<noteq> [] \<and> last (ball_nu_1 b) = T3 c \<longrightarrow>
                fval (hd (dual_net obj)) None None
                  = Inr (Bounds (tsub (last (ball_nu_x b)) (tmul (Num eps) (T2 (abs_sum1 c))))
                                (tadd (last (ball_nu_x b)) (tmul (Num eps) (T2 (abs_sum1 c)))))))
     \<and> (\<forall>ll. last_layer obj = Some ll \<longrightarrow> \<not> is_ball ll)"
proof
  assume a: "DualNetBounds_init E net X eps kw = Inr (obj, ws)"
  from init_chain[OF a] obtain b rest where
    b: "dual_net obj = DInfBall b # rest" "ball_epsilon b = eps" "ball_nu_x b \<noteq> []"
       "hd (ball_nu_x b) = T2 X" "\<forall>l\<in>set rest. \<not> is_ball l" and
    l: "\<forall>ll. last_layer obj = Some ll \<longrightarrow> \<not> is_ball ll"
    by auto
  have "\<forall>c. ball_nu_1 b \<noteq> [] \<and> last (ball_nu_1 b) = T3 c \<longrightarrow>
                fval (hd (dual_net obj)) None None
                  = Inr (Bounds (tsub (last (ball_nu_x b)) (tmul (Num eps) (T2 (abs_sum1 c))))
                                (tadd (last (ball_nu_x b)) (tmul (Num eps) (T2 (abs_sum1 c)))))"
    using b by (auto simp: fval_def InfBall_fval_def py_last_nonempty abs_sum_dim1_def)
  with b l show "(\<exists>b rest. dual_net obj = DInfBall b # rest \<and> ball_epsilon b = eps
         \<and> hd (ball_nu_x b) = T2 X \<and> (\<forall>l\<in>set rest. \<not> is_ball l)
         \<and> (\<forall>c. ball_nu_1 b \<noteq> [] \<and> last (ball_nu_1 b) = T3 c \<longrightarrow>
                fval (hd (dual_net obj)) None None
                  = Inr (Bounds (tsub (last (ball_nu_x b)) (tmul (Num eps) (T2 (abs_sum1 c))))
                                (tadd (last (ball_nu_x b)) (tmul (Num eps) (T2 (abs_sum1 c)))))))
     \<and> (\<forall>ll. last_layer obj = Some ll \<longrightarrow> \<not> is_ball ll)"
    by blast
qed


lemmas init_simps = DualNetBounds_init_def Let_def features_def is_Dense_def
  InfBall_init_def eye_def make_dual_def DualReshape_init_def view_features_def DualLinear_init_def full_bias_linear_def
  dual_apply_def InfBall_apply_def affine_def DualLinear_affine_def DualReshape_affine_def
  py_last_def linear_def dot_def DualLinear_apply_def bias_apply_def
  make_relu_def relu_bounds_def fval_def InfBall_fval_def abs_sum_dim1_def abs_sum1_def as_bounds_def
  py_sum_def tadd_def tsub_def tmul_def bcast2_def DualLinear_fval_def bias_fval_def
  relu_slope_def active_mask_def unstable_mask_def tol_def mask_sum_def masked_assign_def masked_select_def
  select_def DualReLU_init_def nonzero_def DualReLUProj_init_def unsqueeze1_def batch_def unbatch_def
  DualReLU_affine_def gather_rows_def DualDense_init_def dense_dual_def

theorem first_operator_is_exact_ball_witness:
  "DualNetBounds_init \<lparr>call_module = (\<lambda>l zs. Inr (last zs)), transpose_all = (\<lambda>n. Inr n), cauchy = (\<lambda>i j. 1)\<rparr>
       [ReLU, Custom ''Flatten''] [[1, - 1]] 2
       \<lparr>alpha_grad = False, scatter_grad = False, l1_proj = Some 1, l1_eps = None, m_bounds = None, batchnorm = False, l1_type = ''median''\<rparr>
     = Inr (\<lparr>dual_net =
              [DInfBall \<lparr>ball_epsilon = 2,
                         ball_nu_x = [T2 [[1, - 1]], T2 [[3 / 4, - (1 / 4)]]],
                         ball_nu_1 = [T3 [[[1, 0], [0, 1]]], T3 [[[3 / 4, 0], [0, 1 / 4]]]]\<rparr>,
               DReLUProj \<lparr>proj_I_empty = False,
                          proj_nus = [T3 [[[- (3 / 4), - (3 / 4)]]]],
                          proj_nu_ones = [T2 [[- (3 / 4), - (3 / 4)]]],
                          proj_d = [[3 / 4, 1 / 4]], proj_I = [[True, True]],
                          proj_zl = [[- 1, - 3]]\<rparr>],
            last_layer = Some (DReshape \<lparr>rs_in_f = 2, rs_out_f = 2\<rparr>)\<rparr>, [])
   \<and> \<not> is_ball (DReLUProj \<lparr>proj_I_empty = False,
                          proj_nus = [T3 [[[- (3 / 4), - (3 / 4)]]]],
                          proj_nu_ones = [T2 [[- (3 / 4), - (3 / 4)]]],
                          proj_d = [[3 / 4, 1 / 4]], proj_I = [[True, True]],
                          proj_zl = [[- 1, - 3]]\<rparr>)
   \<and> \<not> is_ball (DReshape \<lparr>rs_in_f = 2, rs_out_f = 2\<rparr>)"
proof -
  let ?obj = "\<lparr>dual_net =
              [DInfBall \<lparr>ball_epsilon = 2,
                         ball_nu_x = [T2 [[1, - 1]], T2 [[3 / 4, - (1 / 4)]]],
                         ball_nu_1 = [T3 [[[1, 0], [0, 1]]], T3 [[[3 / 4, 0], [0, 1 / 4]]]]\<rparr>,
               DReLUProj \<lparr>proj_I_empty = False,
                          proj_nus = [T3 [[[- (3 / 4), - (3 / 4)]]]],
                          proj_nu_ones = [T2 [[- (3 / 4), - (3 / 4)]]],
                          proj_d = [[3 / 4, 1 / 4]], proj_I = [[True, True]],
                          proj_zl = [[- 1, - 3]]\<rparr>],
            last_layer = Some (DReshape \<lparr>rs_in_f = 2, rs_out_f = 2\<rparr>)\<rparr>"
  have eq: "DualNetBounds_init \<lparr>call_module = (\<lambda>l zs. Inr (last zs)), transpose_all = (\<lambda>n. Inr n), cauchy = (\<lambda>i j. 1)\<rparr>
       [ReLU, Custom ''Flatten''] [[1, - 1]] 2 \<lparr>alpha_grad = False, scatter_grad = False, l1_proj = Some 1, l1_eps = None, m_bounds = None, batchnorm = False, l1_type = ''median''\<rparr> = Inr (?obj, [])"
    by (simp add: init_simps eval_nat_numeral)
  from first_operator_is_exact_ball[of "\<lparr>call_module = (\<lambda>l zs. Inr (last zs)), transpose_all = (\<lambda>n. Inr n), cauchy = (\<lambda>i j. 1)\<rparr>" "[ReLU, Custom ''Flatten'']" "[[1, - 1]]" 2 "\<lparr>alpha_grad = False, scatter_grad = False, l1_proj = Some 1, l1_eps = None, m_bounds = None, batchnorm = False, l1_type = ''median''\<rparr>" ?obj "[]"] eq
  show ?thesis by simp
qed

text \<open>
  C9 (as amended).  A network with a layer of an unrecognized kind makes the constructor
  fail; at that layer the error is the \<^verbatim>\<open>ValueError\<close> that names the class.  \<^verbatim>\<open>DualLinear\<close> and
  \<^verbatim>\<open>DualConv2d\<close> raise \<^verbatim>\<open>ValueError\<close> on a layer of another class.  What the constructor
  returns is an error or a complete chain: the representative of the input set, one
  operator for every layer but the last, and the last layer's operator; in that case no
  layer is unrecognized.
\<close>

theorem unsupported_layer_fatal:
  "(list_ex unrecognized net \<longrightarrow> isl (DualNetBounds_init E net X eps kw))
   \<and> (unrecognized l \<longrightarrow>
        (\<exists>name. l = Custom name
           \<and> make_dual E kw zs dt i fi fo l chain = Inl (ValueError (''No module for layer '' @ name))))
   \<and> ((case ly of Linear _ \<Rightarrow> False | _ \<Rightarrow> True) \<longrightarrow>
        DualLinear_init ly n = Inl (ValueError ''Expected nn.Linear input.''))
   \<and> ((case ly of Conv2d _ \<Rightarrow> False | _ \<Rightarrow> True) \<longrightarrow>
        DualConv2d_init ly n = Inl (ValueError ''Expected nn.Conv2d input.''))
   \<and> (DualNetBounds_init E net X eps kw = Inr (obj, ws) \<longrightarrow>
        length (dual_net obj) = Suc (length net - 1)
        \<and> (net \<noteq> [] \<longrightarrow> last_layer obj \<noteq> None)
        \<and> \<not> list_ex unrecognized net)"
proof -
  have 1: "list_ex unrecognized net \<longrightarrow> isl (DualNetBounds_init E net X eps kw)"
    by (auto intro: init_unrecognized)
  have 2: "unrecognized l \<longrightarrow>
        (\<exists>name. l = Custom name
           \<and> make_dual E kw zs dt i fi fo l chain = Inl (ValueError (''No module for layer '' @ name)))"
    by (auto simp: unrecognized_def make_dual_def split: layer.splits)
  have 3: "(case ly of Linear _ \<Rightarrow> False | _ \<Rightarrow> True) \<longrightarrow>
        DualLinear_init ly n = Inl (ValueError ''Expected nn.Linear input.'')"
    by (auto simp: DualLinear_init_def split: layer.splits)
  have 4: "(case ly of Conv2d _ \<Rightarrow> False | _ \<Rightarrow> True) \<longrightarrow>
        DualConv2d_init ly n = Inl (ValueError ''Expected nn.Conv2d input.'')"
    by (auto simp: DualConv2d_init_def split: layer.splits)
  have 5: "DualNetBounds_init E net X eps kw = Inr (obj, ws) \<longrightarrow>
        length (dual_net obj) = Suc (length net - 1)
        \<and> (net \<noteq> [] \<longrightarrow> last_layer obj \<noteq> None)
        \<and> \<not> list_ex unrecognized net"
    using init_chain[of E net X eps kw obj ws] init_unrecognized[of net E X eps kw]
    by auto
  from 1 2 3 4 5 show ?thesis by blast
qed

theorem unsupported_layer_fatal_witness:
  "list_ex unrecognized [Custom ''Flatten'', Custom ''Foo'']
   \<and> DualNetBounds_init \<lparr>call_module = (\<lambda>l zs. Inr (last zs)), transpose_all = (\<lambda>n. Inr n), cauchy = (\<lambda>i j. 1)\<rparr>
        [Custom ''Flatten'', Custom ''Foo''] [[1]] 1 \<lparr>alpha_grad = False, scatter_grad = False, l1_proj = None, l1_eps = None, m_bounds = None, batchnorm = False, l1_type = ''exact''\<rparr> = Inl (ValueError ''No module for layer Foo'')
   \<and> DualLinear_init ReLU 1 = Inl (ValueError ''Expected nn.Linear input.'')
   \<and> DualConv2d_init ReLU 1 = Inl (ValueError ''Expected nn.Conv2d input.'')
   \<and> DualNetBounds_init \<lparr>call_module = (\<lambda>l zs. Inr (last zs)), transpose_all = (\<lambda>n. Inr n), cauchy = (\<lambda>i j. 1)\<rparr>
        [Linear \<lparr>lin_weight = [[1, 2], [3, 4]], lin_bias = Some [5, 6]\<rparr>,
         Linear \<lparr>lin_weight = [[1, 1]], lin_bias = None\<rparr>] [[1, - 1]] 2 \<lparr>alpha_grad = False, scatter_grad = False, l1_proj = None, l1_eps = None, m_bounds = None, batchnorm = False, l1_type = ''exact''\<rparr>
      = Inr (\<lparr>dual_net =
               [DInfBall \<lparr>ball_epsilon = 2, ball_nu_x = [T2 [[1, - 1]], T2 [[- 1, - 1]]],
                          ball_nu_1 = [T3 [[[1, 0], [0, 1]]], T3 [[[1, 3], [2, 4]]]]\<rparr>,
                DLinear \<lparr>dl_layer = \<lparr>lin_weight = [[1, 2], [3, 4]], lin_bias = Some [5, 6]\<rparr>,
                         dl_bias = Some [T2 [[5, 6]]]\<rparr>],
             last_layer =
               Some (DLinear \<lparr>dl_layer = \<lparr>lin_weight = [[1, 1]], lin_bias = None\<rparr>,
                              dl_bias = None\<rparr>)\<rparr>, [])"
proof -
  let ?bad = "[Custom ''Flatten'', Custom ''Foo'']"
  let ?good = "[Linear \<lparr>lin_weight = [[1, 2], [3, 4]], lin_bias = Some [5, 6]\<rparr>,
         Linear \<lparr>lin_weight = [[1, 1]], lin_bias = None\<rparr>]"
  have u: "list_ex unrecognized ?bad"
    by (simp add: unrecognized_def)
  have bad: "DualNetBounds_init \<lparr>call_module = (\<lambda>l zs. Inr (last zs)), transpose_all = (\<lambda>n. Inr n), cauchy = (\<lambda>i j. 1)\<rparr> ?bad [[1]] 1 \<lparr>alpha_grad = False, scatter_grad = False, l1_proj = None, l1_eps = None, m_bounds = None, batchnorm = False, l1_type = ''exact''\<rparr> = Inl (ValueError ''No module for layer Foo'')"
    by (simp add: init_simps)
  have good: "DualNetBounds_init \<lparr>call_module = (\<lambda>l zs. Inr (last zs)), transpose_all = (\<lambda>n. Inr n), cauchy = (\<lambda>i j. 1)\<rparr> ?good [[1, - 1]] 2 \<lparr>alpha_grad = False, scatter_grad = False, l1_proj = None, l1_eps = None, m_bounds = None, batchnorm = False, l1_type = ''exact''\<rparr>
      = Inr (\<lparr>dual_net =
               [DInfBall \<lparr>ball_epsilon = 2, ball_nu_x = [T2 [[1, - 1]], T2 [[- 1, - 1]]],
                          ball_nu_1 = [T3 [[[1, 0], [0, 1]]], T3 [[[1, 3], [2, 4]]]]\<rparr>,
                DLinear \<lparr>dl_layer = \<lparr>lin_weight = [[1, 2], [3, 4]], lin_bias = Some [5, 6]\<rparr>,
                         dl_bias = Some [T2 [[5, 6]]]\<rparr>],
             last_layer =
               Some (DLinear \<lparr>dl_layer = \<lparr>lin_weight = [[1, 1]], lin_bias = None\<rparr>,
                              dl_bias = None\<rparr>)\<rparr>, [])"
    by (simp add: init_simps)
  from unsupported_layer_fatal[where net = ?bad and E = "\<lparr>call_module = (\<lambda>l zs. Inr (last zs)), transpose_all = (\<lambda>n. Inr n), cauchy = (\<lambda>i j. 1)\<rparr>" and X = "[[1]]" and eps = 1
      and kw = "\<lparr>alpha_grad = False, scatter_grad = False, l1_proj = None, l1_eps = None, m_bounds = None, batchnorm = False, l1_type = ''exact''\<rparr>" and ly = ReLU and n = 1 and l = "Custom ''Foo''"] u bad good
  show ?thesis by simp
qed

text \<open>
  C9 as stated, failure exactly when a layer is unrecognized, fails: a network whose only
  layer is a recognized \<^verbatim>\<open>Dense\<close> block holding a module that \<^verbatim>\<open>DualDense\<close> cannot parse
  makes the constructor raise.
\<close>

theorem recognized_layers_can_fail_counterexample:
  "DualNetBounds_init \<lparr>call_module = (\<lambda>l zs. Inr (last zs)), transpose_all = (\<lambda>n. Inr n), cauchy = (\<lambda>i j. 1)\<rparr>
       [Dense [WOther ''ReLU'']] [[1]] 1 \<lparr>alpha_grad = False, scatter_grad = False, l1_proj = None, l1_eps = None, m_bounds = None, batchnorm = False, l1_type = ''exact''\<rparr>
     = Inl (ValueError ''Don't know how to parse dense structure'')
   \<and> \<not> list_ex unrecognized [Dense [WOther ''ReLU'']]"
  by (simp add: init_simps unrecognized_def)

subsection \<open>Evaluating the bound on a store\<close>

lemma sbind_step: "m \<sigma> = (Inr x, \<sigma>') \<Longrightarrow> sbind m f \<sigma> = f x \<sigma>'"
  by (simp add: sbind_def)

lemma sbind_fail: "m \<sigma> = (Inl e, \<sigma>') \<Longrightarrow> sbind m f \<sigma> = (Inl e, \<sigma>')"
  by (simp add: sbind_def)

lemma sbind_lift: "sbind (lift r) f \<sigma> = (case r of Inl e \<Rightarrow> (Inl e, \<sigma>) | Inr x \<Rightarrow> f x \<sigma>)"
  by (cases r) (simp_all add: sbind_def lift_def)

lemma sbind_sreturn: "sbind (sreturn x) f = f x"
  by (rule ext) (simp add: sbind_def sreturn_def)

text \<open>Which cells a run keeps.\<close>

lemma keeps_sreturn: "keeps n (sreturn x)"
  by (simp add: keeps_def sreturn_def)

lemma keeps_lift: "keeps n (lift r)"
  by (simp add: keeps_def lift_def)

lemma keeps_get_list: "keeps n (get_list a)"
  by (simp add: keeps_def get_list_def)

lemma keeps_get_op: "keeps n (get_op v)"
  by (simp add: keeps_def get_op_def)

lemma keeps_get_net: "keeps n (get_net a)"
  by (simp add: keeps_def get_net_def)

lemma keeps_new_list: "keeps n (new_list vs)"
  by (simp add: keeps_def new_list_def)

lemma keeps_list_append: "n \<le> a \<Longrightarrow> keeps n (list_append a v)"
  by (auto simp: keeps_def list_append_def split: sum.splits)

lemma keeps_sbind:
  assumes "keeps n m" and "\<And>x. keeps n (f x)"
  shows "keeps n (sbind m f)"
  unfolding keeps_def
proof (intro allI impI)
  fix \<sigma> :: store
  assume n: "n \<le> length \<sigma>"
  obtain r \<sigma>' where m: "m \<sigma> = (r, \<sigma>')" by (cases "m \<sigma>")
  have 1: "n \<le> length \<sigma>'" "take n \<sigma>' = take n \<sigma>"
    using assms(1) n m by (auto simp: keeps_def)
  show "n \<le> length (snd (sbind m f \<sigma>)) \<and> take n (snd (sbind m f \<sigma>)) = take n \<sigma>"
  proof (cases r)
    case (Inl e)
    then show ?thesis using m 1 by (simp add: sbind_def)
  next
    case (Inr x)
    have "n \<le> length (snd (f x \<sigma>')) \<and> take n (snd (f x \<sigma>')) = take n \<sigma>'"
      using assms(2)[of x] 1(1) by (simp add: keeps_def)
    then show ?thesis using m Inr 1 by (simp add: sbind_def)
  qed
qed

lemma keeps_new_list_bind:
  assumes "\<And>a. n \<le> a \<Longrightarrow> keeps n (f a)"
  shows "keeps n (sbind (new_list vs) f)"
  unfolding keeps_def
proof (intro allI impI)
  fix \<sigma> :: store
  assume n: "n \<le> length \<sigma>"
  have "n \<le> length (snd (f (length \<sigma>) (\<sigma> @ [CList vs])))
        \<and> take n (snd (f (length \<sigma>) (\<sigma> @ [CList vs]))) = take n (\<sigma> @ [CList vs])"
    using assms[OF n] n by (simp add: keeps_def)
  then show "n \<le> length (snd (sbind (new_list vs) f \<sigma>))
        \<and> take n (snd (sbind (new_list vs) f \<sigma>)) = take n \<sigma>"
    using n by (simp add: sbind_def new_list_def)
qed

lemma keeps_sweep_store: "n \<le> nu \<Longrightarrow> keeps n (sweep_store nu ls)"
  by (induction ls)
     (auto intro!: keeps_sbind keeps_sreturn keeps_get_op keeps_get_list keeps_lift
        keeps_list_append)

lemma keeps_fvals_store: "keeps n (fvals_store xs)"
  by (induction xs rule: fvals_store.induct)
     (auto intro!: keeps_sbind keeps_sreturn keeps_get_op keeps_lift)

lemma keeps_g_store: "keeps n (g_store self c)"
  unfolding g_store_def
  by (intro keeps_new_list_bind keeps_sbind keeps_get_net keeps_lift keeps_get_op keeps_get_list
      keeps_list_append keeps_sweep_store keeps_new_list keeps_fvals_store keeps_sreturn)
     (simp_all add: split_def keeps_sbind keeps_get_net keeps_lift keeps_get_op keeps_get_list
      keeps_list_append keeps_sweep_store keeps_new_list keeps_fvals_store keeps_sreturn)

lemma g_store_frame:
  "length \<sigma> \<le> length (snd (g_store self c \<sigma>)) \<and> take (length \<sigma>) (snd (g_store self c \<sigma>)) = \<sigma>"
  using keeps_g_store[of "length \<sigma>" self c] by (simp add: keeps_def)

text \<open>Reading a store that has grown.\<close>

lemma deref_Inr: "deref a \<sigma> = Inr x \<longleftrightarrow> a < length \<sigma> \<and> \<sigma> ! a = x"
  by (auto simp: deref_def)

lemma deref_old: "a < length \<sigma> \<Longrightarrow> deref a (\<sigma> @ \<tau>) = Inr (\<sigma> ! a)"
  by (simp add: deref_def nth_append)

lemma get_op_old: "fst (get_op v \<sigma>) = Inr l \<Longrightarrow> get_op v (\<sigma> @ \<tau>) = (Inr l, \<sigma> @ \<tau>)"
  by (auto simp: get_op_def ebind_eq_Inr deref_Inr deref_old nth_append split: pyval.splits)

lemma get_list_old: "fst (get_list a \<sigma>) = Inr vs \<Longrightarrow> get_list a (\<sigma> @ \<tau>) = (Inr vs, \<sigma> @ \<tau>)"
  by (auto simp: get_list_def ebind_eq_Inr deref_Inr deref_old nth_append)

lemma get_net_old: "fst (get_net a \<sigma>) = Inr x \<Longrightarrow> get_net a (\<sigma> @ \<tau>) = (Inr x, \<sigma> @ \<tau>)"
  by (auto simp: get_net_def ebind_eq_Inr deref_Inr deref_old nth_append)

lemma get_list_new:
  "k < length \<tau> \<Longrightarrow> \<tau> ! k = CList vs \<Longrightarrow> get_list (length \<sigma> + k) (\<sigma> @ \<tau>) = (Inr vs, \<sigma> @ \<tau>)"
  by (simp add: get_list_def deref_def)

lemma list_append_new:
  "list_append (length \<sigma>) v (\<sigma> @ CList vs # rest) = (Inr (), \<sigma> @ CList (vs @ [v]) # rest)"
  by (simp add: list_append_def get_list_def deref_def)

lemma new_list_ext:
  "new_list vs (\<sigma> @ \<tau>) = (Inr (length \<sigma> + length \<tau>), \<sigma> @ (\<tau> @ [CList vs]))"
  by (simp add: new_list_def)

lemma emap_as_tensor: "emap as_tensor (map VTensor xs) = Inr xs"
  by (induction xs) (simp_all add: as_tensor_def)

lemma emap_Cons_eq_Inr:
  "emap f (x # xs) = Inr ys \<longleftrightarrow> (\<exists>y ys'. f x = Inr y \<and> emap f xs = Inr ys' \<and> ys = y # ys')"
  by (auto split: sum.splits)

lemma emap_append2:
  "emap f xs = Inr ys \<Longrightarrow> emap f xs' = Inr ys' \<Longrightarrow> emap f (xs @ xs') = Inr (ys @ ys')"
  by (induction xs arbitrary: ys) (auto simp: emap_Cons_eq_Inr simp del: emap.simps(2))

lemma emap_rev2: "emap f xs = Inr ys \<Longrightarrow> emap f (rev xs) = Inr (rev ys)"
  by (induction xs arbitrary: ys)
     (auto simp: emap_Cons_eq_Inr simp del: emap.simps(2) intro!: emap_append2)

lemma emap_drop2: "emap f xs = Inr ys \<Longrightarrow> emap f (drop n xs) = Inr (drop n ys)"
  by (induction xs arbitrary: ys n)
     (auto simp: emap_Cons_eq_Inr drop_Cons simp del: emap.simps(2) split: nat.splits)

lemma sweep_store_run:
  assumes "emap (\<lambda>v. fst (get_op v \<sigma>)) ls = Inr ops"
  shows "case sweep ops xs of
           Inr xs' \<Rightarrow> sweep_store (length \<sigma>) ls (\<sigma> @ CList (map VTensor xs) # rest)
                      = (Inr (), \<sigma> @ CList (map VTensor xs') # rest)
         | Inl e \<Rightarrow> fst (sweep_store (length \<sigma>) ls (\<sigma> @ CList (map VTensor xs) # rest)) = Inl e"
  using assms
proof (induction ls arbitrary: ops xs)
  case Nil
  then show ?case by (simp add: sreturn_def)
next
  case (Cons l ls)
  from Cons.prems obtain op ops' where op: "fst (get_op l \<sigma>) = Inr op"
    and rest: "emap (\<lambda>v. fst (get_op v \<sigma>)) ls = Inr ops'" and ops: "ops = op # ops'"
    by (auto simp: emap_Cons_eq_Inr simp del: emap.simps(2))
  let ?S = "\<sigma> @ CList (map VTensor xs) # rest"
  have 1: "get_op l ?S = (Inr op, ?S)" by (rule get_op_old[OF op])
  have 2: "get_list (length \<sigma>) ?S = (Inr (map VTensor xs), ?S)"
    using get_list_new[of 0 "CList (map VTensor xs) # rest" "map VTensor xs" \<sigma>] by simp
  show ?case
  proof (cases "affine_transpose op xs")
    case (Inl e)
    then show ?thesis
      by (simp add: ops sbind_def 1 2 lift_def emap_as_tensor)
  next
    case (Inr t)
    have 3: "list_append (length \<sigma>) (VTensor t) ?S
             = (Inr (), \<sigma> @ CList (map VTensor (xs @ [t])) # rest)"
      by (simp add: list_append_new)
    show ?thesis
      using Cons.IH[OF rest, of "xs @ [t]"]
      by (simp add: ops Inr sbind_def 1 2 3 lift_def emap_as_tensor split: sum.splits)
  qed
qed

lemma fvals_store_run:
  assumes "emap (\<lambda>v. fst (get_op v \<sigma>)) ls = Inr ops"
  shows "fvals_store (zip ls (zip (map (case_option VNone VTensor) ps)
                                 (map (case_option VNone VTensor) ns))) (\<sigma> @ \<tau>)
         = (emap (\<lambda>(l, nprev, n). ebind (fval l n nprev) as_val) (zip ops (zip ps ns)), \<sigma> @ \<tau>)"
  using assms
proof (induction ls arbitrary: ops ps ns)
  case Nil
  then show ?case by (simp add: sreturn_def)
next
  case (Cons l ls)
  from Cons.prems obtain op ops' where op: "fst (get_op l \<sigma>) = Inr op"
    and rest: "emap (\<lambda>v. fst (get_op v \<sigma>)) ls = Inr ops'" and ops: "ops = op # ops'"
    by (auto simp: emap_Cons_eq_Inr simp del: emap.simps(2))
  have 1: "get_op l (\<sigma> @ \<tau>) = (Inr op, \<sigma> @ \<tau>)" by (rule get_op_old[OF op])
  have conv: "as_tensor_opt (case_option VNone VTensor x) = Inr x" for x
    by (cases x) (simp_all add: as_tensor_opt_def)
  show ?case
  proof (cases ps)
    case Nil
    then show ?thesis by (simp add: sreturn_def ops)
  next
    case ps: (Cons p ps')
    show ?thesis
    proof (cases ns)
      case Nil
      then show ?thesis by (simp add: sreturn_def ops ps)
    next
      case ns: (Cons n ns')
      note ih = Cons.IH[OF rest, of ps' ns']
      show ?thesis
        by (cases "ebind (fval op n p) as_val")
           (simp_all add: ops ps ns 1 lift_def conv ih sbind_def sreturn_def
              split: sum.splits)
    qed
  qed
qed

lemma chain_of_Inr:
  assumes "chain_of \<sigma> self = Inr obj"
  obtains dn ll_attr refs where
    "fst (get_net self \<sigma>) = Inr (dn, ll_attr)"
    "fst (get_list dn \<sigma>) = Inr refs"
    "emap (\<lambda>v. fst (get_op v \<sigma>)) refs = Inr (dual_net obj)"
    "case ll_attr of
       None \<Rightarrow> last_layer obj = None
     | Some a \<Rightarrow> (\<exists>l. fst (get_op (VRef a) \<sigma>) = Inr l \<and> last_layer obj = Some l)"
  using assms
  by (auto simp: chain_of_def ebind_eq_Inr split: option.splits)

lemma chain_of_grown:
  assumes "chain_of \<sigma> self = Inr obj"
  shows "chain_of (\<sigma> @ \<tau>) self = Inr obj"
proof -
  from assms obtain dn ll_attr refs ops lst where
    n: "fst (get_net self \<sigma>) = Inr (dn, ll_attr)" and
    l: "fst (get_list dn \<sigma>) = Inr refs" and
    o: "emap (\<lambda>v. fst (get_op v \<sigma>)) refs = Inr ops" and
    ll: "(case ll_attr of None \<Rightarrow> Inr None
          | Some a \<Rightarrow> ebind (fst (get_op (VRef a) \<sigma>)) (\<lambda>l. Inr (Some l))) = Inr lst" and
    obj: "obj = \<lparr>dual_net = ops, last_layer = lst\<rparr>"
    by (auto simp: chain_of_def ebind_eq_Inr)
  have o': "emap (\<lambda>v. fst (get_op v (\<sigma> @ \<tau>))) refs = Inr ops"
    using o
  proof (induction refs arbitrary: ops)
    case Nil
    then show ?case by simp
  next
    case (Cons v refs)
    then show ?case by (auto simp: emap_Cons_eq_Inr get_op_old simp del: emap.simps(2))
  qed
  have ll': "(case ll_attr of None \<Rightarrow> Inr None
          | Some a \<Rightarrow> ebind (fst (get_op (VRef a) (\<sigma> @ \<tau>))) (\<lambda>l. Inr (Some l))) = Inr lst"
    using ll by (auto simp: ebind_eq_Inr get_op_old split: option.splits)
  show ?thesis
    by (simp add: chain_of_def get_net_old[OF n] get_list_old[OF l] o' ll' obj)
qed

lemma g_store_result:
  assumes "chain_of \<sigma> self = Inr obj"
  shows "fst (g_store self c \<sigma>) = g obj c"
proof -
  from assms obtain dn ll_attr refs where
    n: "fst (get_net self \<sigma>) = Inr (dn, ll_attr)" and
    l: "fst (get_list dn \<sigma>) = Inr refs" and
    o: "emap (\<lambda>v. fst (get_op v \<sigma>)) refs = Inr (dual_net obj)" and
    ll: "case ll_attr of
           None \<Rightarrow> last_layer obj = None
         | Some a \<Rightarrow> (\<exists>l. fst (get_op (VRef a) \<sigma>) = Inr l \<and> last_layer obj = Some l)"
    by (rule chain_of_Inr)
  let ?c = "tmap uminus c"
  note old = get_net_old[OF n] get_list_old[OF l]
  have new: "new_list vs (\<sigma> @ \<tau>) = (Inr (length \<sigma> + length \<tau>), \<sigma> @ (\<tau> @ [CList vs]))"
    for vs \<tau> by (rule new_list_ext)
  have new0: "new_list vs \<sigma> = (Inr (length \<sigma>), \<sigma> @ [CList vs])" for vs
    by (simp add: new_list_def)
  show ?thesis
  proof (cases ll_attr)
    case None
    then show ?thesis
      using ll by (simp add: g_store_def sbind_def new0 old lift_def g_def)
  next
    case (Some a)
    then obtain op where op: "fst (get_op (VRef a) \<sigma>) = Inr op" and lst: "last_layer obj = Some op"
      using ll by auto
    note oldop = get_op_old[OF op]
    have first: "get_list (length \<sigma>) (\<sigma> @ CList vs # rest) = (Inr vs, \<sigma> @ CList vs # rest)"
      for vs rest
      using get_list_new[of 0 "CList vs # rest" vs \<sigma>] by simp
    show ?thesis
    proof (cases "affine_transpose op [?c]")
      case (Inl e)
      then show ?thesis
        by (simp add: g_store_def sbind_def new0 old lift_def g_def Some oldop first lst
            py_first_def as_tensor_def)
    next
      case t: (Inr t)
      have ops: "emap (\<lambda>v. fst (get_op v \<sigma>)) (rev (drop (Suc 0) refs))
                 = Inr (rev (drop (Suc 0) (dual_net obj)))"
        by (intro emap_rev2 emap_drop2 o)
      note sw = sweep_store_run[OF ops, of "[?c, t]" "[CList (drop (Suc 0) refs)]"]
      have second: "get_list (Suc (length \<sigma>)) (\<sigma> @ x # CList vs # rest)
                    = (Inr vs, \<sigma> @ x # CList vs # rest)" for x vs rest
        using get_list_new[of 1 "x # CList vs # rest" vs \<sigma>] by simp
      show ?thesis
      proof (cases "sweep (rev (drop (Suc 0) (dual_net obj))) [?c, t]")
        case (Inl e)
        then have "fst (sweep_store (length \<sigma>) (rev (drop (Suc 0) refs))
                     (\<sigma> @ [CList [VTensor ?c, VTensor t], CList (drop (Suc 0) refs)])) = Inl e"
          using sw by simp
        then obtain \<sigma>' where "sweep_store (length \<sigma>) (rev (drop (Suc 0) refs))
                     (\<sigma> @ [CList [VTensor ?c, VTensor t], CList (drop (Suc 0) refs)]) = (Inl e, \<sigma>')"
          by (metis prod.collapse)
        then show ?thesis
          using Inl
          by (simp add: g_store_def sbind_def new0 old lift_def g_def Some oldop first lst
              py_first_def as_tensor_def t list_append_new new second)
      next
        case nu: (Inr xs')
        let ?conv = "case_option VNone VTensor"
        define NUS where "NUS = rev (map Some xs' @ [None])"
        define W where "W = map ?conv NUS"
        have Wf: "rev (map VTensor xs' @ [VNone]) = W"
          by (simp add: W_def NUS_def rev_map)
        have bl: "butlast W = map ?conv (butlast NUS)"
          unfolding W_def by (simp only: map_butlast)
        have dr: "drop (Suc 0) W = map ?conv (drop (Suc 0) NUS)"
          unfolding W_def by (simp only: drop_map)
        have run: "sweep_store (length \<sigma>) (rev (drop (Suc 0) refs))
                     (\<sigma> @ [CList [VTensor ?c, VTensor t], CList (drop (Suc 0) refs)])
                   = (Inr (), \<sigma> @ [CList (map VTensor xs'), CList (drop (Suc 0) refs)])"
          using sw nu by simp
        have chain: "emap (\<lambda>v. fst (get_op v \<sigma>)) (refs @ [VRef a]) = Inr (dual_net obj @ [op])"
          by (intro emap_append2 o) (simp add: op)
        have third: "get_list (Suc (Suc (length \<sigma>))) (\<sigma> @ x # y # CList vs # rest)
                    = (Inr vs, \<sigma> @ x # y # CList vs # rest)" for x y vs rest
          using get_list_new[of 2 "x # y # CList vs # rest" vs \<sigma>] by (simp add: eval_nat_numeral)
        have fourth: "get_list (Suc (Suc (Suc (length \<sigma>)))) (\<sigma> @ x # y # z # CList vs # rest)
                    = (Inr vs, \<sigma> @ x # y # z # CList vs # rest)" for x y z vs rest
          using get_list_new[of 3 "x # y # z # CList vs # rest" vs \<sigma>] by (simp add: eval_nat_numeral)
        have fifth: "get_list (Suc (Suc (Suc (Suc (length \<sigma>))))) (\<sigma> @ x # y # z # w # CList vs # rest)
                    = (Inr vs, \<sigma> @ x # y # z # w # CList vs # rest)" for x y z w vs rest
          using get_list_new[of 4 "x # y # z # w # CList vs # rest" vs \<sigma>] by (simp add: eval_nat_numeral)
        have sixth: "get_list (Suc (Suc (Suc (Suc (Suc (length \<sigma>))))))
                       (\<sigma> @ x # y # z # w # u # CList vs # rest)
                    = (Inr vs, \<sigma> @ x # y # z # w # u # CList vs # rest)" for x y z w u vs rest
          using get_list_new[of 5 "x # y # z # w # u # CList vs # rest" vs \<sigma>] by (simp add: eval_nat_numeral)
        note fv = fvals_store_run[OF chain, of "butlast NUS" "drop (Suc 0) NUS"]
        have "fst (g_store self c \<sigma>)
              = ebind (emap (\<lambda>(l, nprev, n). ebind (fval l n nprev) as_val)
                         (zip (dual_net obj @ [op]) (zip (butlast NUS) (drop (Suc 0) NUS))))
                  (\<lambda>ts. Inr (py_sum ts))"
          unfolding g_store_def
          by (simp add: sbind_def new0 old lift_def Some oldop first
              py_first_def as_tensor_def t list_append_new new second run third fourth fifth sixth
              Wf bl dr fv sreturn_def
              del: rev_append split: sum.splits)
        then show ?thesis
          by (simp add: g_def lst t nu Let_def NUS_def)
      qed
    qed
  qed
qed

lemma g_store_chain:
  assumes "chain_of \<sigma> self = Inr obj"
  shows "chain_of (snd (g_store self c \<sigma>)) self = Inr obj"
proof -
  have "snd (g_store self c \<sigma>) = \<sigma> @ drop (length \<sigma>) (snd (g_store self c \<sigma>))"
    using g_store_frame[of \<sigma> self c] by (metis append_take_drop_id)
  then show ?thesis
    using chain_of_grown[OF assms] by metis
qed

lemma g_all_store_run:
  assumes "chain_of \<sigma> self = Inr obj"
  shows "fst (g_all_store self cs \<sigma>) = map (g obj) cs
         \<and> length \<sigma> \<le> length (snd (g_all_store self cs \<sigma>))
         \<and> take (length \<sigma>) (snd (g_all_store self cs \<sigma>)) = \<sigma>
         \<and> chain_of (snd (g_all_store self cs \<sigma>)) self = Inr obj"
  using assms
proof (induction cs arbitrary: \<sigma>)
  case Nil
  then show ?case by simp
next
  case (Cons c cs)
  let ?s1 = "snd (g_store self c \<sigma>)"
  have r: "fst (g_store self c \<sigma>) = g obj c" by (rule g_store_result[OF Cons.prems])
  have f: "length \<sigma> \<le> length ?s1" "take (length \<sigma>) ?s1 = \<sigma>"
    using g_store_frame[of \<sigma> self c] by simp_all
  have c1: "chain_of ?s1 self = Inr obj" by (rule g_store_chain[OF Cons.prems])
  note ih = Cons.IH[OF c1]
  have t: "take (length \<sigma>) (snd (g_all_store self cs ?s1)) = \<sigma>"
  proof -
    have "take (length \<sigma>) (take (length ?s1) (snd (g_all_store self cs ?s1))) = \<sigma>"
      using ih f by simp
    then show ?thesis using f(1) by (simp add: min_def)
  qed
  show ?case
    using r ih f(1) t by (simp add: split_def Let_def)
qed

text \<open>Without the randomized projection the constructor reads no Cauchy sample.\<close>

lemma forward_pass_cauchy: "forward_pass (E\<lparr>cauchy := r\<rparr>) net zs = forward_pass E net zs"
  by (induction net arbitrary: zs) simp_all

lemma make_relu_cauchy:
  "\<not> projection_used kw \<Longrightarrow> make_relu (E\<lparr>cauchy := r\<rparr>) kw i net = make_relu E kw i net"
  unfolding make_relu_def
  by (rule arg_cong2[where f = ebind])
     (auto simp: projection_used_def split: option.splits tensor.splits prod.splits
        intro!: ext)

lemma make_dual_cauchy:
  "\<not> projection_used kw \<Longrightarrow>
   make_dual (E\<lparr>cauchy := r\<rparr>) kw zs dt i fi fo l net = make_dual E kw zs dt i fi fo l net"
  by (cases l) (simp_all add: make_dual_def make_relu_cauchy)

lemma build_cauchy:
  "\<not> projection_used kw \<Longrightarrow>
   build (E\<lparr>cauchy := r\<rparr>) kw zs dt len items net lst ws = build E kw zs dt len items net lst ws"
proof (induction items arbitrary: net lst ws)
  case Nil
  then show ?case by simp
next
  case (Cons x items)
  obtain i fi fo l where x: "x = (i, fi, fo, l)" by (cases x)
  show ?case
  proof (cases "make_dual E kw zs dt i fi fo l net")
    case (Inl e)
    then show ?thesis
      unfolding x by (simp add: make_dual_cauchy[OF Cons.prems])
  next
    case (Inr y)
    obtain dl net' w where y: "y = (dl, net', w)" by (cases y)
    show ?thesis
      unfolding x
      by (cases "emap (\<lambda>l. dual_apply l dl) net'")
         (simp_all add: make_dual_cauchy[OF Cons.prems] Inr y Cons.IH[OF Cons.prems])
  qed
qed

lemma init_cauchy:
  "\<not> projection_used kw \<Longrightarrow>
   DualNetBounds_init (E\<lparr>cauchy := r\<rparr>) net X eps kw = DualNetBounds_init E net X eps kw"
  by (simp add: DualNetBounds_init_def forward_pass_cauchy build_cauchy cong: if_cong)

text \<open>
  C8 (as amended).  Evaluating \<^verbatim>\<open>g(c)\<close> on a store that holds a chain returns what \<open>g\<close>
  returns for the chain and leaves every cell of the store as it was: the \<^verbatim>\<open>DualNetBounds\<close>
  object, the list \<^verbatim>\<open>dual_net\<close>, every operator with its stored fields and history lists.
  What \<^verbatim>\<open>g\<close> writes, it writes to lists it has made itself.  So a sequence of objectives
  evaluated one after the other on the same chain returns, for every objective, what one
  evaluation of it on the chain returns, and leaves the chain as it was.  These are the
  results on a chain built anew from the same arguments when the second construction
  draws the same Cauchy samples, as it does when the randomized projection is not used at
  all (\<^verbatim>\<open>l1_proj\<close> is \<^verbatim>\<open>None\<close> or \<^verbatim>\<open>l1_type\<close> is not \<^verbatim>\<open>'median'\<close>).
\<close>

theorem evaluation_preserves_chain:
  "(chain_of \<sigma> self = Inr obj \<longrightarrow>
      fst (g_store self c \<sigma>) = g obj c
      \<and> take (length \<sigma>) (snd (g_store self c \<sigma>)) = \<sigma>
      \<and> chain_of (snd (g_store self c \<sigma>)) self = Inr obj
      \<and> fst (g_all_store self cs \<sigma>) = map (g obj) cs
      \<and> take (length \<sigma>) (snd (g_all_store self cs \<sigma>)) = \<sigma>
      \<and> chain_of (snd (g_all_store self cs \<sigma>)) self = Inr obj)
   \<and> (chain_of \<sigma> self = Inr obj
      \<and> DualNetBounds_init E net X eps kw = Inr (obj, ws)
      \<and> (\<not> projection_used kw \<or> r = cauchy E)
      \<and> DualNetBounds_init (E\<lparr>cauchy := r\<rparr>) net X eps kw = Inr (fresh, ws')
      \<and> chain_of \<sigma>' self' = Inr fresh \<longrightarrow>
      fst (g_all_store self cs \<sigma>) = map (\<lambda>c. fst (g_store self' c \<sigma>')) cs)"
proof (intro conjI impI)
  assume a: "chain_of \<sigma> self = Inr obj"
  show "fst (g_store self c \<sigma>) = g obj c" by (rule g_store_result[OF a])
  show "take (length \<sigma>) (snd (g_store self c \<sigma>)) = \<sigma>"
    using g_store_frame[of \<sigma> self c] by simp
  show "chain_of (snd (g_store self c \<sigma>)) self = Inr obj" by (rule g_store_chain[OF a])
  show "fst (g_all_store self cs \<sigma>) = map (g obj) cs"
    and "take (length \<sigma>) (snd (g_all_store self cs \<sigma>)) = \<sigma>"
    and "chain_of (snd (g_all_store self cs \<sigma>)) self = Inr obj"
    using g_all_store_run[OF a, where cs = cs] by simp_all
next
  assume a: "chain_of \<sigma> self = Inr obj
      \<and> DualNetBounds_init E net X eps kw = Inr (obj, ws)
      \<and> (\<not> projection_used kw \<or> r = cauchy E)
      \<and> DualNetBounds_init (E\<lparr>cauchy := r\<rparr>) net X eps kw = Inr (fresh, ws')
      \<and> chain_of \<sigma>' self' = Inr fresh"
  have "DualNetBounds_init (E\<lparr>cauchy := r\<rparr>) net X eps kw = DualNetBounds_init E net X eps kw"
    using a init_cauchy[where kw = kw and E = E and r = r and net = net and X = X and eps = eps]
    by auto
  then have "fresh = obj" using a by simp
  then have "fst (g_store self' c \<sigma>') = g obj c" for c
    using a g_store_result[where \<sigma> = \<sigma>' and self = self' and obj = obj and c = c] by simp
  then show "fst (g_all_store self cs \<sigma>) = map (\<lambda>c. fst (g_store self' c \<sigma>')) cs"
    using a g_all_store_run[where \<sigma> = \<sigma> and self = self and obj = obj and cs = cs] by simp
qed

theorem evaluation_preserves_chain_witness:
  "chain_of
      [COp (DInfBall \<lparr>ball_epsilon = 2,
                     ball_nu_x = [T2 [[1, - 1]], T2 [[- 1, - 1]]],
                     ball_nu_1 = [T3 [[[1, 0], [0, 1]]], T3 [[[1, 3], [2, 4]]]]\<rparr>),
        COp (DLinear \<lparr>dl_layer = \<lparr>lin_weight = [[1, 2], [3, 4]], lin_bias = Some [5, 6]\<rparr>,
                    dl_bias = Some [T2 [[5, 6]]]\<rparr>),
        COp (DLinear \<lparr>dl_layer = \<lparr>lin_weight = [[1, 1]], lin_bias = None\<rparr>,
                    dl_bias = None\<rparr>),
        CList [VRef 0, VRef 1],
        CNet 3 (Some 2)] 4
    = Inr \<lparr>dual_net =
          [DInfBall \<lparr>ball_epsilon = 2,
                     ball_nu_x = [T2 [[1, - 1]], T2 [[- 1, - 1]]],
                     ball_nu_1 = [T3 [[[1, 0], [0, 1]]], T3 [[[1, 3], [2, 4]]]]\<rparr>,
           DLinear \<lparr>dl_layer = \<lparr>lin_weight = [[1, 2], [3, 4]], lin_bias = Some [5, 6]\<rparr>,
                    dl_bias = Some [T2 [[5, 6]]]\<rparr>],
        last_layer =
          Some (DLinear \<lparr>dl_layer = \<lparr>lin_weight = [[1, 1]], lin_bias = None\<rparr>,
                    dl_bias = None\<rparr>)\<rparr>
   \<and> DualNetBounds_init
      \<lparr>call_module = (\<lambda>l zs. case l of
           Linear lin \<Rightarrow>
             Inr (map (\<lambda>x. map2 (+) (linear (lin_weight lin) x)
                            (case lin_bias lin of
                               None \<Rightarrow> replicate (length (lin_weight lin)) 0
                             | Some b \<Rightarrow> b)) (last zs))
         | _ \<Rightarrow> Inr (last zs)),
       transpose_all = (\<lambda>n. Inr n), cauchy = (\<lambda>i j. 1)\<rparr>
      [Linear \<lparr>lin_weight = [[1, 2], [3, 4]], lin_bias = Some [5, 6]\<rparr>,
        Linear \<lparr>lin_weight = [[1, 1]], lin_bias = None\<rparr>] [[1, - 1]] 2
      \<lparr>alpha_grad = False, scatter_grad = False, l1_proj = None, l1_eps = None,
        m_bounds = None, batchnorm = False, l1_type = ''exact''\<rparr>
    = Inr (\<lparr>dual_net =
          [DInfBall \<lparr>ball_epsilon = 2,
                     ball_nu_x = [T2 [[1, - 1]], T2 [[- 1, - 1]]],
                     ball_nu_1 = [T3 [[[1, 0], [0, 1]]], T3 [[[1, 3], [2, 4]]]]\<rparr>,
           DLinear \<lparr>dl_layer = \<lparr>lin_weight = [[1, 2], [3, 4]], lin_bias = Some [5, 6]\<rparr>,
                    dl_bias = Some [T2 [[5, 6]]]\<rparr>],
        last_layer =
          Some (DLinear \<lparr>dl_layer = \<lparr>lin_weight = [[1, 1]], lin_bias = None\<rparr>,
                    dl_bias = None\<rparr>)\<rparr>, [])
   \<and> \<not> projection_used
      \<lparr>alpha_grad = False, scatter_grad = False, l1_proj = None, l1_eps = None,
        m_bounds = None, batchnorm = False, l1_type = ''exact''\<rparr>
   \<and> chain_of
      [CNet 1 (Some 4),
        CList [VRef 2, VRef 3],
        COp (DInfBall \<lparr>ball_epsilon = 2,
                     ball_nu_x = [T2 [[1, - 1]], T2 [[- 1, - 1]]],
                     ball_nu_1 = [T3 [[[1, 0], [0, 1]]], T3 [[[1, 3], [2, 4]]]]\<rparr>),
        COp (DLinear \<lparr>dl_layer = \<lparr>lin_weight = [[1, 2], [3, 4]], lin_bias = Some [5, 6]\<rparr>,
                    dl_bias = Some [T2 [[5, 6]]]\<rparr>),
        COp (DLinear \<lparr>dl_layer = \<lparr>lin_weight = [[1, 1]], lin_bias = None\<rparr>,
                    dl_bias = None\<rparr>)] 0
    = Inr \<lparr>dual_net =
          [DInfBall \<lparr>ball_epsilon = 2,
                     ball_nu_x = [T2 [[1, - 1]], T2 [[- 1, - 1]]],
                     ball_nu_1 = [T3 [[[1, 0], [0, 1]]], T3 [[[1, 3], [2, 4]]]]\<rparr>,
           DLinear \<lparr>dl_layer = \<lparr>lin_weight = [[1, 2], [3, 4]], lin_bias = Some [5, 6]\<rparr>,
                    dl_bias = Some [T2 [[5, 6]]]\<rparr>],
        last_layer =
          Some (DLinear \<lparr>dl_layer = \<lparr>lin_weight = [[1, 1]], lin_bias = None\<rparr>,
                    dl_bias = None\<rparr>)\<rparr>
   \<and> fst (g_all_store 4 [T3 [[[1]]], T3 [[[- 1]]], T3 [[[1]]]]
      [COp (DInfBall \<lparr>ball_epsilon = 2,
                     ball_nu_x = [T2 [[1, - 1]], T2 [[- 1, - 1]]],
                     ball_nu_1 = [T3 [[[1, 0], [0, 1]]], T3 [[[1, 3], [2, 4]]]]\<rparr>),
        COp (DLinear \<lparr>dl_layer = \<lparr>lin_weight = [[1, 2], [3, 4]], lin_bias = Some [5, 6]\<rparr>,
                    dl_bias = Some [T2 [[5, 6]]]\<rparr>),
        COp (DLinear \<lparr>dl_layer = \<lparr>lin_weight = [[1, 1]], lin_bias = None\<rparr>,
                    dl_bias = None\<rparr>),
        CList [VRef 0, VRef 1],
        CNet 3 (Some 2)])
    = [Inr (T2 [[- 11]]), Inr (T2 [[- 29]]), Inr (T2 [[- 11]])]
   \<and> take 5 (snd (g_all_store 4 [T3 [[[1]]], T3 [[[- 1]]], T3 [[[1]]]]
      [COp (DInfBall \<lparr>ball_epsilon = 2,
                     ball_nu_x = [T2 [[1, - 1]], T2 [[- 1, - 1]]],
                     ball_nu_1 = [T3 [[[1, 0], [0, 1]]], T3 [[[1, 3], [2, 4]]]]\<rparr>),
        COp (DLinear \<lparr>dl_layer = \<lparr>lin_weight = [[1, 2], [3, 4]], lin_bias = Some [5, 6]\<rparr>,
                    dl_bias = Some [T2 [[5, 6]]]\<rparr>),
        COp (DLinear \<lparr>dl_layer = \<lparr>lin_weight = [[1, 1]], lin_bias = None\<rparr>,
                    dl_bias = None\<rparr>),
        CList [VRef 0, VRef 1],
        CNet 3 (Some 2)]))
    = [COp (DInfBall \<lparr>ball_epsilon = 2,
                     ball_nu_x = [T2 [[1, - 1]], T2 [[- 1, - 1]]],
                     ball_nu_1 = [T3 [[[1, 0], [0, 1]]], T3 [[[1, 3], [2, 4]]]]\<rparr>),
        COp (DLinear \<lparr>dl_layer = \<lparr>lin_weight = [[1, 2], [3, 4]], lin_bias = Some [5, 6]\<rparr>,
                    dl_bias = Some [T2 [[5, 6]]]\<rparr>),
        COp (DLinear \<lparr>dl_layer = \<lparr>lin_weight = [[1, 1]], lin_bias = None\<rparr>,
                    dl_bias = None\<rparr>),
        CList [VRef 0, VRef 1],
        CNet 3 (Some 2)]
   \<and> map (\<lambda>c. fst (g_store 0 c
      [CNet 1 (Some 4),
        CList [VRef 2, VRef 3],
        COp (DInfBall \<lparr>ball_epsilon = 2,
                     ball_nu_x = [T2 [[1, - 1]], T2 [[- 1, - 1]]],
                     ball_nu_1 = [T3 [[[1, 0], [0, 1]]], T3 [[[1, 3], [2, 4]]]]\<rparr>),
        COp (DLinear \<lparr>dl_layer = \<lparr>lin_weight = [[1, 2], [3, 4]], lin_bias = Some [5, 6]\<rparr>,
                    dl_bias = Some [T2 [[5, 6]]]\<rparr>),
        COp (DLinear \<lparr>dl_layer = \<lparr>lin_weight = [[1, 1]], lin_bias = None\<rparr>,
                    dl_bias = None\<rparr>)])) [T3 [[[1]]], T3 [[[- 1]]], T3 [[[1]]]]
    = [Inr (T2 [[- 11]]), Inr (T2 [[- 29]]), Inr (T2 [[- 11]])]"
proof -
  let ?E = "\<lparr>call_module = (\<lambda>l zs. case l of
           Linear lin \<Rightarrow>
             Inr (map (\<lambda>x. map2 (+) (linear (lin_weight lin) x)
                            (case lin_bias lin of
                               None \<Rightarrow> replicate (length (lin_weight lin)) 0
                             | Some b \<Rightarrow> b)) (last zs))
         | _ \<Rightarrow> Inr (last zs)),
       transpose_all = (\<lambda>n. Inr n), cauchy = (\<lambda>i j. 1)\<rparr>"
  let ?net = "[Linear \<lparr>lin_weight = [[1, 2], [3, 4]], lin_bias = Some [5, 6]\<rparr>,
        Linear \<lparr>lin_weight = [[1, 1]], lin_bias = None\<rparr>]"
  let ?kw = "\<lparr>alpha_grad = False, scatter_grad = False, l1_proj = None, l1_eps = None,
        m_bounds = None, batchnorm = False, l1_type = ''exact''\<rparr>"
  let ?obj = "\<lparr>dual_net =
          [DInfBall \<lparr>ball_epsilon = 2,
                     ball_nu_x = [T2 [[1, - 1]], T2 [[- 1, - 1]]],
                     ball_nu_1 = [T3 [[[1, 0], [0, 1]]], T3 [[[1, 3], [2, 4]]]]\<rparr>,
           DLinear \<lparr>dl_layer = \<lparr>lin_weight = [[1, 2], [3, 4]], lin_bias = Some [5, 6]\<rparr>,
                    dl_bias = Some [T2 [[5, 6]]]\<rparr>],
        last_layer =
          Some (DLinear \<lparr>dl_layer = \<lparr>lin_weight = [[1, 1]], lin_bias = None\<rparr>,
                    dl_bias = None\<rparr>)\<rparr>"
  let ?s = "[COp (DInfBall \<lparr>ball_epsilon = 2,
                     ball_nu_x = [T2 [[1, - 1]], T2 [[- 1, - 1]]],
                     ball_nu_1 = [T3 [[[1, 0], [0, 1]]], T3 [[[1, 3], [2, 4]]]]\<rparr>),
        COp (DLinear \<lparr>dl_layer = \<lparr>lin_weight = [[1, 2], [3, 4]], lin_bias = Some [5, 6]\<rparr>,
                    dl_bias = Some [T2 [[5, 6]]]\<rparr>),
        COp (DLinear \<lparr>dl_layer = \<lparr>lin_weight = [[1, 1]], lin_bias = None\<rparr>,
                    dl_bias = None\<rparr>),
        CList [VRef 0, VRef 1],
        CNet 3 (Some 2)]"
  let ?s' = "[CNet 1 (Some 4),
        CList [VRef 2, VRef 3],
        COp (DInfBall \<lparr>ball_epsilon = 2,
                     ball_nu_x = [T2 [[1, - 1]], T2 [[- 1, - 1]]],
                     ball_nu_1 = [T3 [[[1, 0], [0, 1]]], T3 [[[1, 3], [2, 4]]]]\<rparr>),
        COp (DLinear \<lparr>dl_layer = \<lparr>lin_weight = [[1, 2], [3, 4]], lin_bias = Some [5, 6]\<rparr>,
                    dl_bias = Some [T2 [[5, 6]]]\<rparr>),
        COp (DLinear \<lparr>dl_layer = \<lparr>lin_weight = [[1, 1]], lin_bias = None\<rparr>,
                    dl_bias = None\<rparr>)]"
  let ?cs = "[T3 [[[1]]], T3 [[[- 1]]], T3 [[[1]]]]"
  have c0: "chain_of ?s 4 = Inr ?obj"
    by (simp add: chain_of_def get_net_def get_list_def get_op_def deref_def eval_nat_numeral)
  have c1: "chain_of ?s' 0 = Inr ?obj"
    by (simp add: chain_of_def get_net_def get_list_def get_op_def deref_def eval_nat_numeral)
  have init: "DualNetBounds_init ?E ?net [[1, - 1]] 2 ?kw = Inr (?obj, [])"
    by (simp add: init_simps eval_nat_numeral)
  have np: "\<not> projection_used ?kw"
    by (simp add: projection_used_def)
  have init': "DualNetBounds_init (?E\<lparr>cauchy := \<lambda>i j. 7\<rparr>) ?net [[1, - 1]] 2 ?kw = Inr (?obj, [])"
    by (simp add: init_simps eval_nat_numeral)
  have g1: "g ?obj (T3 [[[1]]]) = Inr (T2 [[- 11]])"
    by (simp add: g_def affine_transpose_def DualLinear_affine_transpose_def
        DualReshape_affine_transpose_def view_features_def DualReLU_affine_def py_last_def
        fval_def
        InfBall_fval_def ball_direction_def DualLinear_fval_def bias_fval_def
        DualReLUProj_fval_def relu_direction_def DualReshape_fval_def zero_fval_def
        neg_matmul_vec_def as_val_def linear_def dot_def py_sum_def tadd_def tsub_def tmul_def
        bcast2_def unsqueeze1_def Let_def)
  have g2: "g ?obj (T3 [[[- 1]]]) = Inr (T2 [[- 29]])"
    by (simp add: g_def affine_transpose_def DualLinear_affine_transpose_def
        DualReshape_affine_transpose_def view_features_def DualReLU_affine_def py_last_def
        fval_def
        InfBall_fval_def ball_direction_def DualLinear_fval_def bias_fval_def
        DualReLUProj_fval_def relu_direction_def DualReshape_fval_def zero_fval_def
        neg_matmul_vec_def as_val_def linear_def dot_def py_sum_def tadd_def tsub_def tmul_def
        bcast2_def unsqueeze1_def Let_def)
  note inst = evaluation_preserves_chain[where \<sigma> = ?s and self = 4 and obj = ?obj and cs = ?cs
      and E = ?E and net = ?net and X = "[[1, - 1]]" and eps = 2 and kw = ?kw and ws = "[]"
      and r = "\<lambda>i j. 7" and fresh = ?obj and ws' = "[]" and \<sigma>' = ?s' and self' = 0
      and c = "T3 [[[1]]]"]
  have 1: "fst (g_all_store 4 ?cs ?s) = map (g ?obj) ?cs"
    and 2: "take (length ?s) (snd (g_all_store 4 ?cs ?s)) = ?s"
    using inst c0 by blast+
  have 3: "fst (g_all_store 4 ?cs ?s) = map (\<lambda>c. fst (g_store 0 c ?s')) ?cs"
    using inst c0 init np init' c1 by blast
  have r1: "fst (g_all_store 4 ?cs ?s) = [Inr (T2 [[- 11]]), Inr (T2 [[- 29]]), Inr (T2 [[- 11]])]"
    unfolding 1 by (simp only: list.map g1 g2)
  have r2: "take 5 (snd (g_all_store 4 ?cs ?s)) = ?s"
    using 2 by (simp only: list.size One_nat_def) (simp add: eval_nat_numeral)
  have r3: "map (\<lambda>c. fst (g_store 0 c ?s')) ?cs = [Inr (T2 [[- 11]]), Inr (T2 [[- 29]]), Inr (T2 [[- 11]])]"
    using 3 r1 by simp
  show ?thesis
    by (intro conjI) (fact c0 init np c1 r1 r2 r3)+
qed

text \<open>
  C8 as stated, for every constructed chain and a chain built anew, fails when the
  randomized projection is used: the second construction draws its Cauchy samples anew,
  the bounds of the second ReLU layer depend on them, and so do its slopes.  For two
  ReLU layers with \<^verbatim>\<open>l1_proj = 1\<close>, samples \<open>1\<close> and samples \<open>2\<close> give the slopes
  \<open>4/5\<close> and \<open>3/4\<close>, and \<^verbatim>\<open>g\<close> returns \<open>-3\<close> on one chain and \<open>-99/32\<close> on the other.
\<close>

theorem fresh_chain_other_samples_counterexample:
  "DualNetBounds_init
      \<lparr>call_module = (\<lambda>l zs. Inr (last zs)), transpose_all = (\<lambda>n. Inr n),
       cauchy = (\<lambda>i j. 1)\<rparr>
      [ReLU, ReLU, Custom ''Flatten''] [[1, - 1]] 2
      \<lparr>alpha_grad = False, scatter_grad = False, l1_proj = Some 1, l1_eps = None,
        m_bounds = None, batchnorm = False, l1_type = ''median''\<rparr>
    = Inr (\<lparr>dual_net =
          [DInfBall
             \<lparr>ball_epsilon = 2,
              ball_nu_x = [T2 [[1, - 1]], T2 [[3 / 4, - (1 / 4)]], T2 [[3 / 5, - (1 / 7)]]],
              ball_nu_1 = [T3 [[[1, 0], [0, 1]]], T3 [[[3 / 4, 0], [0, 1 / 4]]],
                           T3 [[[3 / 5, 0], [0, 1 / 7]]]]\<rparr>,
           DReLUProj
             \<lparr>proj_I_empty = False,
              proj_nus = [T3 [[[- (3 / 4), - (3 / 4)]]], T3 [[[- (3 / 5), - (3 / 7)]]]],
              proj_nu_ones = [T2 [[- (3 / 4), - (3 / 4)]], T2 [[- (3 / 5), - (3 / 7)]]],
              proj_d = [[3 / 4, 1 / 4]], proj_I = [[True, True]], proj_zl = [[- 1, - 3]]\<rparr>,
           DReLUProj
             \<lparr>proj_I_empty = False,
              proj_nus = [T3 [[[- (3 / 5), - (3 / 7)]]]],
              proj_nu_ones = [T2 [[- (3 / 5), - (3 / 7)]]],
              proj_d = [[4 / 5, 4 / 7]], proj_I = [[True, True]],
              proj_zl = [[- (3 / 4), - (3 / 4)]]\<rparr>],
        last_layer = Some (DReshape \<lparr>rs_in_f = 2, rs_out_f = 2\<rparr>)\<rparr>, [])
   \<and> DualNetBounds_init
      \<lparr>call_module = (\<lambda>l zs. Inr (last zs)), transpose_all = (\<lambda>n. Inr n),
       cauchy = (\<lambda>i j. 2)\<rparr>
      [ReLU, ReLU, Custom ''Flatten''] [[1, - 1]] 2
      \<lparr>alpha_grad = False, scatter_grad = False, l1_proj = Some 1, l1_eps = None,
        m_bounds = None, batchnorm = False, l1_type = ''median''\<rparr>
    = Inr (\<lparr>dual_net =
          [DInfBall
             \<lparr>ball_epsilon = 2,
              ball_nu_x = [T2 [[1, - 1]], T2 [[3 / 4, - (1 / 4)]], T2 [[9 / 16, - (11 / 80)]]],
              ball_nu_1 = [T3 [[[1, 0], [0, 1]]], T3 [[[3 / 4, 0], [0, 1 / 4]]],
                           T3 [[[9 / 16, 0], [0, 11 / 80]]]]\<rparr>,
           DReLUProj
             \<lparr>proj_I_empty = False,
              proj_nus = [T3 [[[- (3 / 2), - (3 / 2)]]], T3 [[[- (9 / 8), - (33 / 40)]]]],
              proj_nu_ones = [T2 [[- (3 / 4), - (3 / 4)]], T2 [[- (9 / 16), - (33 / 80)]]],
              proj_d = [[3 / 4, 1 / 4]], proj_I = [[True, True]], proj_zl = [[- 1, - 3]]\<rparr>,
           DReLUProj
             \<lparr>proj_I_empty = False,
              proj_nus = [T3 [[[- (27 / 16), - (99 / 80)]]]],
              proj_nu_ones = [T2 [[- (27 / 32), - (99 / 160)]]],
              proj_d = [[3 / 4, 11 / 20]], proj_I = [[True, True]],
              proj_zl = [[- (9 / 8), - (9 / 8)]]\<rparr>],
        last_layer = Some (DReshape \<lparr>rs_in_f = 2, rs_out_f = 2\<rparr>)\<rparr>, [])
   \<and> g \<lparr>dual_net =
          [DInfBall
             \<lparr>ball_epsilon = 2,
              ball_nu_x = [T2 [[1, - 1]], T2 [[3 / 4, - (1 / 4)]], T2 [[3 / 5, - (1 / 7)]]],
              ball_nu_1 = [T3 [[[1, 0], [0, 1]]], T3 [[[3 / 4, 0], [0, 1 / 4]]],
                           T3 [[[3 / 5, 0], [0, 1 / 7]]]]\<rparr>,
           DReLUProj
             \<lparr>proj_I_empty = False,
              proj_nus = [T3 [[[- (3 / 4), - (3 / 4)]]], T3 [[[- (3 / 5), - (3 / 7)]]]],
              proj_nu_ones = [T2 [[- (3 / 4), - (3 / 4)]], T2 [[- (3 / 5), - (3 / 7)]]],
              proj_d = [[3 / 4, 1 / 4]], proj_I = [[True, True]], proj_zl = [[- 1, - 3]]\<rparr>,
           DReLUProj
             \<lparr>proj_I_empty = False,
              proj_nus = [T3 [[[- (3 / 5), - (3 / 7)]]]],
              proj_nu_ones = [T2 [[- (3 / 5), - (3 / 7)]]],
              proj_d = [[4 / 5, 4 / 7]], proj_I = [[True, True]],
              proj_zl = [[- (3 / 4), - (3 / 4)]]\<rparr>],
        last_layer = Some (DReshape \<lparr>rs_in_f = 2, rs_out_f = 2\<rparr>)\<rparr> (T3 [[[- 1, 0]]]) = Inr (T2 [[- 3]])
   \<and> g \<lparr>dual_net =
          [DInfBall
             \<lparr>ball_epsilon = 2,
              ball_nu_x = [T2 [[1, - 1]], T2 [[3 / 4, - (1 / 4)]], T2 [[9 / 16, - (11 / 80)]]],
              ball_nu_1 = [T3 [[[1, 0], [0, 1]]], T3 [[[3 / 4, 0], [0, 1 / 4]]],
                           T3 [[[9 / 16, 0], [0, 11 / 80]]]]\<rparr>,
           DReLUProj
             \<lparr>proj_I_empty = False,
              proj_nus = [T3 [[[- (3 / 2), - (3 / 2)]]], T3 [[[- (9 / 8), - (33 / 40)]]]],
              proj_nu_ones = [T2 [[- (3 / 4), - (3 / 4)]], T2 [[- (9 / 16), - (33 / 80)]]],
              proj_d = [[3 / 4, 1 / 4]], proj_I = [[True, True]], proj_zl = [[- 1, - 3]]\<rparr>,
           DReLUProj
             \<lparr>proj_I_empty = False,
              proj_nus = [T3 [[[- (27 / 16), - (99 / 80)]]]],
              proj_nu_ones = [T2 [[- (27 / 32), - (99 / 160)]]],
              proj_d = [[3 / 4, 11 / 20]], proj_I = [[True, True]],
              proj_zl = [[- (9 / 8), - (9 / 8)]]\<rparr>],
        last_layer = Some (DReshape \<lparr>rs_in_f = 2, rs_out_f = 2\<rparr>)\<rparr> (T3 [[[- 1, 0]]]) = Inr (T2 [[- (99 / 32)]])"
proof -
  have 1: "DualNetBounds_init
      \<lparr>call_module = (\<lambda>l zs. Inr (last zs)), transpose_all = (\<lambda>n. Inr n),
       cauchy = (\<lambda>i j. 1)\<rparr>
      [ReLU, ReLU, Custom ''Flatten''] [[1, - 1]] 2
      \<lparr>alpha_grad = False, scatter_grad = False, l1_proj = Some 1, l1_eps = None,
        m_bounds = None, batchnorm = False, l1_type = ''median''\<rparr>
    = Inr (\<lparr>dual_net =
          [DInfBall
             \<lparr>ball_epsilon = 2,
              ball_nu_x = [T2 [[1, - 1]], T2 [[3 / 4, - (1 / 4)]], T2 [[3 / 5, - (1 / 7)]]],
              ball_nu_1 = [T3 [[[1, 0], [0, 1]]], T3 [[[3 / 4, 0], [0, 1 / 4]]],
                           T3 [[[3 / 5, 0], [0, 1 / 7]]]]\<rparr>,
           DReLUProj
             \<lparr>proj_I_empty = False,
              proj_nus = [T3 [[[- (3 / 4), - (3 / 4)]]], T3 [[[- (3 / 5), - (3 / 7)]]]],
              proj_nu_ones = [T2 [[- (3 / 4), - (3 / 4)]], T2 [[- (3 / 5), - (3 / 7)]]],
              proj_d = [[3 / 4, 1 / 4]], proj_I = [[True, True]], proj_zl = [[- 1, - 3]]\<rparr>,
           DReLUProj
             \<lparr>proj_I_empty = False,
              proj_nus = [T3 [[[- (3 / 5), - (3 / 7)]]]],
              proj_nu_ones = [T2 [[- (3 / 5), - (3 / 7)]]],
              proj_d = [[4 / 5, 4 / 7]], proj_I = [[True, True]],
              proj_zl = [[- (3 / 4), - (3 / 4)]]\<rparr>],
        last_layer = Some (DReshape \<lparr>rs_in_f = 2, rs_out_f = 2\<rparr>)\<rparr>, [])"
    by (simp add: init_simps eval_nat_numeral DualReLUProj_apply_def DualReLUProj_fval_def
        abs_median_dim1_def abs_median1_def median_def tdiv_def)
  have 2: "DualNetBounds_init
      \<lparr>call_module = (\<lambda>l zs. Inr (last zs)), transpose_all = (\<lambda>n. Inr n),
       cauchy = (\<lambda>i j. 2)\<rparr>
      [ReLU, ReLU, Custom ''Flatten''] [[1, - 1]] 2
      \<lparr>alpha_grad = False, scatter_grad = False, l1_proj = Some 1, l1_eps = None,
        m_bounds = None, batchnorm = False, l1_type = ''median''\<rparr>
    = Inr (\<lparr>dual_net =
          [DInfBall
             \<lparr>ball_epsilon = 2,
              ball_nu_x = [T2 [[1, - 1]], T2 [[3 / 4, - (1 / 4)]], T2 [[9 / 16, - (11 / 80)]]],
              ball_nu_1 = [T3 [[[1, 0], [0, 1]]], T3 [[[3 / 4, 0], [0, 1 / 4]]],
                           T3 [[[9 / 16, 0], [0, 11 / 80]]]]\<rparr>,
           DReLUProj
             \<lparr>proj_I_empty = False,
              proj_nus = [T3 [[[- (3 / 2), - (3 / 2)]]], T3 [[[- (9 / 8), - (33 / 40)]]]],
              proj_nu_ones = [T2 [[- (3 / 4), - (3 / 4)]], T2 [[- (9 / 16), - (33 / 80)]]],
              proj_d = [[3 / 4, 1 / 4]], proj_I = [[True, True]], proj_zl = [[- 1, - 3]]\<rparr>,
           DReLUProj
             \<lparr>proj_I_empty = False,
              proj_nus = [T3 [[[- (27 / 16), - (99 / 80)]]]],
              proj_nu_ones = [T2 [[- (27 / 32), - (99 / 160)]]],
              proj_d = [[3 / 4, 11 / 20]], proj_I = [[True, True]],
              proj_zl = [[- (9 / 8), - (9 / 8)]]\<rparr>],
        last_layer = Some (DReshape \<lparr>rs_in_f = 2, rs_out_f = 2\<rparr>)\<rparr>, [])"
    by (simp add: init_simps eval_nat_numeral DualReLUProj_apply_def DualReLUProj_fval_def
        abs_median_dim1_def abs_median1_def median_def tdiv_def)
  have 3: "g \<lparr>dual_net =
          [DInfBall
             \<lparr>ball_epsilon = 2,
              ball_nu_x = [T2 [[1, - 1]], T2 [[3 / 4, - (1 / 4)]], T2 [[3 / 5, - (1 / 7)]]],
              ball_nu_1 = [T3 [[[1, 0], [0, 1]]], T3 [[[3 / 4, 0], [0, 1 / 4]]],
                           T3 [[[3 / 5, 0], [0, 1 / 7]]]]\<rparr>,
           DReLUProj
             \<lparr>proj_I_empty = False,
              proj_nus = [T3 [[[- (3 / 4), - (3 / 4)]]], T3 [[[- (3 / 5), - (3 / 7)]]]],
              proj_nu_ones = [T2 [[- (3 / 4), - (3 / 4)]], T2 [[- (3 / 5), - (3 / 7)]]],
              proj_d = [[3 / 4, 1 / 4]], proj_I = [[True, True]], proj_zl = [[- 1, - 3]]\<rparr>,
           DReLUProj
             \<lparr>proj_I_empty = False,
              proj_nus = [T3 [[[- (3 / 5), - (3 / 7)]]]],
              proj_nu_ones = [T2 [[- (3 / 5), - (3 / 7)]]],
              proj_d = [[4 / 5, 4 / 7]], proj_I = [[True, True]],
              proj_zl = [[- (3 / 4), - (3 / 4)]]\<rparr>],
        last_layer = Some (DReshape \<lparr>rs_in_f = 2, rs_out_f = 2\<rparr>)\<rparr> (T3 [[[- 1, 0]]]) = Inr (T2 [[- 3]])"
    by (simp add: g_def affine_transpose_def DualLinear_affine_transpose_def
        DualReshape_affine_transpose_def view_features_def DualReLU_affine_def py_last_def
        fval_def
        InfBall_fval_def ball_direction_def DualLinear_fval_def bias_fval_def
        DualReLUProj_fval_def relu_direction_def DualReshape_fval_def zero_fval_def
        neg_matmul_vec_def as_val_def linear_def dot_def py_sum_def tadd_def tsub_def tmul_def
        bcast2_def unsqueeze1_def Let_def)
  have 4: "g \<lparr>dual_net =
          [DInfBall
             \<lparr>ball_epsilon = 2,
              ball_nu_x = [T2 [[1, - 1]], T2 [[3 / 4, - (1 / 4)]], T2 [[9 / 16, - (11 / 80)]]],
              ball_nu_1 = [T3 [[[1, 0], [0, 1]]], T3 [[[3 / 4, 0], [0, 1 / 4]]],
                           T3 [[[9 / 16, 0], [0, 11 / 80]]]]\<rparr>,
           DReLUProj
             \<lparr>proj_I_empty = False,
              proj_nus = [T3 [[[- (3 / 2), - (3 / 2)]]], T3 [[[- (9 / 8), - (33 / 40)]]]],
              proj_nu_ones = [T2 [[- (3 / 4), - (3 / 4)]], T2 [[- (9 / 16), - (33 / 80)]]],
              proj_d = [[3 / 4, 1 / 4]], proj_I = [[True, True]], proj_zl = [[- 1, - 3]]\<rparr>,
           DReLUProj
             \<lparr>proj_I_empty = False,
              proj_nus = [T3 [[[- (27 / 16), - (99 / 80)]]]],
              proj_nu_ones = [T2 [[- (27 / 32), - (99 / 160)]]],
              proj_d = [[3 / 4, 11 / 20]], proj_I = [[True, True]],
              proj_zl = [[- (9 / 8), - (9 / 8)]]\<rparr>],
        last_layer = Some (DReshape \<lparr>rs_in_f = 2, rs_out_f = 2\<rparr>)\<rparr> (T3 [[[- 1, 0]]]) = Inr (T2 [[- (99 / 32)]])"
    by (simp add: g_def affine_transpose_def DualLinear_affine_transpose_def
        DualReshape_affine_transpose_def view_features_def DualReLU_affine_def py_last_def
        fval_def
        InfBall_fval_def ball_direction_def DualLinear_fval_def bias_fval_def
        DualReLUProj_fval_def relu_direction_def DualReshape_fval_def zero_fval_def
        neg_matmul_vec_def as_val_def linear_def dot_def py_sum_def tadd_def tsub_def tmul_def
        bcast2_def unsqueeze1_def Let_def)
  show ?thesis
    by (intro conjI) (fact 1 2 3 4)+
qed

subsection \<open>The bound of an affine network and its closed form\<close>

lemmas dense_simps = rewire_def DualDense_apply_def sub_apply_def DualDense_affine_def
  DualDense_affine_transpose_def dense_sum_def py_suffix_def sub_affine_def
  sub_affine_transpose_def DualDense_fval_def sub_fval_def as_val_def

lemmas cf_simps = closed_form_def cf_direction_def cf_route_def cf_part_transpose_def
  cf_each_def cf_add_def cf_zero_def cf_features_def cf_transpose_linear_def cf_dot_def
  cf_biases_def cf_part_bias_def cf_bias_term_def cf_ball_term_def cf_madd_def
  List.map_filter_def

text \<open>
  A network of two residual blocks, the second with no entry for its own input:
  \<^verbatim>\<open>[Dense(A), Dense(S, None)]\<close>, that is \<open>z\<^sub>1 = A x + a\<close> and \<open>z\<^sub>2 = S x + s\<close>.  The constructor
  returns: the first block gets \<^verbatim>\<open>dual_ts = [S, A]\<close> and the second \<^verbatim>\<open>dual_ts = [None]\<close>.
\<close>

lemma no_direct_path_chain:
  assumes "DualNetBounds_init E [Dense [WLinear A], Dense [WLinear S, WNone]] X eps kw
             = Inr (obj, ws)"
  shows "\<exists>b ds ds' S' A'.
           dual_net obj = [DInfBall b,
                           DDense \<lparr>dd_duals = ds,
                                   dd_dual_ts = [Some (SLinear S'), Some (SLinear A')]\<rparr>]
         \<and> last_layer obj = Some (DDense \<lparr>dd_duals = ds', dd_dual_ts = [None]\<rparr>)"
  using assms
  by (auto simp add: init_simps dense_simps ebind_eq_Inr eval_nat_numeral
      split: if_splits list.splits option.splits)

text \<open>
  In \<^verbatim>\<open>g\<close>, \<^verbatim>\<open>affine_transpose\<close> of the second block adds up no term and returns the
  number \<^verbatim>\<open>0\<close> of Python's \<^verbatim>\<open>sum\<close>; the first block passes it to \<^verbatim>\<open>F.linear\<close>, which raises.
\<close>

lemma no_direct_path_transpose:
  "affine_transpose (DDense \<lparr>dd_duals = ds, dd_dual_ts = [None]\<rparr>) [x] = Inr (Num 0)"
  by (simp add: affine_transpose_def dense_simps py_sum_def)

lemma no_direct_path_g:
  assumes "dual_net obj = [DInfBall b,
                           DDense \<lparr>dd_duals = ds,
                                   dd_dual_ts = [Some (SLinear S'), Some (SLinear A')]\<rparr>]"
    and "last_layer obj = Some (DDense \<lparr>dd_duals = ds', dd_dual_ts = [None]\<rparr>)"
  shows "g obj c = Inl (TypeError ''linear(): argument input must be Tensor'')"
  using assms
  by (cases c)
     (simp_all add: g_def affine_transpose_def dense_simps DualLinear_affine_transpose_def
        py_last_def py_sum_def eval_nat_numeral upt_rec)

text \<open>The closed form of such a network is defined, whatever the activations and the objective.\<close>

lemma emap_total: "emap (\<lambda>x. Inr (f x)) xs = Inr (map f xs)"
  by (induction xs) simp_all

lemma cf_each_total: "cf_each (\<lambda>v. Inr (f v)) d = Inr (map (map f) d)"
proof -
  have "emap (\<lambda>v. Inr (f v)) = (\<lambda>xs. Inr (map f xs))"
    by (rule ext) (rule emap_total)
  then show ?thesis
    by (simp add: cf_each_def emap_total)
qed

lemma no_direct_path_closed_form:
  "\<exists>v. closed_form zs [Dense [WLinear A], Dense [WLinear S, WNone]] X eps c = Inr v"
  by (simp add: closed_form_def cf_direction_def cf_route_def cf_part_transpose_def
      cf_each_total List.map_filter_def eval_nat_numeral upt_rec)

text \<open>
  Where the last block has an entry for its own input the two agree.  The network
  \<^verbatim>\<open>[Dense(A), Dense(S, B)]\<close>, that is \<open>z\<^sub>1 = A x + a\<close> and \<open>z\<^sub>2 = S x + B z\<^sub>1 + b\<close>, with
  \<open>A = [[1, 2], [3, 4]]\<close>, \<open>a = [5, 6]\<close>, \<open>S = [[1, 1]]\<close>, \<open>B = [[2, -1]]\<close>, \<open>b = [3]\<close>, at the input
  \<open>x = [1, -1]\<close> with \<open>\<epsilon> = 2\<close>: \<open>z\<^sub>2 = x\<^sub>2 + 7\<close>, whose least value on the ball is \<open>4\<close>.
\<close>

lemmas g_simps = g_def affine_transpose_def DualLinear_affine_transpose_def
  DualReshape_affine_transpose_def view_features_def py_last_def fval_def
  InfBall_fval_def ball_direction_def DualLinear_fval_def bias_fval_def
  DualReshape_fval_def zero_fval_def neg_matmul_vec_def as_val_def linear_def dot_def
  py_sum_def tadd_def tsub_def tmul_def bcast2_def Let_def

lemma two_branch_affine_example:
  "DualNetBounds_init
      \<lparr>call_module = (\<lambda>l zs. case l of
           Dense [WLinear a] \<Rightarrow>
             Inr (map (\<lambda>x. map2 (+) (linear (lin_weight a) x)
                            (case lin_bias a of
                               None \<Rightarrow> replicate (length (lin_weight a)) 0
                             | Some b \<Rightarrow> b)) (last zs))
         | Dense [WLinear s, WLinear b] \<Rightarrow>
             Inr (map2 (\<lambda>x z. map2 (+) (linear (lin_weight s) x)
                                (map2 (+) (linear (lin_weight b) z)
                                   (case lin_bias b of
                                      None \<Rightarrow> replicate (length (lin_weight b)) 0
                                    | Some b \<Rightarrow> b)))
                    (zs ! (length zs - 2)) (last zs))
         | _ \<Rightarrow> Inr (last zs)),
       transpose_all = (\<lambda>n. Inr n), cauchy = (\<lambda>i j. 1)\<rparr>
      [Dense [WLinear \<lparr>lin_weight = [[1, 2], [3, 4]], lin_bias = Some [5, 6]\<rparr>],
       Dense [WLinear \<lparr>lin_weight = [[1, 1]], lin_bias = None\<rparr>,
              WLinear \<lparr>lin_weight = [[2, - 1]], lin_bias = Some [3]\<rparr>]] [[1, - 1]] 2
      \<lparr>alpha_grad = False, scatter_grad = False, l1_proj = None, l1_eps = None,
        m_bounds = None, batchnorm = False, l1_type = ''exact''\<rparr>
    = Inr (\<lparr>dual_net =
          [DInfBall \<lparr>ball_epsilon = 2, ball_nu_x = [T2 [[1, - 1]], T2 [[- 1, - 1]]],
                     ball_nu_1 = [T3 [[[1, 0], [0, 1]]], T3 [[[1, 3], [2, 4]]]]\<rparr>,
           DDense \<lparr>dd_duals =
                     [Some (SLinear \<lparr>dl_layer = \<lparr>lin_weight = [[1, 2], [3, 4]],
                                                   lin_bias = Some [5, 6]\<rparr>,
                                      dl_bias = Some [T2 [[5, 6]]]\<rparr>)],
                   dd_dual_ts =
                     [Some (SLinear \<lparr>dl_layer = \<lparr>lin_weight = [[1, 1]], lin_bias = None\<rparr>,
                                      dl_bias = None\<rparr>),
                      Some (SLinear \<lparr>dl_layer = \<lparr>lin_weight = [[1, 2], [3, 4]],
                                                   lin_bias = Some [5, 6]\<rparr>,
                                      dl_bias = Some [T2 [[5, 6]]]\<rparr>)]\<rparr>],
        last_layer =
          Some (DDense \<lparr>dd_duals =
                          [Some (SLinear \<lparr>dl_layer = \<lparr>lin_weight = [[1, 1]],
                                                        lin_bias = None\<rparr>,
                                           dl_bias = None\<rparr>),
                           Some (SLinear \<lparr>dl_layer = \<lparr>lin_weight = [[2, - 1]],
                                                        lin_bias = Some [3]\<rparr>,
                                           dl_bias = Some [T2 [[3]]]\<rparr>)],
                        dd_dual_ts =
                          [Some (SLinear \<lparr>dl_layer = \<lparr>lin_weight = [[2, - 1]],
                                                        lin_bias = Some [3]\<rparr>,
                                           dl_bias = Some [T2 [[3]]]\<rparr>)]\<rparr>)\<rparr>, [])
   \<and> g \<lparr>dual_net =
          [DInfBall \<lparr>ball_epsilon = 2, ball_nu_x = [T2 [[1, - 1]], T2 [[- 1, - 1]]],
                     ball_nu_1 = [T3 [[[1, 0], [0, 1]]], T3 [[[1, 3], [2, 4]]]]\<rparr>,
           DDense \<lparr>dd_duals =
                     [Some (SLinear \<lparr>dl_layer = \<lparr>lin_weight = [[1, 2], [3, 4]],
                                                   lin_bias = Some [5, 6]\<rparr>,
                                      dl_bias = Some [T2 [[5, 6]]]\<rparr>)],
                   dd_dual_ts =
                     [Some (SLinear \<lparr>dl_layer = \<lparr>lin_weight = [[1, 1]], lin_bias = None\<rparr>,
                                      dl_bias = None\<rparr>),
                      Some (SLinear \<lparr>dl_layer = \<lparr>lin_weight = [[1, 2], [3, 4]],
                                                   lin_bias = Some [5, 6]\<rparr>,
                                      dl_bias = Some [T2 [[5, 6]]]\<rparr>)]\<rparr>],
        last_layer =
          Some (DDense \<lparr>dd_duals =
                          [Some (SLinear \<lparr>dl_layer = \<lparr>lin_weight = [[1, 1]],
                                                        lin_bias = None\<rparr>,
                                           dl_bias = None\<rparr>),
                           Some (SLinear \<lparr>dl_layer = \<lparr>lin_weight = [[2, - 1]],
                                                        lin_bias = Some [3]\<rparr>,
                                           dl_bias = Some [T2 [[3]]]\<rparr>)],
                        dd_dual_ts =
                          [Some (SLinear \<lparr>dl_layer = \<lparr>lin_weight = [[2, - 1]],
                                                        lin_bias = Some [3]\<rparr>,
                                           dl_bias = Some [T2 [[3]]]\<rparr>)]\<rparr>)\<rparr> (T3 [[[1]]])
      = Inr (T2 [[4]])
   \<and> closed_form [[[1, - 1]], [[4, 5]], [[6]]]
        [Dense [WLinear \<lparr>lin_weight = [[1, 2], [3, 4]], lin_bias = Some [5, 6]\<rparr>],
         Dense [WLinear \<lparr>lin_weight = [[1, 1]], lin_bias = None\<rparr>,
                WLinear \<lparr>lin_weight = [[2, - 1]], lin_bias = Some [3]\<rparr>]] [[1, - 1]] 2
        [[[1]]] = Inr [[4]]"
proof (intro conjI)
  show "closed_form [[[1, - 1]], [[4, 5]], [[6]]]
        [Dense [WLinear \<lparr>lin_weight = [[1, 2], [3, 4]], lin_bias = Some [5, 6]\<rparr>],
         Dense [WLinear \<lparr>lin_weight = [[1, 1]], lin_bias = None\<rparr>,
                WLinear \<lparr>lin_weight = [[2, - 1]], lin_bias = Some [3]\<rparr>]] [[1, - 1]] 2
        [[[1]]] = Inr [[4]]"
    by (simp add: cf_simps ebind_def eval_nat_numeral upt_rec nth_append)
qed (simp_all add: init_simps dense_simps g_simps eval_nat_numeral upt_rec)

text \<open>
  C1 (the code deviates).  The specification states that for every network without ReLU
  layers that was built into a dual chain, \<^verbatim>\<open>g(c)\<close> is the closed form: the objective
  propagated through the transposed maps of the layers, the bias contributions, and the
  term of the uncertainty set.  For the networks \<^verbatim>\<open>[Dense(A), Dense(S, None)]\<close> of linear
  maps \<open>A\<close> and \<open>S\<close>, whatever the input, the radius, the keyword arguments and the objective:
  if the constructor returns a chain, then \<^verbatim>\<open>g\<close> raises on it, although the closed form of
  the network has a value.
\<close>

theorem affine_bound_raises_without_direct_path:
  "DualNetBounds_init E [Dense [WLinear A], Dense [WLinear S, WNone]] X eps kw = Inr (obj, ws)
   \<longrightarrow> g obj (T3 c) = Inl (TypeError ''linear(): argument input must be Tensor'')
       \<and> (\<exists>v. closed_form zs [Dense [WLinear A], Dense [WLinear S, WNone]] X eps c = Inr v)"
proof
  assume init: "DualNetBounds_init E [Dense [WLinear A], Dense [WLinear S, WNone]] X eps kw
                  = Inr (obj, ws)"
  from no_direct_path_chain[OF init] obtain b ds ds' S' A' where
    "dual_net obj = [DInfBall b,
                     DDense \<lparr>dd_duals = ds,
                             dd_dual_ts = [Some (SLinear S'), Some (SLinear A')]\<rparr>]"
    "last_layer obj = Some (DDense \<lparr>dd_duals = ds', dd_dual_ts = [None]\<rparr>)"
    by blast
  then have "g obj (T3 c) = Inl (TypeError ''linear(): argument input must be Tensor'')"
    by (rule no_direct_path_g)
  with no_direct_path_closed_form
  show "g obj (T3 c) = Inl (TypeError ''linear(): argument input must be Tensor'')
        \<and> (\<exists>v. closed_form zs [Dense [WLinear A], Dense [WLinear S, WNone]] X eps c = Inr v)"
    by simp
qed

text \<open>
  The theorem at \<open>A = [[1, 2], [3, 4]]\<close> with bias \<open>[5, 6]\<close>, \<open>S = [[1, 1]]\<close> without bias,
  the input \<open>x = [1, -1]\<close>, \<open>\<epsilon> = 2\<close> and the objective \<open>c = [1]\<close>.  The nominal activations are
  \<open>z\<^sub>1 = A x + a = [4, 5]\<close> and \<open>z\<^sub>2 = S x = [0]\<close>.  The constructor returns the chain, \<^verbatim>\<open>g\<close>
  raises, and the closed form is \<open>- 4\<close>: the least value of \<open>x\<^sub>1 + x\<^sub>2\<close> on the ball of radius 2
  around \<open>x\<close>.
\<close>

theorem affine_bound_raises_without_direct_path_witness:
  "DualNetBounds_init
      \<lparr>call_module = (\<lambda>l zs. case l of
           Dense [WLinear a] \<Rightarrow>
             Inr (map (\<lambda>x. map2 (+) (linear (lin_weight a) x)
                            (case lin_bias a of
                               None \<Rightarrow> replicate (length (lin_weight a)) 0
                             | Some b \<Rightarrow> b)) (last zs))
         | Dense [WLinear s, WNone] \<Rightarrow>
             Inr (map (linear (lin_weight s)) (zs ! (length zs - 2)))
         | _ \<Rightarrow> Inr (last zs)),
       transpose_all = (\<lambda>n. Inr n), cauchy = (\<lambda>i j. 1)\<rparr>
      [Dense [WLinear \<lparr>lin_weight = [[1, 2], [3, 4]], lin_bias = Some [5, 6]\<rparr>],
       Dense [WLinear \<lparr>lin_weight = [[1, 1]], lin_bias = None\<rparr>, WNone]] [[1, - 1]] 2
      \<lparr>alpha_grad = False, scatter_grad = False, l1_proj = None, l1_eps = None,
        m_bounds = None, batchnorm = False, l1_type = ''exact''\<rparr>
    = Inr (\<lparr>dual_net =
          [DInfBall \<lparr>ball_epsilon = 2, ball_nu_x = [T2 [[1, - 1]], T2 [[- 1, - 1]]],
                     ball_nu_1 = [T3 [[[1, 0], [0, 1]]], T3 [[[1, 3], [2, 4]]]]\<rparr>,
           DDense \<lparr>dd_duals =
                     [Some (SLinear \<lparr>dl_layer = \<lparr>lin_weight = [[1, 2], [3, 4]],
                                                   lin_bias = Some [5, 6]\<rparr>,
                                      dl_bias = Some [T2 [[5, 6]]]\<rparr>)],
                   dd_dual_ts =
                     [Some (SLinear \<lparr>dl_layer = \<lparr>lin_weight = [[1, 1]], lin_bias = None\<rparr>,
                                      dl_bias = None\<rparr>),
                      Some (SLinear \<lparr>dl_layer = \<lparr>lin_weight = [[1, 2], [3, 4]],
                                                   lin_bias = Some [5, 6]\<rparr>,
                                      dl_bias = Some [T2 [[5, 6]]]\<rparr>)]\<rparr>],
        last_layer =
          Some (DDense \<lparr>dd_duals =
                          [Some (SLinear \<lparr>dl_layer = \<lparr>lin_weight = [[1, 1]],
                                                        lin_bias = None\<rparr>,
                                           dl_bias = None\<rparr>), None],
                        dd_dual_ts = [None]\<rparr>)\<rparr>, [])
   \<and> affine_transpose
        (DDense \<lparr>dd_duals =
                    [Some (SLinear \<lparr>dl_layer = \<lparr>lin_weight = [[1, 1]], lin_bias = None\<rparr>,
                                     dl_bias = None\<rparr>), None],
                  dd_dual_ts = [None]\<rparr>) [T3 [[[- 1]]]] = Inr (Num 0)
   \<and> g \<lparr>dual_net =
          [DInfBall \<lparr>ball_epsilon = 2, ball_nu_x = [T2 [[1, - 1]], T2 [[- 1, - 1]]],
                     ball_nu_1 = [T3 [[[1, 0], [0, 1]]], T3 [[[1, 3], [2, 4]]]]\<rparr>,
           DDense \<lparr>dd_duals =
                     [Some (SLinear \<lparr>dl_layer = \<lparr>lin_weight = [[1, 2], [3, 4]],
                                                   lin_bias = Some [5, 6]\<rparr>,
                                      dl_bias = Some [T2 [[5, 6]]]\<rparr>)],
                   dd_dual_ts =
                     [Some (SLinear \<lparr>dl_layer = \<lparr>lin_weight = [[1, 1]], lin_bias = None\<rparr>,
                                      dl_bias = None\<rparr>),
                      Some (SLinear \<lparr>dl_layer = \<lparr>lin_weight = [[1, 2], [3, 4]],
                                                   lin_bias = Some [5, 6]\<rparr>,
                                      dl_bias = Some [T2 [[5, 6]]]\<rparr>)]\<rparr>],
        last_layer =
          Some (DDense \<lparr>dd_duals =
                          [Some (SLinear \<lparr>dl_layer = \<lparr>lin_weight = [[1, 1]],
                                                        lin_bias = None\<rparr>,
                                           dl_bias = None\<rparr>), None],
                        dd_dual_ts = [None]\<rparr>)\<rparr> (T3 [[[1]]])
      = Inl (TypeError ''linear(): argument input must be Tensor'')
   \<and> closed_form [[[1, - 1]], [[4, 5]], [[0]]]
        [Dense [WLinear \<lparr>lin_weight = [[1, 2], [3, 4]], lin_bias = Some [5, 6]\<rparr>],
         Dense [WLinear \<lparr>lin_weight = [[1, 1]], lin_bias = None\<rparr>, WNone]] [[1, - 1]] 2
        [[[1]]] = Inr [[- 4]]"
proof -
  let ?E = "\<lparr>call_module = (\<lambda>l zs. case l of
           Dense [WLinear a] \<Rightarrow>
             Inr (map (\<lambda>x. map2 (+) (linear (lin_weight a) x)
                            (case lin_bias a of
                               None \<Rightarrow> replicate (length (lin_weight a)) 0
                             | Some b \<Rightarrow> b)) (last zs))
         | Dense [WLinear s, WNone] \<Rightarrow>
             Inr (map (linear (lin_weight s)) (zs ! (length zs - 2)))
         | _ \<Rightarrow> Inr (last zs)),
       transpose_all = (\<lambda>n. Inr n), cauchy = (\<lambda>i j. 1)\<rparr>"
  let ?A = "\<lparr>lin_weight = [[1, 2], [3, 4]], lin_bias = Some [5, 6]\<rparr>"
  let ?S = "\<lparr>lin_weight = [[1, 1]], lin_bias = None\<rparr>"
  let ?kw = "\<lparr>alpha_grad = False, scatter_grad = False, l1_proj = None, l1_eps = None,
        m_bounds = None, batchnorm = False, l1_type = ''exact''\<rparr>"
  let ?obj = "\<lparr>dual_net =
          [DInfBall \<lparr>ball_epsilon = 2, ball_nu_x = [T2 [[1, - 1]], T2 [[- 1, - 1]]],
                     ball_nu_1 = [T3 [[[1, 0], [0, 1]]], T3 [[[1, 3], [2, 4]]]]\<rparr>,
           DDense \<lparr>dd_duals = [Some (SLinear \<lparr>dl_layer = ?A, dl_bias = Some [T2 [[5, 6]]]\<rparr>)],
                   dd_dual_ts =
                     [Some (SLinear \<lparr>dl_layer = ?S, dl_bias = None\<rparr>),
                      Some (SLinear \<lparr>dl_layer = ?A, dl_bias = Some [T2 [[5, 6]]]\<rparr>)]\<rparr>],
        last_layer =
          Some (DDense \<lparr>dd_duals = [Some (SLinear \<lparr>dl_layer = ?S, dl_bias = None\<rparr>), None],
                        dd_dual_ts = [None]\<rparr>)\<rparr>"
  have init: "DualNetBounds_init ?E [Dense [WLinear ?A], Dense [WLinear ?S, WNone]]
                [[1, - 1]] 2 ?kw = Inr (?obj, [])"
    by (simp add: init_simps dense_simps eval_nat_numeral)
  have zero: "affine_transpose
        (DDense \<lparr>dd_duals = [Some (SLinear \<lparr>dl_layer = ?S, dl_bias = None\<rparr>), None],
                  dd_dual_ts = [None]\<rparr>) [T3 [[[- 1]]]] = Inr (Num 0)"
    by (simp add: affine_transpose_def dense_simps py_sum_def)
  have cf: "closed_form [[[1, - 1]], [[4, 5]], [[0]]]
        [Dense [WLinear ?A], Dense [WLinear ?S, WNone]] [[1, - 1]] 2 [[[1]]] = Inr [[- 4]]"
    by (simp add: cf_simps ebind_def eval_nat_numeral upt_rec nth_append)
  from affine_bound_raises_without_direct_path[where E = ?E and A = ?A and S = ?S
      and X = "[[1, - 1]]" and eps = 2 and kw = ?kw and obj = ?obj and ws = "[]"
      and c = "[[[1]]]" and zs = "[[[1, - 1]], [[4, 5]], [[0]]]"] init zero cf
  show ?thesis by simp
qed

end
